theory Spec2Isabelle
  imports Complex_Main "HOL-Library.Sublist"
begin

section \<open>Values shared by the modules\<close>

text \<open>
  JavaScript strings are sequences of code units; they are modelled as \<open>string\<close>.
  Instants are milliseconds since the epoch (what \<open>Date.now()\<close> and \<open>getTime()\<close> return); an
  ISO-8601 text produced by \<open>toISOString()\<close> is identified with its instant.
\<close>

type_synonym job_id = string
type_synonym timestamp = int

text \<open>Decimal rendering of a non-negative integer, as template literals and \<open>join\<close> do.\<close>

fun show_nat :: "nat \<Rightarrow> string" where
  "show_nat n = (if n < 10 then [''0123456789'' ! n]
                 else show_nat (n div 10) @ [''0123456789'' ! (n mod 10)])"

declare show_nat.simps [simp del]

text \<open>
  A value \<open>JSON.parse\<close> returns. A finite number is \<open>JNum q\<close> with \<open>q\<close> rational: every
  finite double is one, and only integrality and order are ever inspected. A numeral
  beyond the range of the doubles, such as \<open>1e400\<close>, is parsed to \<open>Infinity\<close>, which is
  \<open>JInf True\<close>; \<open>JInf False\<close> is \<open>-Infinity\<close>. \<open>NaN\<close> is not the value of any JSON text.
  The list of an object holds its own properties in insertion order; a property is read
  with \<open>map_of\<close>.
\<close>

datatype json =
    JNull
  | JBool bool
  | JNum rat
  | JInf bool
  | JStr string
  | JArr "json list"
  | JObj "(string \<times> json) list"

text \<open>An issue of a Zod error: the path to the offending value and the reason.\<close>

datatype path_elem = Key string | Idx nat

datatype zod_issue = ZodIssue (path: "path_elem list") (message: string)

text \<open>
  Thrown values. \<open>Exn name message\<close> is an \<open>Error\<close>-like object with its \<open>name\<close> and
  \<open>message\<close> properties; \<open>ZodError\<close> is the error thrown by a schema's \<open>parse\<close>.
\<close>

datatype exn =
    Exn (exn_name: string) (exn_message: string)
  | ZodError (errors: "zod_issue list")

section \<open>llm.js: the generation client\<close>

text \<open>
  What one call of \<open>fetch\<close> does: it resolves to a response (status and body) or it
  throws (a network error, or an \<open>AbortError\<close> when the signal fired).
\<close>

datatype response = Response (http_status: nat) (body: string)

datatype fetch_outcome = Responds response | Throws exn

definition ok :: "response \<Rightarrow> bool" where
  "ok res = (200 \<le> http_status res \<and> http_status res \<le> 299)"

text \<open>
  The body of the \<open>try\<close> block of \<open>fetchWithRetry\<close>: \<open>Inl\<close> is a value thrown inside the
  block, \<open>Inr (Some res)\<close> is \<open>return res\<close>, and \<open>Inr None\<close> leaves the block normally.
\<close>

definition try_fetch :: "fetch_outcome \<Rightarrow> nat \<Rightarrow> int \<Rightarrow> exn + response option" where
  "try_fetch outcome attempt retries =
     (case outcome of
        Throws err \<Rightarrow> Inl err
      | Responds res \<Rightarrow>
          if ok res then Inr (Some res)
          else
            let retryable = (http_status res = 429 \<or> http_status res \<ge> 500) in
            if \<not> retryable \<or> int attempt \<ge> retries
            then Inl (Exn ''Error'' (''LLM request failed: HTTP '' @ show_nat (http_status res)))
            else Inr None)"

text \<open>
  The \<open>catch\<close> block, which receives every value thrown inside the \<open>try\<close> block:
  \<open>Some e\<close> is \<open>throw e\<close>, \<open>None\<close> falls through to the backoff.
\<close>

definition catch_fetch :: "exn \<Rightarrow> nat \<Rightarrow> int \<Rightarrow> exn option" where
  "catch_fetch err attempt retries =
     (if (case err of Exn n _ \<Rightarrow> n = ''AbortError'' | ZodError _ \<Rightarrow> False)
      then Some (Exn ''Error'' ''LLM request aborted by timeout'')
      else if int attempt \<ge> retries then Some err
      else None)"

text \<open>
  One iteration up to the backoff: \<open>Some r\<close> when the iteration leaves the function
  (\<open>Inr\<close> returned, \<open>Inl\<close> thrown), \<open>None\<close> when control reaches the backoff.
\<close>

definition attempt_once :: "fetch_outcome \<Rightarrow> nat \<Rightarrow> int \<Rightarrow> (exn + response) option" where
  "attempt_once outcome attempt retries =
     (case try_fetch outcome attempt retries of
        Inr (Some res) \<Rightarrow> Some (Inr res)
      | Inr None \<Rightarrow> None
      | Inl err \<Rightarrow>
          (case catch_fetch err attempt retries of
             Some e \<Rightarrow> Some (Inl e)
           | None \<Rightarrow> None))"

lemma attempt_once_None: "attempt_once outcome attempt retries = None \<Longrightarrow> int attempt < retries"
  by (auto simp: attempt_once_def try_fetch_def catch_fetch_def Let_def
      split: fetch_outcome.splits if_splits sum.splits option.splits exn.splits)

text \<open>
  \<open>fetchWithRetry\<close>. The \<open>n\<close>-th call of \<open>fetch\<close> (from 0) has the outcome \<open>fetch n\<close>, and
  \<open>jitter n\<close> is the value of \<open>Math.floor(Math.random() * baseDelay)\<close> drawn after it.
  The loop makes one call per iteration, so the call number is \<open>attempt\<close>. The result
  carries the durations slept so far, oldest first: one entry per backoff sleep.
\<close>

function fetchWithRetry ::
  "(nat \<Rightarrow> fetch_outcome) \<Rightarrow> (nat \<Rightarrow> int) \<Rightarrow> int \<Rightarrow> int \<Rightarrow> int \<Rightarrow> nat \<Rightarrow> int list
     \<Rightarrow> (exn + response) \<times> int list" where
  "fetchWithRetry fetch jitter retries baseDelay factor attempt slept =
     (case attempt_once (fetch attempt) attempt retries of
        Some r \<Rightarrow> (r, slept)
      | None \<Rightarrow>
          (let delay = baseDelay * factor ^ attempt in
           fetchWithRetry fetch jitter retries baseDelay factor (attempt + 1)
             (slept @ [delay + jitter attempt])))"
  by pat_completeness auto
termination
  by (relation "measure (\<lambda>(fetch, jitter, retries, baseDelay, factor, attempt, slept).
        nat (retries - int attempt))") (auto dest: attempt_once_None)

declare fetchWithRetry.simps [simp del]

text \<open>
  \<open>extractFirstJsonArray\<close>. \<open>indexOf\<close> returns the first index of the character, or -1;
  \<open>slice\<close> is \<open>str.slice(a, b)\<close> for \<open>0 \<le> a \<le> b\<close>. The \<open>for\<close> loop is \<open>scan\<close>, with the loop
  variable \<open>i\<close> and the local \<open>depth\<close> as arguments.
\<close>

fun indexOf :: "string \<Rightarrow> char \<Rightarrow> int" where
  "indexOf [] c = -1"
| "indexOf (x # xs) c =
     (if x = c then 0 else (let r = indexOf xs c in if r = -1 then -1 else r + 1))"

definition slice :: "string \<Rightarrow> nat \<Rightarrow> nat \<Rightarrow> string" where
  "slice str a b = take (b - a) (drop a str)"

function scan :: "string \<Rightarrow> nat \<Rightarrow> nat \<Rightarrow> int \<Rightarrow> exn + string" where
  "scan str start i depth =
     (if i < length str then
        (if str ! i = CHR ''['' then scan str start (i + 1) (depth + 1)
         else if str ! i = CHR '']'' then
           (if depth - 1 = 0 then Inr (slice str start (i + 1))
            else scan str start (i + 1) (depth - 1))
         else scan str start (i + 1) depth)
      else Inl (Exn ''Error'' ''No matching ] found for JSON array''))"
  by pat_completeness auto
termination
  by (relation "measure (\<lambda>(str, start, i, depth). length str - i)") auto

declare scan.simps [simp del]

definition extractFirstJsonArray :: "string \<Rightarrow> exn + string" where
  "extractFirstJsonArray str =
     (let start = indexOf str CHR ''['' in
      if start = -1 then Inl (Exn ''Error'' ''No JSON array start found'')
      else scan str (nat start) (nat start) 0)"

text \<open>
  The specification's reading of the extraction, written from its words and not from the
  loop: \<open>bracket_depth\<close> counts \<open>[\<close> as +1 and \<open>]\<close> as -1, and the result is the text from
  the first \<open>[\<close> through the place where the depth first returns to zero.
\<close>

definition bracket_depth :: "string \<Rightarrow> int" where
  "bracket_depth s = int (count_list s CHR ''['') - int (count_list s CHR '']'')"

definition first_balanced_array :: "string \<Rightarrow> exn + string" where
  "first_balanced_array str =
     (if CHR ''['' \<notin> set str then Inl (Exn ''Error'' ''No JSON array start found'')
      else
        let rest = dropWhile (\<lambda>c. c \<noteq> CHR ''['') str in
        case find (\<lambda>n. bracket_depth (take n rest) = 0) [1 ..< length rest + 1] of
          None \<Rightarrow> Inl (Exn ''Error'' ''No matching ] found for JSON array'')
        | Some n \<Rightarrow> Inr (take n rest))"

text \<open>
  \<open>generateItinerary\<close>, from the call of \<open>fetchWithRetry\<close> on. The library functions it
  calls are parameters: \<open>content res\<close> is \<open>(await res.json()).choices?.[0]?.message?.content\<close>
  (it may throw, and may be \<open>undefined\<close>), \<open>trim\<close> is \<open>String.prototype.trim\<close> and
  \<open>JSON_parse\<close> is \<open>JSON.parse\<close>. The second component is the list of backoff sleeps.
\<close>

definition generateItinerary ::
  "(response \<Rightarrow> exn + string option) \<Rightarrow> (string \<Rightarrow> string) \<Rightarrow> (string \<Rightarrow> exn + json)
     \<Rightarrow> (nat \<Rightarrow> fetch_outcome) \<Rightarrow> (nat \<Rightarrow> int) \<Rightarrow> int \<Rightarrow> int
     \<Rightarrow> (exn + json) \<times> int list" where
  "generateItinerary content trim JSON_parse fetch jitter retries baseDelay =
     (case fetchWithRetry fetch jitter retries baseDelay 2 0 [] of
        (Inl err, slept) \<Rightarrow> (Inl err, slept)
      | (Inr resp, slept) \<Rightarrow>
          (case content resp of
             Inl err \<Rightarrow> (Inl err, slept)
           | Inr raw \<Rightarrow>
               if raw = None \<or> raw = Some [] then (Inl (Exn ''Error'' ''Empty LLM response''), slept)
               else
                 let trimmed = trim (the raw) in
                 (case JSON_parse trimmed of
                    Inr v \<Rightarrow> (Inr v, slept)
                  | Inl _ \<Rightarrow>
                      (case extractFirstJsonArray trimmed of
                         Inl err \<Rightarrow> (Inl err, slept)
                       | Inr arrText \<Rightarrow> (JSON_parse arrText, slept)))))"

section \<open>jobs.js: the itinerary schema\<close>

text \<open>
  The schema is written in \<open>jobs.js\<close> with the combinators of the Zod library, a
  dependency whose code is not part of the repository. The sweep reads the issues of a
  caught error as \<open>err.errors\<close>, the name they have in Zod 3, so the combinators below
  give the behaviour of Zod 3 as far as the schema uses it. A schema takes the path of the
  value and the value (\<open>None\<close> is \<open>undefined\<close>, the value of a missing property) and yields
  the issues it found, in the order Zod reports them, and the output value, which is
  meaningful when there is no issue. A value of the wrong type yields one \<open>invalid_type\<close>
  issue and is not inspected further; the checks of a number, the elements of an array
  and the properties of an object are all run, whatever the earlier ones found; an object
  schema copies the properties of its shape, in the order of the shape, and drops every
  other property. The reasons are Zod 3's default messages.
\<close>

type_synonym schema = "path_elem list \<Rightarrow> json option \<Rightarrow> zod_issue list \<times> json"

definition parsed_type :: "json option \<Rightarrow> string" where
  "parsed_type v =
     (case v of
        None \<Rightarrow> ''undefined''
      | Some JNull \<Rightarrow> ''null''
      | Some (JBool _) \<Rightarrow> ''boolean''
      | Some (JNum _) \<Rightarrow> ''number''
      | Some (JInf _) \<Rightarrow> ''number''
      | Some (JStr _) \<Rightarrow> ''string''
      | Some (JArr _) \<Rightarrow> ''array''
      | Some (JObj _) \<Rightarrow> ''object'')"

definition invalid_type :: "path_elem list \<Rightarrow> string \<Rightarrow> json option \<Rightarrow> zod_issue" where
  "invalid_type p expected v =
     ZodIssue p (if v = None then ''Required''
                 else ''Expected '' @ expected @ '', received '' @ parsed_type v)"

definition is_integer :: "rat \<Rightarrow> bool" where
  "is_integer q = (of_int \<lfloor>q\<rfloor> = q)"

definition z_string :: schema where
  "z_string p v =
     (case v of
        Some (JStr s) \<Rightarrow> ([], JStr s)
      | _ \<Rightarrow> ([invalid_type p ''string'' v], JNull))"

text \<open>
  \<open>z.number().int().min(m)\<close>. An infinite number is a number, is not an integer, and is
  below the minimum when it is \<open>-Infinity\<close>.
\<close>

definition z_number_int_min :: "nat \<Rightarrow> schema" where
  "z_number_int_min m p v =
     (case v of
        Some (JNum q) \<Rightarrow>
          ((if \<not> is_integer q then [ZodIssue p ''Expected integer, received float''] else []) @
           (if q < of_nat m
            then [ZodIssue p (''Number must be greater than or equal to '' @ show_nat m)]
            else []),
           JNum q)
      | Some (JInf positive) \<Rightarrow>
          ([ZodIssue p ''Expected integer, received float''] @
           (if \<not> positive
            then [ZodIssue p (''Number must be greater than or equal to '' @ show_nat m)]
            else []),
           JInf positive)
      | _ \<Rightarrow> ([invalid_type p ''number'' v], JNull))"

text \<open>\<open>z.array(element).min(m)\<close>\<close>

definition z_array_min :: "schema \<Rightarrow> nat \<Rightarrow> schema" where
  "z_array_min element m p v =
     (case v of
        Some (JArr xs) \<Rightarrow>
          (let results = map (\<lambda>(i, x). element (p @ [Idx i]) (Some x)) (enumerate 0 xs) in
           ((if length xs < m
             then [ZodIssue p (''Array must contain at least '' @ show_nat m @ '' element(s)'')]
             else []) @ concat (map fst results),
            JArr (map snd results)))
      | _ \<Rightarrow> ([invalid_type p ''array'' v], JNull))"

text \<open>\<open>z.object(shape)\<close>\<close>

definition z_object :: "(string \<times> schema) list \<Rightarrow> schema" where
  "z_object shape p v =
     (case v of
        Some (JObj props) \<Rightarrow>
          (let results = map (\<lambda>(k, s). (k, s (p @ [Key k]) (map_of props k))) shape in
           (concat (map (\<lambda>(k, r). fst r) results), JObj (map (\<lambda>(k, r). (k, snd r)) results)))
      | _ \<Rightarrow> ([invalid_type p ''object'' v], JNull))"

definition Activity :: schema where
  "Activity = z_object
     [(''time'', z_string), (''description'', z_string), (''location'', z_string)]"

definition DayItinerary :: schema where
  "DayItinerary = z_object
     [(''day'', z_number_int_min 1), (''theme'', z_string),
      (''activities'', z_array_min Activity 1)]"

definition ItinerarySchema :: schema where
  "ItinerarySchema = z_array_min DayItinerary 1"

text \<open>\<open>schema.parse(value)\<close>: the output, or a \<open>ZodError\<close> holding every issue found.\<close>

definition parse :: "schema \<Rightarrow> json \<Rightarrow> exn + json" where
  "parse s v =
     (case s [] (Some v) of (issues, out) \<Rightarrow>
        if issues = [] then Inr out else Inl (ZodError issues))"

text \<open>
  The message the \<open>catch\<close> block of the sweep builds from the caught value:
  \<open>e.path.join('.')\<close> is \<open>path_join\<close>, \<open>join\<close> is \<open>Array.prototype.join\<close>.
\<close>

fun join :: "string \<Rightarrow> string list \<Rightarrow> string" where
  "join sep [] = []"
| "join sep [x] = x"
| "join sep (x # y # ys) = x @ sep @ join sep (y # ys)"

definition path_join :: "path_elem list \<Rightarrow> string" where
  "path_join p = join ''.'' (map (\<lambda>x. case x of Key k \<Rightarrow> k | Idx i \<Rightarrow> show_nat i) p)"

definition error_message :: "exn \<Rightarrow> string" where
  "error_message err =
     (case err of
        ZodError es \<Rightarrow>
          ''Validation error: '' @ join ''; '' (map (\<lambda>e. path_join (path e) @ '': '' @ message e) es)
      | Exn _ m \<Rightarrow> if m = [] then ''Unknown error'' else m)"

section \<open>firestore.js: the durable store adapter\<close>

text \<open>
  A field value of the document store's wire format, and the effects a run has on the two
  stores, in the order they happen: a queue record written or deleted, and a document
  patched (with the field paths of its update mask and the fields sent).
\<close>

datatype fs_value = StringValue string | TimestampValue timestamp | NullValue

text \<open>
  The queue record, as \<open>JSON.parse\<close> returns it from the text the submission handler or
  the sweep stored. \<open>durationDays\<close> is \<open>None\<close> when it is \<open>null\<close>, which is what
  \<open>JSON.stringify\<close> writes for a number that is not finite; \<open>lockedAt\<close> and \<open>error\<close> are
  \<open>None\<close> when the property is absent.
\<close>

record job =
  destination :: string
  durationDays :: "rat option"
  status :: string
  createdAt :: timestamp
  lockedAt :: "timestamp option"
  error :: "string option"

datatype event =
    KvPut job_id job
  | KvDelete job_id
  | DocPatch job_id "string list" "(string \<times> fs_value) list"

text \<open>
  A text stored in the queue store. \<open>Encoded j\<close> is the JSON text of the record \<open>j\<close>;
  \<open>JsonNull\<close> is the JSON text \<open>null\<close>; \<open>JsonOther\<close> is any other JSON text whose value has no
  \<open>status\<close> equal to \<open>pending\<close> or \<open>in-progress\<close> (a number, a string, a boolean, an array,
  an object without such a status); \<open>Text s\<close> is the text \<open>s\<close> that is not JSON (the empty
  text, or one \<open>JSON.parse\<close> throws on). An object with such a status whose other
  properties are not those of a record is not among the stored texts considered.
\<close>

datatype kv_text = Encoded job | JsonNull | JsonOther | Text string

text \<open>What \<open>JSON.parse\<close> returns for a stored text that is JSON.\<close>

datatype parsed = Job job | Null | Other

record world =
  kv :: "job_id \<rightharpoonup> kv_text"
  trace :: "event list"

text \<open>
  What the outside decides during a sweep. Each call the sweep makes for a job can throw:
  \<open>kv_fault jobId site\<close> is the value thrown by the queue store call at that place of the
  loop body (\<open>None\<close>: the call succeeds), \<open>save_fault jobId status\<close> the name and message of
  the error thrown by \<open>saveItinerary\<close> when called with that status. A call that throws has
  no effect on its store. \<open>generate\<close> is the outcome of \<open>runWithTimeout\<close> around
  \<open>generateItinerary\<close> for the job; \<open>stringify\<close> is \<open>JSON.stringify\<close>; the remaining fields
  are the values the clock returns at the three places it is read, and the outcome of
  \<open>JOBS_KV.list()\<close>.
\<close>

datatype kv_site = Get | PutReset | PutLock | Delete | PutFailed

record env =
  kv_list :: "exn + job_id list"
  kv_fault :: "job_id \<Rightarrow> kv_site \<Rightarrow> exn option"
  save_fault :: "job_id \<Rightarrow> string \<Rightarrow> (string \<times> string) option"
  generate :: "job_id \<Rightarrow> string \<Rightarrow> rat option \<Rightarrow> exn + json"
  stringify :: "json \<Rightarrow> string"
  now :: timestamp
  lock_time :: "job_id \<Rightarrow> timestamp"
  completed_time :: "job_id \<Rightarrow> timestamp"
  failed_time :: "job_id \<Rightarrow> timestamp"

text \<open>
  \<open>saveItinerary\<close>. \<open>itinerary = None\<close> is \<open>undefined\<close> (the property is not passed),
  \<open>completedAt = None\<close> and \<open>err = None\<close> are \<open>null\<close>. A timestamp text is never empty,
  so a given \<open>completedAt\<close> is truthy; an empty error text is falsy.
\<close>

definition saveItinerary ::
  "env \<Rightarrow> job_id \<Rightarrow> string \<Rightarrow> json option \<Rightarrow> timestamp \<Rightarrow> timestamp option \<Rightarrow> string option
     \<Rightarrow> world \<Rightarrow> (string \<times> string) option \<times> world" where
  "saveItinerary e jobId st itinerary updatedAt completedAt err w =
     (let paths = [''status'', ''updatedAt'', ''completedAt'', ''error''] @
                  (if itinerary \<noteq> None then [''itinerary''] else []);
          fields =
            [(''status'', StringValue st),
             (''updatedAt'', TimestampValue updatedAt),
             (''completedAt'', (case completedAt of Some t \<Rightarrow> TimestampValue t | None \<Rightarrow> NullValue)),
             (''error'', (case err of
                            Some m \<Rightarrow> if m \<noteq> [] then StringValue m else NullValue
                          | None \<Rightarrow> NullValue))] @
            (case itinerary of
               Some it \<Rightarrow> [(''itinerary'', StringValue (stringify e it))]
             | None \<Rightarrow> [])
      in case save_fault e jobId st of
           Some x \<Rightarrow> (Some x, w)
         | None \<Rightarrow> (None, w\<lparr>trace := trace w @ [DocPatch jobId paths fields]\<rparr>))"

section \<open>jobs.js: the sweep\<close>

definition kv_get :: "env \<Rightarrow> job_id \<Rightarrow> world \<Rightarrow> exn + kv_text option" where
  "kv_get e jobId w =
     (case kv_fault e jobId Get of Some x \<Rightarrow> Inl x | None \<Rightarrow> Inr (kv w jobId))"

definition kv_put :: "env \<Rightarrow> kv_site \<Rightarrow> job_id \<Rightarrow> job \<Rightarrow> world \<Rightarrow> exn + world" where
  "kv_put e site jobId j w =
     (case kv_fault e jobId site of
        Some x \<Rightarrow> Inl x
      | None \<Rightarrow> Inr (w\<lparr>kv := (kv w)(jobId \<mapsto> Encoded j), trace := trace w @ [KvPut jobId j]\<rparr>))"

definition kv_delete :: "env \<Rightarrow> job_id \<Rightarrow> world \<Rightarrow> exn + world" where
  "kv_delete e jobId w =
     (case kv_fault e jobId Delete of
        Some x \<Rightarrow> Inl x
      | None \<Rightarrow> Inr (w\<lparr>kv := (kv w)(jobId := None), trace := trace w @ [KvDelete jobId]\<rparr>))"

text \<open>\<open>!raw\<close>: the key has no value, or the empty text.\<close>

definition falsy :: "kv_text option \<Rightarrow> bool" where
  "falsy raw = (raw = None \<or> raw = Some (Text []))"

text \<open>\<open>JSON.parse(raw)\<close> on a stored text.\<close>

definition JSON_parse_job :: "kv_text \<Rightarrow> exn + parsed" where
  "JSON_parse_job raw =
     (case raw of
        Encoded j \<Rightarrow> Inr (Job j)
      | JsonNull \<Rightarrow> Inr Null
      | JsonOther \<Rightarrow> Inr Other
      | Text s \<Rightarrow> Inl (Exn ''SyntaxError'' (''Unexpected token in JSON: '' @ s)))"

text \<open>
  \<open>now - new Date(job.lockedAt).getTime() > 600_000\<close>. With \<open>lockedAt\<close> absent the date is
  invalid, the difference is \<open>NaN\<close> and the comparison is false.
\<close>

definition stale :: "env \<Rightarrow> job \<Rightarrow> bool" where
  "stale e j = (case lockedAt j of None \<Rightarrow> False | Some t \<Rightarrow> now e - t > 600000)"

text \<open>The reset of a stale lock: the record the loop goes on with, and the world.\<close>

definition reclaim :: "env \<Rightarrow> job_id \<Rightarrow> job \<Rightarrow> world \<Rightarrow> exn + job \<times> world" where
  "reclaim e jobId j w =
     (if status j = ''in-progress'' \<and> stale e j then
        (let j1 = j\<lparr>status := ''pending'', error := None\<rparr> in
         case kv_put e PutReset jobId j1 w of
           Inl x \<Rightarrow> Inl x
         | Inr w1 \<Rightarrow> Inr (j1, w1))
      else Inr (j, w))"

text \<open>
  The \<open>try\<close> block of the loop body: \<open>Some err\<close> is a value thrown inside it, with the
  world as it is at the throw.
\<close>

definition attempt_job :: "env \<Rightarrow> job_id \<Rightarrow> job \<Rightarrow> world \<Rightarrow> exn option \<times> world" where
  "attempt_job e jobId j w =
     (case generate e jobId (destination j) (durationDays j) of
        Inl err \<Rightarrow> (Some err, w)
      | Inr rawItinerary \<Rightarrow>
          (case parse ItinerarySchema rawItinerary of
             Inl err \<Rightarrow> (Some err, w)
           | Inr itinerary \<Rightarrow>
               (let nowTs = completed_time e jobId in
                case saveItinerary e jobId ''completed'' (Some itinerary) nowTs (Some nowTs) None w of
                  (Some (n, m), w1) \<Rightarrow> (Some (Exn n m), w1)
                | (None, w1) \<Rightarrow>
                    (case kv_delete e jobId w1 of
                       Inl err \<Rightarrow> (Some err, w1)
                     | Inr w2 \<Rightarrow> (None, w2)))))"

text \<open>
  The \<open>catch\<close> block. \<open>persistErr?.message || persistErr\<close> is the message of the error, or
  its name when the message is empty. The last write is outside the inner \<open>try\<close>: what it
  throws leaves the loop body.
\<close>

definition fail_job :: "env \<Rightarrow> job_id \<Rightarrow> job \<Rightarrow> exn \<Rightarrow> world \<Rightarrow> exn option \<times> world" where
  "fail_job e jobId j err w =
     (let nowTs = failed_time e jobId;
          msg = error_message err
      in case saveItinerary e jobId ''failed'' None nowTs None (Some msg) w of
           (persistErr, w1) \<Rightarrow>
             (let msg1 = (case persistErr of
                            None \<Rightarrow> msg
                          | Some (n, m) \<Rightarrow> msg @ '' | persistError: '' @ (if m \<noteq> [] then m else n))
              in case kv_put e PutFailed jobId (j\<lparr>status := ''failed'', error := Some msg1\<rparr>) w1 of
                   Inl x \<Rightarrow> (Some x, w1)
                 | Inr w2 \<Rightarrow> (None, w2)))"

text \<open>
  The body of the \<open>for\<close> loop for one key: \<open>Some x\<close> is a value thrown out of the body
  (and so out of \<open>processPendingJobs\<close>), \<open>None\<close> is the end of the iteration, by \<open>continue\<close>
  or by reaching the end of the body. The first use of the parsed value is the read of
  \<open>job.status\<close>: on \<open>null\<close> it throws a \<open>TypeError\<close>; on a value without a status of
  \<open>pending\<close> or \<open>in-progress\<close> neither test holds and the iteration ends.
\<close>

definition process_job :: "env \<Rightarrow> job_id \<Rightarrow> world \<Rightarrow> exn option \<times> world" where
  "process_job e jobId w =
     (case kv_get e jobId w of
        Inl x \<Rightarrow> (Some x, w)
      | Inr raw \<Rightarrow>
          if falsy raw then (None, w)
          else
            (case JSON_parse_job (the raw) of
               Inl x \<Rightarrow> (Some x, w)
             | Inr Null \<Rightarrow>
                 (Some (Exn ''TypeError'' ''Cannot read properties of null (reading status)''), w)
             | Inr Other \<Rightarrow> (None, w)
             | Inr (Job j) \<Rightarrow>
                 (case reclaim e jobId j w of
                    Inl x \<Rightarrow> (Some x, w)
                  | Inr (j1, w1) \<Rightarrow>
                      if status j1 \<noteq> ''pending'' then (None, w1)
                      else
                        (let j2 = j1\<lparr>status := ''in-progress'', lockedAt := Some (lock_time e jobId)\<rparr> in
                         case kv_put e PutLock jobId j2 w1 of
                           Inl x \<Rightarrow> (Some x, w1)
                         | Inr w2 \<Rightarrow>
                             (case attempt_job e jobId j2 w2 of
                                (None, w3) \<Rightarrow> (None, w3)
                              | (Some err, w3) \<Rightarrow> fail_job e jobId j2 err w3)))))"

fun sweep :: "env \<Rightarrow> job_id list \<Rightarrow> world \<Rightarrow> exn option \<times> world" where
  "sweep e [] w = (None, w)"
| "sweep e (jobId # keys) w =
     (case process_job e jobId w of
        (Some x, w1) \<Rightarrow> (Some x, w1)
      | (None, w1) \<Rightarrow> sweep e keys w1)"

text \<open>
  \<open>processPendingJobs\<close>: \<open>Some x\<close> when the promise it returns is rejected with \<open>x\<close>,
  \<open>None\<close> when it is fulfilled.
\<close>

definition processPendingJobs :: "env \<Rightarrow> world \<Rightarrow> exn option \<times> world" where
  "processPendingJobs e w =
     (case kv_list e of
        Inl x \<Rightarrow> (Some x, w)
      | Inr keys \<Rightarrow> sweep e keys w)"

section \<open>index.js: the submission handler\<close>

text \<open>
  The \<open>POST\<close> branch of \<open>fetch\<close>, up to the response. \<open>payload\<close> is the outcome of
  \<open>request.json()\<close> (\<open>None\<close>: it throws), \<open>jobId\<close> the identifier \<open>crypto.randomUUID()\<close>
  returns, \<open>created\<close> the clock, \<open>put_fault\<close> what the queue store's \<open>put\<close> throws, if it
  does. Destructuring \<open>null\<close> throws a \<open>TypeError\<close>; a property of any other value that
  is not an object with that property is \<open>undefined\<close>. \<open>typeof\<close> is the operator of that
  name. The record is stored as the text \<open>JSON.stringify\<close> writes, in which a number that
  is not finite is written \<open>null\<close>: \<open>stored_number\<close> is what a reader of the text gets
  for \<open>durationDays\<close>, \<open>text_of\<close> the string it gets for \<open>destination\<close>. The two background
  tasks handed to \<open>ctx.waitUntil\<close> are not awaited and are not part of the result.
\<close>

definition property :: "json \<Rightarrow> string \<Rightarrow> json option" where
  "property v k = (case v of JObj props \<Rightarrow> map_of props k | _ \<Rightarrow> None)"

definition typeof :: "json option \<Rightarrow> string" where
  "typeof v =
     (case v of
        None \<Rightarrow> ''undefined''
      | Some JNull \<Rightarrow> ''object''
      | Some (JBool _) \<Rightarrow> ''boolean''
      | Some (JNum _) \<Rightarrow> ''number''
      | Some (JInf _) \<Rightarrow> ''number''
      | Some (JStr _) \<Rightarrow> ''string''
      | Some (JArr _) \<Rightarrow> ''object''
      | Some (JObj _) \<Rightarrow> ''object'')"

definition text_of :: "json \<Rightarrow> string" where
  "text_of v = (case v of JStr s \<Rightarrow> s | _ \<Rightarrow> [])"

definition stored_number :: "json \<Rightarrow> rat option" where
  "stored_number v = (case v of JNum q \<Rightarrow> Some q | _ \<Rightarrow> None)"

definition post :: "json option \<Rightarrow> job_id \<Rightarrow> timestamp \<Rightarrow> exn option \<Rightarrow> world \<Rightarrow> exn + response \<times> world" where
  "post payload jobId created put_fault w =
     (case payload of
        None \<Rightarrow> Inr (Response 400 ''Invalid JSON'', w)
      | Some JNull \<Rightarrow> Inl (Exn ''TypeError'' ''Cannot destructure property of null'')
      | Some p \<Rightarrow>
          (let destination = property p ''destination'';
               durationDays = property p ''durationDays''
           in if typeof destination \<noteq> ''string'' \<or> typeof durationDays \<noteq> ''number''
              then Inr (Response 400 ''Bad Request'', w)
              else
                (case put_fault of
                   Some x \<Rightarrow> Inl x
                 | None \<Rightarrow>
                     (let j = \<lparr>destination = text_of (the destination),
                               durationDays = stored_number (the durationDays),
                               status = ''pending'', createdAt = created,
                               lockedAt = None, error = None\<rparr>
                      in Inr (Response 202 (''{\"jobId\":\"'' @ jobId @ ''\"}''),
                              w\<lparr>kv := (kv w)(jobId \<mapsto> Encoded j),
                                trace := trace w @ [KvPut jobId j]\<rparr>)))))"

section \<open>Vocabulary of the properties\<close>

text \<open>The patch \<open>saveItinerary\<close> sends on the success path, for the validated itinerary.\<close>

definition completed_patch :: "env \<Rightarrow> job_id \<Rightarrow> json \<Rightarrow> event" where
  "completed_patch e jobId itinerary =
     DocPatch jobId [''status'', ''updatedAt'', ''completedAt'', ''error'', ''itinerary'']
       [(''status'', StringValue ''completed''),
        (''updatedAt'', TimestampValue (completed_time e jobId)),
        (''completedAt'', TimestampValue (completed_time e jobId)),
        (''error'', NullValue),
        (''itinerary'', StringValue (stringify e itinerary))]"

text \<open>The loop body from the lock on.\<close>

definition locked_run :: "env \<Rightarrow> job_id \<Rightarrow> job \<Rightarrow> world \<Rightarrow> exn option \<times> world" where
  "locked_run e jobId j2 w1 =
     (case kv_put e PutLock jobId j2 w1 of
        Inl x \<Rightarrow> (Some x, w1)
      | Inr w2 \<Rightarrow>
          (case attempt_job e jobId j2 w2 of
             (None, w3) \<Rightarrow> (None, w3)
           | (Some err, w3) \<Rightarrow> fail_job e jobId j2 err w3))"

text \<open>
  The names of the own properties of an object, in order, and the shape the schema
  declares: day-plans with exactly \<open>day\<close>, \<open>theme\<close> and \<open>activities\<close>, activities with
  exactly \<open>time\<close>, \<open>description\<close> and \<open>location\<close>.
\<close>

definition own_keys :: "json \<Rightarrow> string list" where
  "own_keys v = (case v of JObj props \<Rightarrow> map fst props | _ \<Rightarrow> [])"

definition declared_fields_only :: "json \<Rightarrow> bool" where
  "declared_fields_only v =
     (case v of
        JArr days \<Rightarrow>
          list_all (\<lambda>d. own_keys d = [''day'', ''theme'', ''activities''] \<and>
             (case property d ''activities'' of
                Some (JArr acts) \<Rightarrow>
                  list_all (\<lambda>a. own_keys a = [''time'', ''description'', ''location'']) acts
              | _ \<Rightarrow> False)) days
      | _ \<Rightarrow> False)"

text \<open>
  The claim's words for what validation does to an accepted value: every property of a
  day-plan other than \<open>day\<close>, \<open>theme\<close> and \<open>activities\<close>, and every property of an activity
  other than \<open>time\<close>, \<open>description\<close> and \<open>location\<close>, is removed; the declared ones stay, with
  their values. \<open>keep_fields names props\<close> are the properties of \<open>props\<close> with these names.
\<close>

definition keep_fields :: "string list \<Rightarrow> (string \<times> json) list \<Rightarrow> (string \<times> json) list" where
  "keep_fields names props =
     concat (map (\<lambda>k. case map_of props k of Some v \<Rightarrow> [(k, v)] | None \<Rightarrow> []) names)"

definition strip_undeclared_activity :: "json \<Rightarrow> json" where
  "strip_undeclared_activity a =
     (case a of
        JObj props \<Rightarrow> JObj (keep_fields [''time'', ''description'', ''location''] props)
      | _ \<Rightarrow> a)"

definition strip_undeclared_day :: "json \<Rightarrow> json" where
  "strip_undeclared_day d =
     (case d of
        JObj props \<Rightarrow>
          JObj (map (\<lambda>(k, v). (k, if k = ''activities''
                                   then (case v of
                                           JArr acts \<Rightarrow> JArr (map strip_undeclared_activity acts)
                                         | _ \<Rightarrow> v)
                                   else v))
                  (keep_fields [''day'', ''theme'', ''activities''] props))
      | _ \<Rightarrow> d)"

definition strip_undeclared :: "json \<Rightarrow> json" where
  "strip_undeclared raw =
     (case raw of JArr days \<Rightarrow> JArr (map strip_undeclared_day days) | _ \<Rightarrow> raw)"

text \<open>
  A record the sweep has to process (pending, or locked with a stale lock), a record it
  is done with (deleted, or marked failed with a message), an environment in which no
  call of the queue store other than \<open>delete\<close> throws, and a queue store each of whose
  texts is empty or is JSON other than \<open>null\<close>.
\<close>

definition eligible :: "env \<Rightarrow> world \<Rightarrow> job_id \<Rightarrow> bool" where
  "eligible e w k =
     (\<exists>j. kv w k = Some (Encoded j) \<and>
          (status j = ''pending'' \<or> (status j = ''in-progress'' \<and> stale e j)))"

definition settled :: "world \<Rightarrow> job_id \<Rightarrow> bool" where
  "settled w k =
     (kv w k = None \<or>
      (\<exists>j. kv w k = Some (Encoded j) \<and> status j = ''failed'' \<and> error j \<noteq> None))"

definition queue_calls_succeed :: "env \<Rightarrow> bool" where
  "queue_calls_succeed e = (\<forall>k site. site \<noteq> Delete \<longrightarrow> kv_fault e k site = None)"

definition parseable :: "world \<Rightarrow> bool" where
  "parseable w =
     (\<forall>k. kv w k \<noteq> Some JsonNull \<and> (\<forall>s. kv w k = Some (Text s) \<longrightarrow> s = []))"

text \<open>
  The issues the schema finds in a value, and the fact that validation fails with an
  issue at the path \<open>p\<close> with the reason \<open>m\<close>, and that the failure message of the sweep
  contains the text \<open>shown\<close> (the path as it is to be read, such as \<open>1.activities.0.location\<close>)
  followed by a colon and the reason.
\<close>

definition issues :: "json \<Rightarrow> zod_issue list" where
  "issues raw = fst (ItinerarySchema [] (Some raw))"

definition reports :: "json \<Rightarrow> path_elem list \<Rightarrow> string \<Rightarrow> string \<Rightarrow> bool" where
  "reports raw p shown m =
     (case parse ItinerarySchema raw of
        Inl (ZodError es) \<Rightarrow>
          ZodIssue p m \<in> set es \<and> sublist (shown @ '': '' @ m) (error_message (ZodError es))
      | _ \<Rightarrow> False)"

text \<open>The queue record the submission handler writes.\<close>

definition created_record :: "string \<Rightarrow> rat option \<Rightarrow> timestamp \<Rightarrow> job" where
  "created_record dest days created =
     \<lparr>destination = dest, durationDays = days, status = ''pending'', createdAt = created,
      lockedAt = None, error = None\<rparr>"

section \<open>Example inputs\<close>

text \<open>
  A queue with two pending records: the generation for \<open>''a''\<close> is aborted by the timeout,
  the one for \<open>''b''\<close> returns a valid itinerary whose day-plan and activity carry an extra
  property each. No call of a store throws.
\<close>

definition example_day :: json where
  "example_day = JObj [(''note'', JBool True), (''day'', JNum 1), (''theme'', JStr ''Temples''),
     (''activities'', JArr [JObj [(''time'', JStr ''09:00''), (''description'', JStr ''Visit''),
        (''location'', JStr ''Asakusa''), (''cost'', JNum 3)]])]"

definition example_job :: job where
  "example_job = \<lparr>destination = ''Tokyo, Japan'', durationDays = Some 5, status = ''pending'',
     createdAt = 1000, lockedAt = None, error = None\<rparr>"

definition example_env :: env where
  "example_env = \<lparr>kv_list = Inr [''a'', ''b''], kv_fault = (\<lambda>k s. None), save_fault = (\<lambda>k s. None),
     generate = (\<lambda>k d n. if k = ''a'' then Inl (Exn ''Error'' ''LLM request aborted by timeout'')
                          else Inr (JArr [example_day])),
     stringify = (\<lambda>v. ''[...]''), now = 2000000, lock_time = (\<lambda>k. 2000001),
     completed_time = (\<lambda>k. 2000002), failed_time = (\<lambda>k. 2000003)\<rparr>"

definition example_world :: world where
  "example_world = \<lparr>kv = [''a'' \<mapsto> Encoded example_job, ''b'' \<mapsto> Encoded example_job], trace = []\<rparr>"

text \<open>
  The same environment with a serialiser that is not constant: \<open>JSON.stringify\<close> for values
  whose numbers are integers and whose texts need no escaping, which is all the examples
  contain (of another number it writes the integer part).
\<close>

primrec render :: "json \<Rightarrow> string" where
  "render JNull = ''null''"
| "render (JBool b) = (if b then ''true'' else ''false'')"
| "render (JNum q) = (if q < 0 then ''-'' else []) @ show_nat (nat \<lfloor>\<bar>q\<bar>\<rfloor>)"
| "render (JInf b) = ''null''"
| "render (JStr s) = ''\"'' @ s @ ''\"''"
| "render (JArr xs) = ''['' @ join '','' (map render xs) @ '']''"
| "render (JObj props) =
     ''{'' @ join '','' (map (\<lambda>(k, r). ''\"'' @ k @ ''\":'' @ r) (map (map_prod id render) props)) @ ''}''"

definition rendering_env :: env where
  "rendering_env = example_env\<lparr>stringify := render\<rparr>"

text \<open>A record locked 600001 ms before the sweep of \<open>example_env\<close>, with an old error.\<close>

definition stale_job :: job where
  "stale_job = example_job\<lparr>status := ''in-progress'', lockedAt := Some 1399999, error := Some ''old''\<rparr>"

text \<open>
  The same environment, except that one queue store call for \<open>''a''\<close> throws: the call at
  the given place of the loop body.
\<close>

definition fault_env :: "kv_site \<Rightarrow> env" where
  "fault_env site = example_env\<lparr>kv_fault :=
     (\<lambda>k s. if k = ''a'' \<and> s = site then Some (Exn ''Error'' ''KV failed'') else None)\<rparr>"

text \<open>
  A queue where the stale record \<open>''s''\<close> is listed after the pending record \<open>''a''\<close>, swept
  while the lock write for \<open>''a''\<close> throws.
\<close>

definition stale_world :: world where
  "stale_world = \<lparr>kv = [''a'' \<mapsto> Encoded example_job, ''s'' \<mapsto> Encoded stale_job], trace = []\<rparr>"

definition stale_env :: env where
  "stale_env = (fault_env PutLock)\<lparr>kv_list := Inr [''a'', ''s'']\<rparr>"

text \<open>
  Three day-plans with violations: day 0 and no activity; a fractional day and an activity
  without location; an infinite day (\<open>JSON.parse\<close> reads \<open>1e400\<close> as \<open>Infinity\<close>).
\<close>

definition example_bad_days :: "json list" where
  "example_bad_days =
     [JObj [(''day'', JNum 0), (''theme'', JStr ''t''), (''activities'', JArr [])],
      JObj [(''day'', JNum (1 / 2)), (''theme'', JStr ''u''),
            (''activities'', JArr [JObj [(''time'', JStr ''9''), (''description'', JStr ''d'')]])],
      JObj [(''day'', JInf True), (''theme'', JStr ''v''),
            (''activities'', JArr [JObj [(''time'', JStr ''9''), (''description'', JStr ''d''),
                                         (''location'', JStr ''l'')]])]]"

section \<open>Properties of the generation client\<close>

subsection \<open>Retries of \<open>fetchWithRetry\<close>\<close>

lemma attempt_once_nonretryable:
  assumes "\<not> ok res" "http_status res \<noteq> 429" "http_status res < 500"
  shows "attempt_once (Responds res) attempt retries =
     (if int attempt \<ge> retries
      then Some (Inl (Exn ''Error'' (''LLM request failed: HTTP '' @ show_nat (http_status res))))
      else None)"
  using assms by (simp add: attempt_once_def try_fetch_def catch_fetch_def)

lemma fetchWithRetry_nonretryable_sleeps:
  "(\<And>n. \<exists>res. fetch n = Responds res \<and> \<not> ok res \<and> http_status res \<noteq> 429 \<and> http_status res < 500)
   \<Longrightarrow> length (snd (fetchWithRetry fetch jitter retries baseDelay factor attempt slept)) =
           length slept + nat (retries - int attempt)"
proof (induction fetch jitter retries baseDelay factor attempt slept rule: fetchWithRetry.induct)
  case (1 fetch jitter retries baseDelay factor attempt slept)
  obtain res where res: "fetch attempt = Responds res" "\<not> ok res" "http_status res \<noteq> 429"
      "http_status res < 500"
    using "1.prems" by blast
  note once = attempt_once_nonretryable[OF res(2-4), of attempt retries]
  show ?case
  proof (cases "int attempt \<ge> retries")
    case True
    then show ?thesis
      by (subst fetchWithRetry.simps) (simp add: res once)
  next
    case False
    then have "attempt_once (fetch attempt) attempt retries = None"
      by (simp add: res once)
    with "1.IH"[OF this refl] "1.prems" False show ?thesis
      by (subst fetchWithRetry.simps) (simp add: Let_def nat_diff_distrib)
  qed
qed

text \<open>
  C1. With a generation endpoint that answers 404 to every request and the options the
  sweep passes (3 retries, base delay 500, factor 2; jitter 0 here), \<open>fetchWithRetry\<close>
  sleeps three times and fails only after the fourth request, and so does
  \<open>generateItinerary\<close>: the error thrown inside the \<open>try\<close> block for the non-retryable
  status is caught by the \<open>catch\<close> block of the same iteration, which rethrows only when
  the attempts are used up.
\<close>

theorem fetchWithRetry_persistent_404:
  "fetchWithRetry (\<lambda>n. Responds (Response 404 [])) (\<lambda>n. 0) 3 500 2 0 [] =
     (Inl (Exn ''Error'' ''LLM request failed: HTTP 404''), [500, 1000, 2000])
   \<and> generateItinerary content trim JSON_parse (\<lambda>n. Responds (Response 404 [])) (\<lambda>n. 0) 3 500 =
     (Inl (Exn ''Error'' ''LLM request failed: HTTP 404''), [500, 1000, 2000])"
  by code_simp

subsection \<open>Bracket extraction\<close>

lemma find_map_Suc: "find P (map f xs) = map_option f (find (P \<circ> f) xs)"
  by (induction xs) auto

lemma indexOf_eq:
  "indexOf str c = (if c \<in> set str then int (length (takeWhile (\<lambda>x. x \<noteq> c) str)) else -1)"
  by (induction str) (auto simp: Let_def)

lemma find_upt_step:
  "find P [Suc 0 ..< Suc (Suc m)] =
     (if P (Suc 0) then Some (Suc 0) else map_option Suc (find (P \<circ> Suc) [Suc 0 ..< Suc m]))"
proof -
  have "[Suc 0 ..< Suc (Suc m)] = Suc 0 # map Suc [Suc 0 ..< Suc m]"
    by (simp add: map_Suc_upt upt_conv_Cons del: upt_Suc)
  then show ?thesis by (simp add: find_map_Suc del: upt_Suc)
qed

lemma bracket_depth_simps [simp]:
  "bracket_depth [] = 0"
  "bracket_depth (c # cs) = (if c = CHR ''['' then 1 else if c = CHR '']'' then -1 else 0) + bracket_depth cs"
  by (auto simp: bracket_depth_def)

lemma find_depth_Cons:
  "find (\<lambda>n. d + bracket_depth (take n (c # cs)) = 0) [Suc 0 ..< Suc (Suc m)] =
     (if d + bracket_depth [c] = 0 then Some (Suc 0)
      else map_option Suc
        (find (\<lambda>n. (d + bracket_depth [c]) + bracket_depth (take n cs) = 0) [Suc 0 ..< Suc m]))"
  by (simp add: find_upt_step comp_def add.assoc del: upt_Suc)

lemma scan_find:
  "1 \<le> d \<Longrightarrow> i \<le> length str \<Longrightarrow>
   scan str start i d =
     (case find (\<lambda>n. d + bracket_depth (take n (drop i str)) = 0) [Suc 0 ..< Suc (length str - i)] of
        None \<Rightarrow> Inl (Exn ''Error'' ''No matching ] found for JSON array'')
      | Some n \<Rightarrow> Inr (slice str start (i + n)))"
proof (induction str start i d rule: scan.induct)
  case (1 str start i depth)
  show ?case
  proof (cases "i < length str")
    case False
    with "1.prems" show ?thesis by (subst scan.simps) simp
  next
    case True
    then have m: "length str - i = Suc (length str - (i + 1))"
      by simp
    have dr: "drop i str = str ! i # drop (i + 1) str"
      using True by (simp add: Cons_nth_drop_Suc)
    have le: "i + 1 \<le> length str" using True by simp
    consider (lbr) "str ! i = CHR ''[''"
      | (rbr) "str ! i = CHR '']''"
      | (other) "str ! i \<noteq> CHR ''[''" "str ! i \<noteq> CHR '']''"
      by blast
    then show ?thesis
    proof cases
      case lbr
      have "scan str start i depth = scan str start (i + 1) (depth + 1)"
        using True lbr by (subst scan.simps) simp
      also have "\<dots> = (case find (\<lambda>n. (depth + 1) + bracket_depth (take n (drop (i + 1) str)) = 0)
                 [Suc 0 ..< Suc (length str - (i + 1))] of
            None \<Rightarrow> Inl (Exn ''Error'' ''No matching ] found for JSON array'')
          | Some n \<Rightarrow> Inr (slice str start (i + 1 + n)))"
        using "1.IH"(1)[OF True lbr _ le] "1.prems" by simp
      finally show ?thesis
        using lbr "1.prems"
        by (simp only: m dr find_depth_Cons) (simp del: upt_Suc split: option.splits)
    next
      case rbr
      show ?thesis
      proof (cases "depth - 1 = 0")
        case True
        have "scan str start i depth = Inr (slice str start (i + 1))"
          using \<open>i < length str\<close> rbr True by (subst scan.simps) simp
        then show ?thesis
          using rbr True by (simp only: m dr find_depth_Cons) (simp del: upt_Suc)
      next
        case False
        have ne: "str ! i \<noteq> CHR ''[''" using rbr by simp
        have "scan str start i depth = scan str start (i + 1) (depth - 1)"
          using \<open>i < length str\<close> rbr False by (subst scan.simps) simp
        also have "\<dots> = (case find (\<lambda>n. (depth - 1) + bracket_depth (take n (drop (i + 1) str)) = 0)
                   [Suc 0 ..< Suc (length str - (i + 1))] of
              None \<Rightarrow> Inl (Exn ''Error'' ''No matching ] found for JSON array'')
            | Some n \<Rightarrow> Inr (slice str start (i + 1 + n)))"
          using "1.IH"(2)[OF \<open>i < length str\<close> ne rbr False _ le] "1.prems" False by simp
        finally show ?thesis
          using rbr False
          by (simp only: m dr find_depth_Cons) (simp del: upt_Suc split: option.splits)
      qed
    next
      case other
      have "scan str start i depth = scan str start (i + 1) depth"
        using True other by (subst scan.simps) simp
      also have "\<dots> = (case find (\<lambda>n. depth + bracket_depth (take n (drop (i + 1) str)) = 0)
                 [Suc 0 ..< Suc (length str - (i + 1))] of
            None \<Rightarrow> Inl (Exn ''Error'' ''No matching ] found for JSON array'')
          | Some n \<Rightarrow> Inr (slice str start (i + 1 + n)))"
        using "1.IH"(3)[OF True other "1.prems"(1) le] by simp
      finally show ?thesis
        using other "1.prems"
        by (simp only: m dr find_depth_Cons) (simp del: upt_Suc split: option.splits)
    qed
  qed
qed

text \<open>
  C7. \<open>extractFirstJsonArray\<close> computes exactly what the specification describes: with no
  \<open>[\<close> in the text it throws; otherwise it returns the text from the first \<open>[\<close> through
  the \<open>]\<close> at which the bracket depth first returns to zero, and throws when the depth
  never returns to zero.
\<close>

theorem extractFirstJsonArray_first_balanced:
  "extractFirstJsonArray str = first_balanced_array str"
proof (cases "CHR ''['' \<in> set str")
  case False
  then show ?thesis
    by (simp add: extractFirstJsonArray_def first_balanced_array_def indexOf_eq)
next
  case True
  define pre where "pre = takeWhile (\<lambda>c. c \<noteq> CHR ''['') str"
  define rest where "rest = dropWhile (\<lambda>c. c \<noteq> CHR ''['') str"
  have str: "str = pre @ rest" by (simp add: pre_def rest_def)
  have "rest \<noteq> []" using True by (simp add: rest_def)
  moreover have "hd rest = CHR ''[''"
    using True hd_dropWhile[of "\<lambda>c. c \<noteq> CHR ''[''" str] by (auto simp: rest_def)
  ultimately obtain tl where rest: "rest = CHR ''['' # tl" by (cases rest) auto
  have start: "indexOf str CHR ''['' = int (length pre)"
    using True by (simp add: indexOf_eq pre_def)
  have "scan str (length pre) (length pre) 0 = scan str (length pre) (length pre + 1) 1"
    by (subst scan.simps) (simp add: str rest)
  also have "\<dots> = (case find (\<lambda>n. 1 + bracket_depth (take n tl) = 0) [Suc 0 ..< Suc (length tl)] of
        None \<Rightarrow> Inl (Exn ''Error'' ''No matching ] found for JSON array'')
      | Some n \<Rightarrow> Inr (slice str (length pre) (length pre + 1 + n)))"
    by (subst scan_find) (simp_all add: str rest del: upt_Suc)
  also have "\<dots> = (case find (\<lambda>n. bracket_depth (take n rest) = 0) [Suc 0 ..< Suc (length rest)] of
          None \<Rightarrow> Inl (Exn ''Error'' ''No matching ] found for JSON array'')
        | Some n \<Rightarrow> Inr (take n rest))"
    using find_depth_Cons[of 0 "CHR ''[''" tl "length tl"]
    by (simp add: rest str slice_def del: upt_Suc split: option.splits)
  finally have "scan str (length pre) (length pre) 0 =
      (case find (\<lambda>n. bracket_depth (take n rest) = 0) [Suc 0 ..< Suc (length rest)] of
          None \<Rightarrow> Inl (Exn ''Error'' ''No matching ] found for JSON array'')
        | Some n \<Rightarrow> Inr (take n rest))" .
  then show ?thesis
    using True start
    by (simp add: extractFirstJsonArray_def first_balanced_array_def rest_def [symmetric] Let_def
        del: upt_Suc)
qed

theorem extractFirstJsonArray_first_balanced_witness:
  "extractFirstJsonArray ''Sure! Here is the plan: [{a:[1,2]}] Hope [that] helps!'' = Inr ''[{a:[1,2]}]''
   \<and> extractFirstJsonArray ''no array here'' = Inl (Exn ''Error'' ''No JSON array start found'')
   \<and> extractFirstJsonArray ''x [[1] y'' = Inl (Exn ''Error'' ''No matching ] found for JSON array'')"
  unfolding extractFirstJsonArray_first_balanced by code_simp

section \<open>Properties of the sweep\<close>

subsection \<open>Auxiliary facts\<close>

lemma saveItinerary_failed:
  "saveItinerary e jobId ''failed'' None ts None (Some m) w =
     (case save_fault e jobId ''failed'' of
        Some x \<Rightarrow> (Some x, w)
      | None \<Rightarrow> (None, w\<lparr>trace := trace w @
          [DocPatch jobId [''status'', ''updatedAt'', ''completedAt'', ''error'']
             [(''status'', StringValue ''failed''), (''updatedAt'', TimestampValue ts),
              (''completedAt'', NullValue),
              (''error'', if m \<noteq> [] then StringValue m else NullValue)]]\<rparr>))"
  by (simp add: saveItinerary_def)

lemma saveItinerary_completed:
  "saveItinerary e jobId ''completed'' (Some it) ts (Some ts) None w =
     (case save_fault e jobId ''completed'' of
        Some x \<Rightarrow> (Some x, w)
      | None \<Rightarrow> (None, w\<lparr>trace := trace w @
          [DocPatch jobId [''status'', ''updatedAt'', ''completedAt'', ''error'', ''itinerary'']
             [(''status'', StringValue ''completed''), (''updatedAt'', TimestampValue ts),
              (''completedAt'', TimestampValue ts), (''error'', NullValue),
              (''itinerary'', StringValue (stringify e it))]]\<rparr>))"
  by (simp add: saveItinerary_def)

lemma error_message_nonempty: "error_message err \<noteq> []"
  by (cases err) (simp_all add: error_message_def)

text \<open>The loop body from the lock on, for a record that is pending when the lock is taken.\<close>

lemma process_job_pending:
  assumes "kv_fault e jobId Get = None" and "kv w jobId = Some (Encoded j)"
    and "status j = ''pending''"
  shows "process_job e jobId w =
     (let j2 = j\<lparr>status := ''in-progress'', lockedAt := Some (lock_time e jobId)\<rparr> in
      case kv_put e PutLock jobId j2 w of
        Inl x \<Rightarrow> (Some x, w)
      | Inr w2 \<Rightarrow>
          (case attempt_job e jobId j2 w2 of
             (None, w3) \<Rightarrow> (None, w3)
           | (Some err, w3) \<Rightarrow> fail_job e jobId j2 err w3))"
  using assms
  by (simp add: process_job_def kv_get_def falsy_def JSON_parse_job_def reclaim_def)

lemma fail_job_trace:
  assumes "save_fault e jobId ''failed'' = None"
  shows "\<exists>post. trace (snd (fail_job e jobId j err w)) = trace w @
     DocPatch jobId [''status'', ''updatedAt'', ''completedAt'', ''error'']
       [(''status'', StringValue ''failed''), (''updatedAt'', TimestampValue (failed_time e jobId)),
        (''completedAt'', NullValue), (''error'', StringValue (error_message err))] # post"
  using assms
  by (auto simp: fail_job_def saveItinerary_failed error_message_nonempty kv_put_def Let_def
      split: option.splits)

lemma attempt_job_extends: "\<exists>post. trace (snd (attempt_job e jobId j w)) = trace w @ post"
  by (auto simp: attempt_job_def saveItinerary_def kv_delete_def Let_def
      split: sum.splits option.splits prod.splits)

lemma fail_job_extends: "\<exists>post. trace (snd (fail_job e jobId j err w)) = trace w @ post"
  by (auto simp: fail_job_def saveItinerary_def kv_put_def Let_def
      split: sum.splits option.splits prod.splits)

lemma locked_run_extends:
  "\<exists>post. trace (snd (locked_run e jobId j2 w1)) = trace w1 @ post"
proof (cases "kv_fault e jobId PutLock")
  case (Some x)
  then show ?thesis by (simp add: locked_run_def kv_put_def)
next
  case None
  define w2 where "w2 = w1\<lparr>kv := (kv w1)(jobId \<mapsto> Encoded j2), trace := trace w1 @ [KvPut jobId j2]\<rparr>"
  obtain r w3 where att: "attempt_job e jobId j2 w2 = (r, w3)" by (cases "attempt_job e jobId j2 w2")
  obtain p1 where p1: "trace w3 = trace w2 @ p1"
    using attempt_job_extends[of e jobId j2 w2] att by auto
  show ?thesis
  proof (cases r)
    case None
    with \<open>kv_fault e jobId PutLock = None\<close> att p1 show ?thesis
      by (simp add: locked_run_def kv_put_def w2_def [symmetric]) (simp add: w2_def)
  next
    case (Some err)
    obtain p2 where "trace (snd (fail_job e jobId j2 err w3)) = trace w3 @ p2"
      using fail_job_extends by blast
    with \<open>kv_fault e jobId PutLock = None\<close> att p1 Some show ?thesis
      by (simp add: locked_run_def kv_put_def w2_def [symmetric]) (simp add: w2_def)
  qed
qed

lemma process_job_locked_run:
  "process_job e jobId w =
     (case kv_get e jobId w of
        Inl x \<Rightarrow> (Some x, w)
      | Inr raw \<Rightarrow>
          if falsy raw then (None, w)
          else
            (case JSON_parse_job (the raw) of
               Inl x \<Rightarrow> (Some x, w)
             | Inr Null \<Rightarrow>
                 (Some (Exn ''TypeError'' ''Cannot read properties of null (reading status)''), w)
             | Inr Other \<Rightarrow> (None, w)
             | Inr (Job j) \<Rightarrow>
                 (case reclaim e jobId j w of
                    Inl x \<Rightarrow> (Some x, w)
                  | Inr (j1, w1) \<Rightarrow>
                      if status j1 \<noteq> ''pending'' then (None, w1)
                      else locked_run e jobId
                        (j1\<lparr>status := ''in-progress'', lockedAt := Some (lock_time e jobId)\<rparr>) w1)))"
  unfolding process_job_def locked_run_def Let_def ..

lemma attempt_job_fails:
  assumes "generate e jobId (destination j) (durationDays j) = Inl err \<or>
           (\<exists>raw. generate e jobId (destination j) (durationDays j) = Inr raw \<and>
                  parse ItinerarySchema raw = Inl err)"
  shows "attempt_job e jobId j w = (Some err, w)"
  using assms by (auto simp: attempt_job_def)

lemma process_job_reclaimed:
  assumes "kv_fault e jobId Get = None" and "kv w jobId = Some (Encoded j)"
    and "reclaim e jobId j w = Inr (j1, w1)" and "status j1 = ''pending''"
  shows "process_job e jobId w =
      locked_run e jobId (j1\<lparr>status := ''in-progress'', lockedAt := Some (lock_time e jobId)\<rparr>) w1"
  using assms
  by (simp add: process_job_locked_run kv_get_def falsy_def JSON_parse_job_def)

subsection \<open>Records that vanished between listing and reading\<close>

text \<open>
  C10. When the read of a listed key succeeds and finds no value, the loop body ends at
  once: nothing is thrown, no store is touched, and the sweep goes on with the remaining
  keys exactly as if the key had not been listed.
\<close>

theorem missing_record_skipped:
  assumes "kv_fault e jobId Get = None" and "kv w jobId = None"
  shows "process_job e jobId w = (None, w) \<and> sweep e (jobId # keys) w = sweep e keys w"
  using assms by (simp add: process_job_def kv_get_def falsy_def)

theorem missing_record_skipped_witness:
  "process_job example_env ''c'' example_world = (None, example_world)
   \<and> sweep example_env [''c'', ''b''] example_world = sweep example_env [''b''] example_world"
  using missing_record_skipped[of example_env "''c''" example_world "[''b'']"]
  by (simp add: example_env_def example_world_def)

subsection \<open>The failure write\<close>

lemma failed_attempt_write_pending:
  assumes "kv_fault e jobId Get = None" and "kv w jobId = Some (Encoded j)"
    and "status j = ''pending''" and "kv_fault e jobId PutLock = None"
    and "generate e jobId (destination j) (durationDays j) = Inl err \<or>
         (\<exists>raw. generate e jobId (destination j) (durationDays j) = Inr raw \<and>
                parse ItinerarySchema raw = Inl err)"
    and "save_fault e jobId ''failed'' = None"
  shows "error_message err \<noteq> [] \<and>
     (\<exists>post. trace (snd (process_job e jobId w)) = trace w @
        [KvPut jobId (j\<lparr>status := ''in-progress'', lockedAt := Some (lock_time e jobId)\<rparr>),
         DocPatch jobId [''status'', ''updatedAt'', ''completedAt'', ''error'']
           [(''status'', StringValue ''failed''),
            (''updatedAt'', TimestampValue (failed_time e jobId)),
            (''completedAt'', NullValue),
            (''error'', StringValue (error_message err))]] @ post)"
proof -
  define j2 where "j2 = j\<lparr>status := ''in-progress'', lockedAt := Some (lock_time e jobId)\<rparr>"
  define w2 where "w2 = w\<lparr>kv := (kv w)(jobId \<mapsto> Encoded j2), trace := trace w @ [KvPut jobId j2]\<rparr>"
  have att: "attempt_job e jobId j2 w2 = (Some err, w2)"
    using assms(5) by (intro attempt_job_fails) (simp add: j2_def)
  have "process_job e jobId w = fail_job e jobId j2 err w2"
    using assms(1-4) att
    by (simp add: process_job_pending kv_put_def Let_def j2_def [symmetric] w2_def [symmetric])
  moreover obtain post where "trace (snd (fail_job e jobId j2 err w2)) = trace w2 @
     DocPatch jobId [''status'', ''updatedAt'', ''completedAt'', ''error'']
       [(''status'', StringValue ''failed''), (''updatedAt'', TimestampValue (failed_time e jobId)),
        (''completedAt'', NullValue), (''error'', StringValue (error_message err))] # post"
    using fail_job_trace[OF assms(6)] by blast
  ultimately show ?thesis
    by (simp add: error_message_nonempty w2_def j2_def)
qed

text \<open>
  C2 (as amended). Whenever the \<open>try\<close> block of the loop body throws \<open>err\<close> (a generation
  error, a timeout, a validation error, or an error of the success write or the deletion)
  and the failure write is not itself refused, the first effect of the \<open>catch\<close> block is
  the patch of the durable document with status \<open>failed\<close>, the non-empty message built from
  \<open>err\<close> as its error, the failure timestamp as \<open>updatedAt\<close>, and a null \<open>completedAt\<close>; the
  update mask leaves the itinerary untouched. In particular, for a pending record whose
  read and lock succeed and whose generation or validation fails, the effects of the loop
  body are the lock, then this patch, then what follows it.
\<close>

theorem failed_attempt_write:
  "(attempt_job e jobId j w = (Some err, w1) \<and> save_fault e jobId ''failed'' = None \<longrightarrow>
      error_message err \<noteq> [] \<and>
      (\<exists>post. trace (snd (fail_job e jobId j err w1)) = trace w1 @
         DocPatch jobId [''status'', ''updatedAt'', ''completedAt'', ''error'']
           [(''status'', StringValue ''failed''),
            (''updatedAt'', TimestampValue (failed_time e jobId)),
            (''completedAt'', NullValue),
            (''error'', StringValue (error_message err))] # post))
   \<and> (kv_fault e jobId Get = None \<and> kv w jobId = Some (Encoded j) \<and> status j = ''pending'' \<and>
       kv_fault e jobId PutLock = None \<and>
       (generate e jobId (destination j) (durationDays j) = Inl err \<or>
        (\<exists>raw. generate e jobId (destination j) (durationDays j) = Inr raw \<and>
               parse ItinerarySchema raw = Inl err)) \<and>
       save_fault e jobId ''failed'' = None \<longrightarrow>
       (\<exists>post. trace (snd (process_job e jobId w)) = trace w @
          [KvPut jobId (j\<lparr>status := ''in-progress'', lockedAt := Some (lock_time e jobId)\<rparr>),
           DocPatch jobId [''status'', ''updatedAt'', ''completedAt'', ''error'']
             [(''status'', StringValue ''failed''),
              (''updatedAt'', TimestampValue (failed_time e jobId)),
              (''completedAt'', NullValue),
              (''error'', StringValue (error_message err))]] @ post))"
  using fail_job_trace[of e jobId j err w1] error_message_nonempty[of err]
    failed_attempt_write_pending[of e jobId w j err]
  by blast

text \<open>
  C2, as stated, fails: on the example queue, the document of the timed-out job \<open>''a''\<close> is patched with a null
  \<open>completedAt\<close>, while the failure timestamp, written to \<open>updatedAt\<close>, is 2000003.
\<close>

theorem failed_attempt_write_counterexample:
  "trace (snd (process_job example_env ''a'' example_world)) =
     [KvPut ''a'' (example_job\<lparr>status := ''in-progress'', lockedAt := Some 2000001\<rparr>),
      DocPatch ''a'' [''status'', ''updatedAt'', ''completedAt'', ''error'']
        [(''status'', StringValue ''failed''), (''updatedAt'', TimestampValue 2000003),
         (''completedAt'', NullValue),
         (''error'', StringValue ''LLM request aborted by timeout'')],
      KvPut ''a'' (example_job\<lparr>status := ''failed'', lockedAt := Some 2000001,
         error := Some ''LLM request aborted by timeout''\<rparr>)]
   \<and> failed_time example_env ''a'' = 2000003"
  by (simp add: process_job_def kv_get_def falsy_def JSON_parse_job_def reclaim_def kv_put_def
      attempt_job_def fail_job_def saveItinerary_def error_message_def Let_def
      example_env_def example_world_def example_job_def)

theorem failed_attempt_write_witness:
  "error_message (Exn ''Error'' ''LLM request aborted by timeout'') \<noteq> []
   \<and> (\<exists>post. trace (snd (fail_job example_env ''a'' example_job
          (Exn ''Error'' ''LLM request aborted by timeout'') example_world)) =
        DocPatch ''a'' [''status'', ''updatedAt'', ''completedAt'', ''error'']
           [(''status'', StringValue ''failed''),
            (''updatedAt'', TimestampValue 2000003),
            (''completedAt'', NullValue),
            (''error'', StringValue ''LLM request aborted by timeout'')] # post)
   \<and> (\<exists>post. trace (snd (process_job example_env ''a'' example_world)) =
        [KvPut ''a'' (example_job\<lparr>status := ''in-progress'', lockedAt := Some 2000001\<rparr>),
         DocPatch ''a'' [''status'', ''updatedAt'', ''completedAt'', ''error'']
           [(''status'', StringValue ''failed''),
            (''updatedAt'', TimestampValue 2000003),
            (''completedAt'', NullValue),
            (''error'', StringValue ''LLM request aborted by timeout'')]] @ post)"
proof -
  have att: "attempt_job example_env ''a'' example_job example_world =
      (Some (Exn ''Error'' ''LLM request aborted by timeout''), example_world)"
    by (simp add: attempt_job_def example_env_def example_job_def)
  have hyp: "kv_fault example_env ''a'' Get = None \<and>
      kv example_world ''a'' = Some (Encoded example_job) \<and> status example_job = ''pending'' \<and>
      kv_fault example_env ''a'' PutLock = None \<and>
      generate example_env ''a'' (destination example_job) (durationDays example_job) =
        Inl (Exn ''Error'' ''LLM request aborted by timeout'') \<and>
      save_fault example_env ''a'' ''failed'' = None"
    by (simp add: example_env_def example_world_def example_job_def)
  note inst = failed_attempt_write[of example_env "''a''" example_job example_world
      "Exn ''Error'' ''LLM request aborted by timeout''" example_world]
  have 1: "error_message (Exn ''Error'' ''LLM request aborted by timeout'') \<noteq> [] \<and>
      (\<exists>post. trace (snd (fail_job example_env ''a'' example_job
          (Exn ''Error'' ''LLM request aborted by timeout'') example_world)) = trace example_world @
         DocPatch ''a'' [''status'', ''updatedAt'', ''completedAt'', ''error'']
           [(''status'', StringValue ''failed''),
            (''updatedAt'', TimestampValue (failed_time example_env ''a'')),
            (''completedAt'', NullValue),
            (''error'', StringValue (error_message (Exn ''Error'' ''LLM request aborted by timeout'')))]
           # post)"
    using inst att hyp by blast
  have 2: "\<exists>post. trace (snd (process_job example_env ''a'' example_world)) = trace example_world @
          [KvPut ''a'' (example_job\<lparr>status := ''in-progress'',
             lockedAt := Some (lock_time example_env ''a'')\<rparr>),
           DocPatch ''a'' [''status'', ''updatedAt'', ''completedAt'', ''error'']
             [(''status'', StringValue ''failed''),
              (''updatedAt'', TimestampValue (failed_time example_env ''a'')),
              (''completedAt'', NullValue),
              (''error'', StringValue (error_message (Exn ''Error'' ''LLM request aborted by timeout'')))]]
          @ post"
    using inst hyp by blast
  from 1 2 show ?thesis
    by (simp add: example_env_def example_world_def error_message_def)
qed

subsection \<open>Success: the durable write and the deletion\<close>

lemma attempt_job_result:
  "attempt_job e jobId j w =
     (case generate e jobId (destination j) (durationDays j) of
        Inl err \<Rightarrow> (Some err, w)
      | Inr raw \<Rightarrow>
          (case parse ItinerarySchema raw of
             Inl err \<Rightarrow> (Some err, w)
           | Inr itinerary \<Rightarrow>
               (case save_fault e jobId ''completed'' of
                  Some (n, m) \<Rightarrow> (Some (Exn n m), w)
                | None \<Rightarrow>
                    (case kv_fault e jobId Delete of
                       Some x \<Rightarrow> (Some x, w\<lparr>trace := trace w @ [completed_patch e jobId itinerary]\<rparr>)
                     | None \<Rightarrow> (None, w\<lparr>kv := (kv w)(jobId := None),
                          trace := trace w @ [completed_patch e jobId itinerary, KvDelete jobId]\<rparr>)))))"
  by (simp add: attempt_job_def saveItinerary_completed kv_delete_def completed_patch_def Let_def
      split: sum.splits option.splits prod.splits)

lemma attempt_job_success:
  assumes "attempt_job e jobId j w = (None, w')"
  shows "\<exists>raw itinerary. generate e jobId (destination j) (durationDays j) = Inr raw \<and>
           parse ItinerarySchema raw = Inr itinerary \<and>
           w' = w\<lparr>kv := (kv w)(jobId := None),
                  trace := trace w @ [completed_patch e jobId itinerary, KvDelete jobId]\<rparr>"
  using assms unfolding attempt_job_result
  by (auto split: sum.splits option.splits prod.splits)

lemma attempt_job_failure:
  assumes "attempt_job e jobId j w = (Some err, w1)"
  shows "kv w1 = kv w \<and> (\<forall>k. KvDelete k \<notin> set (drop (length (trace w)) (trace w1)))"
  using assms unfolding attempt_job_result
  by (auto simp: completed_patch_def split: sum.splits option.splits prod.splits)

lemma fail_job_no_delete:
  "KvDelete k \<notin> set (drop (length (trace w)) (trace (snd (fail_job e jobId j err w))))"
  by (auto simp: fail_job_def saveItinerary_failed kv_put_def Let_def
      split: option.splits prod.splits)

lemma locked_run_delete:
  assumes "KvDelete k \<in> set (drop (length (trace w1)) (trace (snd (locked_run e jobId j2 w1))))"
  shows "k = jobId \<and> fst (locked_run e jobId j2 w1) = None \<and>
     (\<exists>itinerary. drop (length (trace w1)) (trace (snd (locked_run e jobId j2 w1))) =
        [KvPut jobId j2, completed_patch e jobId itinerary, KvDelete jobId])"
proof (cases "kv_fault e jobId PutLock")
  case (Some x)
  with assms show ?thesis by (simp add: locked_run_def kv_put_def)
next
  case None
  define w2 where "w2 = w1\<lparr>kv := (kv w1)(jobId \<mapsto> Encoded j2), trace := trace w1 @ [KvPut jobId j2]\<rparr>"
  have put: "kv_put e PutLock jobId j2 w1 = Inr w2"
    using None by (simp add: kv_put_def w2_def)
  obtain r w3 where att: "attempt_job e jobId j2 w2 = (r, w3)"
    by (cases "attempt_job e jobId j2 w2")
  show ?thesis
  proof (cases r)
    case None
    then obtain itinerary where
      "w3 = w2\<lparr>kv := (kv w2)(jobId := None),
               trace := trace w2 @ [completed_patch e jobId itinerary, KvDelete jobId]\<rparr>"
      using attempt_job_success att by blast
    with assms None att put show ?thesis
      by (auto simp: locked_run_def w2_def completed_patch_def)
  next
    case (Some err)
    obtain p1 where p1: "trace w3 = trace w2 @ p1"
      using attempt_job_extends[of e jobId j2 w2] att by auto
    obtain p2 where p2: "trace (snd (fail_job e jobId j2 err w3)) = trace w3 @ p2"
      using fail_job_extends by blast
    have "KvDelete k \<notin> set p1"
      using attempt_job_failure[of e jobId j2 w2 err w3] att Some p1 by simp
    moreover have "KvDelete k \<notin> set p2"
      using fail_job_no_delete[of k w3 e jobId j2 err] p2 by simp
    ultimately have False
      using assms att put Some p1 p2 by (simp add: locked_run_def w2_def)
    then show ?thesis ..
  qed
qed

lemma process_job_shape:
  "snd (process_job e jobId w) = w \<or>
   (\<exists>j2. status j2 = ''in-progress'' \<and> process_job e jobId w = locked_run e jobId j2 w) \<or>
   (\<exists>j1 j2. status j1 = ''pending'' \<and> status j2 = ''in-progress'' \<and>
       process_job e jobId w = locked_run e jobId j2
         (w\<lparr>kv := (kv w)(jobId \<mapsto> Encoded j1), trace := trace w @ [KvPut jobId j1]\<rparr>))"
proof (cases "kv_get e jobId w")
  case (Inl x)
  then show ?thesis by (simp add: process_job_locked_run)
next
  case (Inr raw)
  show ?thesis
  proof (cases "falsy raw")
    case True
    with Inr show ?thesis by (simp add: process_job_locked_run)
  next
    case False
    show ?thesis
    proof (cases "JSON_parse_job (the raw)")
      case (Inl x)
      with Inr False show ?thesis by (simp add: process_job_locked_run)
    next
      case (Inr v)
      note read = \<open>kv_get e jobId w = Inr raw\<close> False
      consider (null) "v = Null" | (other) "v = Other" | (job) j where "v = Job j"
        by (cases v) auto
      then show ?thesis
      proof cases
        case null
        with read Inr show ?thesis by (simp add: process_job_locked_run)
      next
        case other
        with read Inr show ?thesis by (simp add: process_job_locked_run)
      next
        case job
        note parsed = read Inr[unfolded job]
        show ?thesis
      proof (cases "status j = ''in-progress'' \<and> stale e j")
        case True
        define j1 where "j1 = j\<lparr>status := ''pending'', error := None\<rparr>"
        show ?thesis
        proof (cases "kv_fault e jobId PutReset")
          case (Some x)
          with True parsed show ?thesis
            by (simp add: process_job_locked_run reclaim_def kv_put_def)
        next
          case None
          with True have "reclaim e jobId j w =
              Inr (j1, w\<lparr>kv := (kv w)(jobId \<mapsto> Encoded j1), trace := trace w @ [KvPut jobId j1]\<rparr>)"
            by (simp add: reclaim_def kv_put_def j1_def Let_def)
          with parsed have "process_job e jobId w = locked_run e jobId
              (j1\<lparr>status := ''in-progress'', lockedAt := Some (lock_time e jobId)\<rparr>)
              (w\<lparr>kv := (kv w)(jobId \<mapsto> Encoded j1), trace := trace w @ [KvPut jobId j1]\<rparr>)"
            by (simp add: process_job_locked_run j1_def)
          moreover have "status j1 = ''pending''" by (simp add: j1_def)
          moreover have "status (j1\<lparr>status := ''in-progress'', lockedAt := Some (lock_time e jobId)\<rparr>)
              = ''in-progress''" by simp
          ultimately show ?thesis by blast
        qed
      next
        case False
        then have rec: "reclaim e jobId j w = Inr (j, w)"
          by (auto simp: reclaim_def)
        show ?thesis
        proof (cases "status j = ''pending''")
          case True
          with parsed rec have "process_job e jobId w = locked_run e jobId
              (j\<lparr>status := ''in-progress'', lockedAt := Some (lock_time e jobId)\<rparr>) w"
            by (simp add: process_job_locked_run)
          moreover have "status (j\<lparr>status := ''in-progress'', lockedAt := Some (lock_time e jobId)\<rparr>)
              = ''in-progress''" by simp
          ultimately show ?thesis by blast
        next
          case False
          with parsed rec show ?thesis by (simp add: process_job_locked_run)
        qed
      qed
      qed
    qed
  qed
qed

lemma process_job_delete:
  assumes "KvDelete k \<in> set (drop (length (trace w)) (trace (snd (process_job e jobId w))))"
  shows "k = jobId \<and> fst (process_job e jobId w) = None \<and>
     (\<exists>pre itinerary. drop (length (trace w)) (trace (snd (process_job e jobId w))) =
        pre @ [completed_patch e jobId itinerary, KvDelete jobId] \<and>
        (\<forall>ev\<in>set pre. \<exists>j'. ev = KvPut jobId j' \<and> status j' \<noteq> ''failed''))"
proof -
  consider (direct) j2 where "status j2 = ''in-progress''"
        "process_job e jobId w = locked_run e jobId j2 w"
    | (reset) j1 j2 where "status j1 = ''pending''" "status j2 = ''in-progress''"
        "process_job e jobId w = locked_run e jobId j2
           (w\<lparr>kv := (kv w)(jobId \<mapsto> Encoded j1), trace := trace w @ [KvPut jobId j1]\<rparr>)"
    using process_job_shape[of e jobId w] assms by auto
  then show ?thesis
  proof cases
    case direct
    with assms locked_run_delete[of k w e jobId j2] show ?thesis
      by auto
  next
    case reset
    define w1 where "w1 = w\<lparr>kv := (kv w)(jobId \<mapsto> Encoded j1), trace := trace w @ [KvPut jobId j1]\<rparr>"
    obtain post where post: "trace (snd (locked_run e jobId j2 w1)) = trace w1 @ post"
      using locked_run_extends by blast
    have new: "drop (length (trace w)) (trace (snd (process_job e jobId w))) = KvPut jobId j1 # post"
      using reset(3) post by (simp add: w1_def)
    have post': "drop (length (trace w1)) (trace (snd (locked_run e jobId j2 w1))) = post"
      using post by simp
    have "KvDelete k \<in> set post" using assms new by simp
    with locked_run_delete[of k w1 e jobId j2] post'
    obtain itinerary where "k = jobId" "fst (locked_run e jobId j2 w1) = None"
      "post = [KvPut jobId j2, completed_patch e jobId itinerary, KvDelete jobId]"
      by auto
    then show ?thesis
      using new reset(1,2,3)
      by (auto simp: w1_def intro!: exI[of _ "[KvPut jobId j1, KvPut jobId j2]"] exI[of _ itinerary])
  qed
qed

lemma process_job_success:
  assumes "kv_fault e jobId Get = None" and "kv w jobId = Some (Encoded j)"
    and "status j = ''pending''" and "kv_fault e jobId PutLock = None"
    and "generate e jobId (destination j) (durationDays j) = Inr raw"
    and "parse ItinerarySchema raw = Inr itinerary"
    and "save_fault e jobId ''completed'' = None" and "kv_fault e jobId Delete = None"
  shows "process_job e jobId w =
     (None, w\<lparr>kv := (kv w)(jobId := None),
              trace := trace w @
                [KvPut jobId (j\<lparr>status := ''in-progress'', lockedAt := Some (lock_time e jobId)\<rparr>),
                 completed_patch e jobId itinerary, KvDelete jobId]\<rparr>)"
  using assms
  by (simp add: process_job_locked_run kv_get_def falsy_def JSON_parse_job_def reclaim_def
      locked_run_def kv_put_def attempt_job_result)

text \<open>
  C5. (1) For a pending record whose read, lock, generation, validation, durable write
  and deletion all succeed, the loop body returns normally and its effects are, in this
  order: the lock, the patch of the durable document with status \<open>completed\<close>, the
  validated itinerary, a null error and one timestamp for both \<open>updatedAt\<close> and
  \<open>completedAt\<close>, and then the deletion of the queue record. (2) In every run of the loop
  body, a deletion among its effects is the deletion of this record, is its last effect,
  comes directly after that patch and after nothing but queue writes that do not mark the
  record failed, and the body returns normally. (3) When the \<open>try\<close> block throws, the
  queue store is as it was before the block, and the \<open>catch\<close> block deletes nothing.
\<close>

theorem completed_write_precedes_delete:
  "(kv_fault e jobId Get = None \<and> kv w jobId = Some (Encoded j) \<and> status j = ''pending'' \<and>
    kv_fault e jobId PutLock = None \<and>
    generate e jobId (destination j) (durationDays j) = Inr raw \<and>
    parse ItinerarySchema raw = Inr itinerary \<and>
    save_fault e jobId ''completed'' = None \<and> kv_fault e jobId Delete = None \<longrightarrow>
      process_job e jobId w =
        (None, w\<lparr>kv := (kv w)(jobId := None),
                 trace := trace w @
                   [KvPut jobId (j\<lparr>status := ''in-progress'', lockedAt := Some (lock_time e jobId)\<rparr>),
                    DocPatch jobId [''status'', ''updatedAt'', ''completedAt'', ''error'', ''itinerary'']
                      [(''status'', StringValue ''completed''),
                       (''updatedAt'', TimestampValue (completed_time e jobId)),
                       (''completedAt'', TimestampValue (completed_time e jobId)),
                       (''error'', NullValue),
                       (''itinerary'', StringValue (stringify e itinerary))],
                    KvDelete jobId]\<rparr>))
   \<and> (KvDelete k \<in> set (drop (length (trace w)) (trace (snd (process_job e jobId w)))) \<longrightarrow>
        k = jobId \<and> fst (process_job e jobId w) = None \<and>
        (\<exists>pre validated. drop (length (trace w)) (trace (snd (process_job e jobId w))) =
           pre @
           [DocPatch jobId [''status'', ''updatedAt'', ''completedAt'', ''error'', ''itinerary'']
              [(''status'', StringValue ''completed''),
               (''updatedAt'', TimestampValue (completed_time e jobId)),
               (''completedAt'', TimestampValue (completed_time e jobId)),
               (''error'', NullValue),
               (''itinerary'', StringValue (stringify e validated))],
            KvDelete jobId] \<and>
           (\<forall>ev\<in>set pre. \<exists>j'. ev = KvPut jobId j' \<and> status j' \<noteq> ''failed'')))
   \<and> (attempt_job e jobId j w = (Some err, w1) \<longrightarrow>
        kv w1 = kv w \<and>
        KvDelete jobId \<notin> set (drop (length (trace w)) (trace (snd (fail_job e jobId j err w1)))))"
proof (intro conjI impI)
  assume "kv_fault e jobId Get = None \<and> kv w jobId = Some (Encoded j) \<and> status j = ''pending'' \<and>
    kv_fault e jobId PutLock = None \<and>
    generate e jobId (destination j) (durationDays j) = Inr raw \<and>
    parse ItinerarySchema raw = Inr itinerary \<and>
    save_fault e jobId ''completed'' = None \<and> kv_fault e jobId Delete = None"
  then show "process_job e jobId w =
        (None, w\<lparr>kv := (kv w)(jobId := None),
                 trace := trace w @
                   [KvPut jobId (j\<lparr>status := ''in-progress'', lockedAt := Some (lock_time e jobId)\<rparr>),
                    DocPatch jobId [''status'', ''updatedAt'', ''completedAt'', ''error'', ''itinerary'']
                      [(''status'', StringValue ''completed''),
                       (''updatedAt'', TimestampValue (completed_time e jobId)),
                       (''completedAt'', TimestampValue (completed_time e jobId)),
                       (''error'', NullValue),
                       (''itinerary'', StringValue (stringify e itinerary))],
                    KvDelete jobId]\<rparr>)"
    using process_job_success[of e jobId w j raw itinerary] by (simp add: completed_patch_def)
next
  assume del: "KvDelete k \<in> set (drop (length (trace w)) (trace (snd (process_job e jobId w))))"
  from process_job_delete[OF del]
  show "k = jobId" and "fst (process_job e jobId w) = None"
    and "\<exists>pre validated. drop (length (trace w)) (trace (snd (process_job e jobId w))) =
           pre @
           [DocPatch jobId [''status'', ''updatedAt'', ''completedAt'', ''error'', ''itinerary'']
              [(''status'', StringValue ''completed''),
               (''updatedAt'', TimestampValue (completed_time e jobId)),
               (''completedAt'', TimestampValue (completed_time e jobId)),
               (''error'', NullValue),
               (''itinerary'', StringValue (stringify e validated))],
            KvDelete jobId] \<and>
           (\<forall>ev\<in>set pre. \<exists>j'. ev = KvPut jobId j' \<and> status j' \<noteq> ''failed'')"
    by (simp_all add: completed_patch_def)
next
  assume att: "attempt_job e jobId j w = (Some err, w1)"
  from attempt_job_failure[OF att] show "kv w1 = kv w" by simp
  obtain p1 where p1: "trace w1 = trace w @ p1"
    using attempt_job_extends[of e jobId j w] att by auto
  obtain p2 where p2: "trace (snd (fail_job e jobId j err w1)) = trace w1 @ p2"
    using fail_job_extends by blast
  have "KvDelete jobId \<notin> set p1"
    using attempt_job_failure[OF att] p1 by simp
  moreover have "KvDelete jobId \<notin> set p2"
    using fail_job_no_delete[of jobId w1 e jobId j err] p2 by simp
  ultimately show "KvDelete jobId \<notin> set (drop (length (trace w)) (trace (snd (fail_job e jobId j err w1))))"
    using p1 p2 by simp
qed

lemma example_parse:
  "parse ItinerarySchema (JArr [example_day]) =
     Inr (JArr [JObj [(''day'', JNum 1), (''theme'', JStr ''Temples''),
       (''activities'', JArr [JObj [(''time'', JStr ''09:00''), (''description'', JStr ''Visit''),
          (''location'', JStr ''Asakusa'')]])]])"
  by (simp add: parse_def ItinerarySchema_def DayItinerary_def Activity_def z_array_min_def
      z_object_def z_string_def z_number_int_min_def is_integer_def example_day_def enumerate_eq_zip)

theorem completed_write_precedes_delete_witness:
  "process_job example_env ''b'' example_world =
     (None, example_world\<lparr>kv := (kv example_world)(''b'' := None),
        trace :=
          [KvPut ''b'' (example_job\<lparr>status := ''in-progress'', lockedAt := Some 2000001\<rparr>),
           DocPatch ''b'' [''status'', ''updatedAt'', ''completedAt'', ''error'', ''itinerary'']
             [(''status'', StringValue ''completed''),
              (''updatedAt'', TimestampValue 2000002),
              (''completedAt'', TimestampValue 2000002),
              (''error'', NullValue),
              (''itinerary'', StringValue ''[...]'')],
           KvDelete ''b'']\<rparr>)
   \<and> fst (process_job example_env ''b'' example_world) = None
   \<and> KvDelete ''a'' \<notin> set (trace (snd (fail_job example_env ''a'' example_job
         (Exn ''Error'' ''LLM request aborted by timeout'') example_world)))"
proof -
  note b = completed_write_precedes_delete[of example_env "''b''" example_world example_job
      "JArr [example_day]"
      "JArr [JObj [(''day'', JNum 1), (''theme'', JStr ''Temples''),
         (''activities'', JArr [JObj [(''time'', JStr ''09:00''), (''description'', JStr ''Visit''),
            (''location'', JStr ''Asakusa'')]])]]" "''b''"]
  have run: "process_job example_env ''b'' example_world =
     (None, example_world\<lparr>kv := (kv example_world)(''b'' := None),
        trace :=
          [KvPut ''b'' (example_job\<lparr>status := ''in-progress'', lockedAt := Some 2000001\<rparr>),
           DocPatch ''b'' [''status'', ''updatedAt'', ''completedAt'', ''error'', ''itinerary'']
             [(''status'', StringValue ''completed''),
              (''updatedAt'', TimestampValue 2000002),
              (''completedAt'', TimestampValue 2000002),
              (''error'', NullValue),
              (''itinerary'', StringValue ''[...]'')],
           KvDelete ''b'']\<rparr>)"
    using b example_parse by (simp add: example_env_def example_world_def example_job_def)
  have "KvDelete ''b'' \<in> set (drop (length (trace example_world))
      (trace (snd (process_job example_env ''b'' example_world))))"
    by (simp add: run) (simp add: example_world_def)
  with b have normal: "fst (process_job example_env ''b'' example_world) = None"
    by blast
  have "attempt_job example_env ''a'' example_job example_world =
      (Some (Exn ''Error'' ''LLM request aborted by timeout''), example_world)"
    by (simp add: attempt_job_def example_env_def example_job_def)
  with completed_write_precedes_delete[of example_env "''a''" example_world example_job _ _ _
      "Exn ''Error'' ''LLM request aborted by timeout''" example_world]
  have "KvDelete ''a'' \<notin> set (trace (snd (fail_job example_env ''a'' example_job
         (Exn ''Error'' ''LLM request aborted by timeout'') example_world)))"
    by (simp add: example_world_def)
  with run normal show ?thesis by simp
qed

subsection \<open>Errors during a sweep\<close>

lemma fail_job_marks:
  assumes "kv_fault e k PutFailed = None"
  shows "\<exists>w' m. fail_job e k j err w = (None, w') \<and>
           kv w' = (kv w)(k \<mapsto> Encoded (j\<lparr>status := ''failed'', error := Some m\<rparr>))"
  using assms
  by (auto simp: fail_job_def saveItinerary_def kv_put_def Let_def split: option.splits prod.splits)

lemma locked_run_settles:
  assumes "kv_fault e k PutLock = None" and "kv_fault e k PutFailed = None"
  shows "\<exists>w'. locked_run e k j2 w1 = (None, w') \<and>
           (kv w' = (kv w1)(k := None) \<or>
            (\<exists>m. kv w' = (kv w1)(k \<mapsto> Encoded (j2\<lparr>status := ''failed'', error := Some m\<rparr>))))"
proof -
  define w2 where "w2 = w1\<lparr>kv := (kv w1)(k \<mapsto> Encoded j2), trace := trace w1 @ [KvPut k j2]\<rparr>"
  obtain r w3 where att: "attempt_job e k j2 w2 = (r, w3)" by (cases "attempt_job e k j2 w2")
  have lr: "locked_run e k j2 w1 =
      (case r of None \<Rightarrow> (None, w3) | Some err \<Rightarrow> fail_job e k j2 err w3)"
    using assms(1) att by (simp add: locked_run_def kv_put_def w2_def split: option.splits)
  show ?thesis
  proof (cases r)
    case None
    then have "kv w3 = (kv w2)(k := None)"
      using attempt_job_success[of e k j2 w2 w3] att by auto
    with None lr show ?thesis by (simp add: w2_def)
  next
    case (Some err)
    then have "kv w3 = kv w2"
      using attempt_job_failure[of e k j2 w2 err w3] att by simp
    moreover obtain w' m where "fail_job e k j2 err w3 = (None, w')"
        "kv w' = (kv w3)(k \<mapsto> Encoded (j2\<lparr>status := ''failed'', error := Some m\<rparr>))"
      using fail_job_marks[OF assms(2)] by blast
    ultimately show ?thesis using Some lr by (auto simp: w2_def)
  qed
qed

lemma process_job_outcome:
  assumes nf: "queue_calls_succeed e" and nonjson: "\<And>s. kv w k = Some (Text s) \<Longrightarrow> s = []"
    and nonnull: "kv w k \<noteq> Some JsonNull"
  shows "(\<not> eligible e w k \<and> process_job e k w = (None, w)) \<or>
         (eligible e w k \<and>
          (\<exists>w'. process_job e k w = (None, w') \<and>
             (kv w' = (kv w)(k := None) \<or>
              (\<exists>j' m. kv w' = (kv w)(k \<mapsto> Encoded (j'\<lparr>status := ''failed'', error := Some m\<rparr>))))))"
proof -
  have faults: "kv_fault e k Get = None" "kv_fault e k PutReset = None"
      "kv_fault e k PutLock = None" "kv_fault e k PutFailed = None"
    using nf by (simp_all add: queue_calls_succeed_def)
  show ?thesis
  proof (cases "kv w k")
    case None
    then show ?thesis
      by (simp add: process_job_locked_run kv_get_def faults falsy_def eligible_def)
  next
    case (Some raw)
    show ?thesis
    proof (cases raw)
      case (Text s)
      with Some nonjson have "s = []" by simp
      with Some Text show ?thesis
        by (simp add: process_job_locked_run kv_get_def faults falsy_def eligible_def)
    next
      case JsonNull
      with Some nonnull show ?thesis by simp
    next
      case JsonOther
      with Some show ?thesis
        by (simp add: process_job_locked_run kv_get_def faults falsy_def JSON_parse_job_def
            eligible_def)
    next
      case (Encoded j)
      note stored = Some Encoded
      show ?thesis
      proof (cases "status j = ''in-progress'' \<and> stale e j")
        case True
        define j1 where "j1 = j\<lparr>status := ''pending'', error := None\<rparr>"
        define w1 where "w1 = w\<lparr>kv := (kv w)(k \<mapsto> Encoded j1), trace := trace w @ [KvPut k j1]\<rparr>"
        define j2 where "j2 = j1\<lparr>status := ''in-progress'', lockedAt := Some (lock_time e k)\<rparr>"
        have "reclaim e k j w = Inr (j1, w1)"
          using True by (simp add: reclaim_def kv_put_def faults j1_def w1_def Let_def)
        moreover have "status j1 = ''pending''" by (simp add: j1_def)
        ultimately have pj: "process_job e k w = locked_run e k j2 w1"
          using stored
          by (simp add: process_job_locked_run kv_get_def faults falsy_def JSON_parse_job_def j2_def)
        obtain w' where "locked_run e k j2 w1 = (None, w')"
            "kv w' = (kv w1)(k := None) \<or>
             (\<exists>m. kv w' = (kv w1)(k \<mapsto> Encoded (j2\<lparr>status := ''failed'', error := Some m\<rparr>)))"
          using locked_run_settles[OF faults(3,4)] by blast
        moreover have "eligible e w k" using True stored by (auto simp: eligible_def)
        ultimately show ?thesis using pj by (auto simp: w1_def)
      next
        case False
        then have rec: "reclaim e k j w = Inr (j, w)" by (auto simp: reclaim_def)
        show ?thesis
        proof (cases "status j = ''pending''")
          case True
          define j2 where "j2 = j\<lparr>status := ''in-progress'', lockedAt := Some (lock_time e k)\<rparr>"
          have pj: "process_job e k w = locked_run e k j2 w"
            using stored rec True
            by (simp add: process_job_locked_run kv_get_def faults falsy_def JSON_parse_job_def j2_def)
          obtain w' where "locked_run e k j2 w = (None, w')"
              "kv w' = (kv w)(k := None) \<or>
               (\<exists>m. kv w' = (kv w)(k \<mapsto> Encoded (j2\<lparr>status := ''failed'', error := Some m\<rparr>)))"
            using locked_run_settles[OF faults(3,4)] by blast
          moreover have "eligible e w k" using True stored by (auto simp: eligible_def)
          ultimately show ?thesis using pj by auto
        next
          case notpending: False
          have "\<not> eligible e w k" using False notpending stored by (auto simp: eligible_def)
          moreover have "process_job e k w = (None, w)"
            using stored rec notpending
            by (simp add: process_job_locked_run kv_get_def faults falsy_def JSON_parse_job_def)
          ultimately show ?thesis by simp
        qed
      qed
    qed
  qed
qed

lemma settled_not_eligible: "settled w k \<Longrightarrow> \<not> eligible e w k"
  by (auto simp: settled_def eligible_def)

lemma sweep_without_queue_faults:
  assumes nf: "queue_calls_succeed e"
  shows "parseable w \<Longrightarrow>
     fst (sweep e keys w) = None \<and>
     (\<forall>k. k \<notin> set keys \<longrightarrow> kv (snd (sweep e keys w)) k = kv w k) \<and>
     (\<forall>k\<in>set keys. eligible e w k \<or> settled w k \<longrightarrow> settled (snd (sweep e keys w)) k)"
proof (induction keys arbitrary: w)
  case Nil
  then show ?case by simp
next
  case (Cons a keys)
  have nonjson: "\<And>s. kv w a = Some (Text s) \<Longrightarrow> s = []"
    and nonnull: "kv w a \<noteq> Some JsonNull"
    using Cons.prems by (simp_all add: parseable_def)
  obtain w1 where step: "process_job e a w = (None, w1)"
      and other: "\<And>k. k \<noteq> a \<Longrightarrow> kv w1 k = kv w k"
      and own: "eligible e w a \<or> settled w a \<Longrightarrow> settled w1 a"
      and shape: "kv w1 a = kv w a \<or> kv w1 a = None \<or> (\<exists>j. kv w1 a = Some (Encoded j))"
    using process_job_outcome[OF nf nonjson nonnull] settled_not_eligible[of w a e]
    by (fastforce simp: settled_def)
  have p1: "parseable w1"
    unfolding parseable_def
  proof (intro allI conjI impI)
    fix k
    show "kv w1 k \<noteq> Some JsonNull"
      using other[of k] shape Cons.prems by (cases "k = a") (auto simp: parseable_def)
  next
    fix k s assume "kv w1 k = Some (Text s)"
    then have "kv w k = Some (Text s)"
      using other[of k] shape by (cases "k = a") auto
    then show "s = []" using Cons.prems by (simp add: parseable_def)
  qed
  note IH = Cons.IH[OF p1]
  have sw: "sweep e (a # keys) w = sweep e keys w1"
    using step by simp
  have same: "\<And>k. k \<noteq> a \<Longrightarrow> eligible e w1 k = eligible e w k \<and> settled w1 k = settled w k"
    using other by (simp add: eligible_def settled_def)
  show ?case
  proof (intro conjI allI ballI impI)
    show "fst (sweep e (a # keys) w) = None" using IH sw by simp
  next
    fix k assume "k \<notin> set (a # keys)"
    then show "kv (snd (sweep e (a # keys) w)) k = kv w k"
      using IH other[of k] sw by simp
  next
    fix k assume k: "k \<in> set (a # keys)" and pre: "eligible e w k \<or> settled w k"
    have pre1: "eligible e w1 k \<or> settled w1 k"
      using pre own same[of k] by (cases "k = a") auto
    show "settled (snd (sweep e (a # keys) w)) k"
    proof (cases "k \<in> set keys")
      case True
      with IH pre1 have "settled (snd (sweep e keys w1)) k" by blast
      then show ?thesis by (simp only: sw)
    next
      case False
      with k have "k = a" by simp
      then have "settled w1 k" using own pre by simp
      moreover have "kv (snd (sweep e keys w1)) k = kv w1 k" using IH False by simp
      ultimately have "settled (snd (sweep e keys w1)) k" by (simp add: settled_def)
      then show ?thesis by (simp only: sw)
    qed
  qed
qed



lemma sweep_append:
  "sweep e (xs @ ys) w =
     (case sweep e xs w of (Some x, w1) \<Rightarrow> (Some x, w1) | (None, w1) \<Rightarrow> sweep e ys w1)"
  by (induction xs arbitrary: w) (auto split: prod.splits option.splits)

lemma sweep_reaches:
  assumes "sweep e before w = (None, w1)"
  shows "sweep e (before @ jobId # rest) w =
     (case process_job e jobId w1 of (Some x, w2) \<Rightarrow> (Some x, w2) | (None, w2) \<Rightarrow> sweep e rest w2)"
  using assms by (simp add: sweep_append)

lemma process_job_extends: "\<exists>post. trace (snd (process_job e jobId w)) = trace w @ post"
proof -
  consider (same) "snd (process_job e jobId w) = w"
    | (direct) j2 where "process_job e jobId w = locked_run e jobId j2 w"
    | (reset) j1 j2 where "process_job e jobId w = locked_run e jobId j2
         (w\<lparr>kv := (kv w)(jobId \<mapsto> Encoded j1), trace := trace w @ [KvPut jobId j1]\<rparr>)"
    using process_job_shape[of e jobId w] by blast
  then show ?thesis
  proof cases
    case same
    then show ?thesis by simp
  next
    case direct
    then show ?thesis using locked_run_extends[of e jobId j2 w] by simp
  next
    case reset
    obtain post where "trace (snd (locked_run e jobId j2
         (w\<lparr>kv := (kv w)(jobId \<mapsto> Encoded j1), trace := trace w @ [KvPut jobId j1]\<rparr>))) =
        (trace w @ [KvPut jobId j1]) @ post"
      using locked_run_extends[of e jobId j2
          "w\<lparr>kv := (kv w)(jobId \<mapsto> Encoded j1), trace := trace w @ [KvPut jobId j1]\<rparr>"]
      by auto
    with reset show ?thesis by simp
  qed
qed

lemma sweep_extends: "\<exists>post. trace (snd (sweep e keys w)) = trace w @ post"
proof (induction keys arbitrary: w)
  case Nil
  then show ?case by simp
next
  case (Cons a keys)
  obtain r w1 where step: "process_job e a w = (r, w1)" by (cases "process_job e a w")
  obtain p1 where p1: "trace w1 = trace w @ p1"
    using process_job_extends[of e a w] step by auto
  show ?case
  proof (cases r)
    case None
    obtain p2 where "trace (snd (sweep e keys w1)) = trace w1 @ p2"
      using Cons.IH by blast
    with None step p1 show ?thesis by simp
  next
    case (Some x)
    with step p1 show ?thesis by simp
  qed
qed

text \<open>The calls that are outside the \<open>try\<close> block: what they throw leaves the loop body.\<close>

lemma body_throws_read:
  assumes "kv_fault e jobId Get = Some x"
  shows "process_job e jobId w = (Some x, w)"
  using assms by (simp add: process_job_def kv_get_def)

lemma body_throws_parse:
  assumes "kv_fault e jobId Get = None" and "kv w jobId = Some (Text s)" and "s \<noteq> []"
  shows "process_job e jobId w =
     (Some (Exn ''SyntaxError'' (''Unexpected token in JSON: '' @ s)), w)"
  using assms by (simp add: process_job_def kv_get_def falsy_def JSON_parse_job_def)

lemma body_throws_null:
  assumes "kv_fault e jobId Get = None" and "kv w jobId = Some JsonNull"
  shows "process_job e jobId w =
     (Some (Exn ''TypeError'' ''Cannot read properties of null (reading status)''), w)"
  using assms by (simp add: process_job_def kv_get_def falsy_def JSON_parse_job_def)

lemma body_throws_reset:
  assumes "kv_fault e jobId Get = None" and "kv w jobId = Some (Encoded j)"
    and "status j = ''in-progress''" and "stale e j" and "kv_fault e jobId PutReset = Some x"
  shows "process_job e jobId w = (Some x, w)"
  using assms
  by (simp add: process_job_def kv_get_def falsy_def JSON_parse_job_def reclaim_def kv_put_def)

lemma body_throws_lock:
  assumes "kv_fault e jobId Get = None" and "kv w jobId = Some (Encoded j)"
    and "status j = ''pending'' \<or>
         (status j = ''in-progress'' \<and> stale e j \<and> kv_fault e jobId PutReset = None)"
    and "kv_fault e jobId PutLock = Some x"
  shows "fst (process_job e jobId w) = Some x"
proof (cases "status j = ''in-progress'' \<and> stale e j")
  case True
  with assms(3) have "kv_fault e jobId PutReset = None" by auto
  with True have "reclaim e jobId j w =
      Inr (j\<lparr>status := ''pending'', error := None\<rparr>,
           w\<lparr>kv := (kv w)(jobId \<mapsto> Encoded (j\<lparr>status := ''pending'', error := None\<rparr>)),
             trace := trace w @ [KvPut jobId (j\<lparr>status := ''pending'', error := None\<rparr>)]\<rparr>)"
    by (simp add: reclaim_def kv_put_def Let_def)
  then show ?thesis
    using assms(1,2,4)
    by (simp add: process_job_locked_run kv_get_def falsy_def JSON_parse_job_def locked_run_def
        kv_put_def)
next
  case False
  then have "reclaim e jobId j w = Inr (j, w)" by (auto simp: reclaim_def)
  moreover from False assms(3) have "status j = ''pending''" by auto
  ultimately show ?thesis
    using assms(1,2,4)
    by (simp add: process_job_locked_run kv_get_def falsy_def JSON_parse_job_def locked_run_def
        kv_put_def)
qed

lemma fail_job_throws:
  assumes "kv_fault e jobId PutFailed = Some x"
  shows "fst (fail_job e jobId j err w) = Some x"
  using assms
  by (simp add: fail_job_def saveItinerary_def kv_put_def Let_def split: option.splits prod.splits)

lemma body_throws_failure_record:
  assumes "kv_fault e jobId Get = None" and "kv w jobId = Some (Encoded j)"
    and "status j = ''pending''" and "kv_fault e jobId PutLock = None"
    and "generate e jobId (destination j) (durationDays j) = Inl err"
    and "kv_fault e jobId PutFailed = Some x"
  shows "fst (process_job e jobId w) = Some x"
proof -
  have "attempt_job e jobId (j\<lparr>status := ''in-progress'', lockedAt := Some (lock_time e jobId)\<rparr>)
      (w\<lparr>kv := (kv w)(jobId \<mapsto> Encoded (j\<lparr>status := ''in-progress'',
              lockedAt := Some (lock_time e jobId)\<rparr>)),
         trace := trace w @ [KvPut jobId (j\<lparr>status := ''in-progress'',
              lockedAt := Some (lock_time e jobId)\<rparr>)]\<rparr>) =
     (Some err, w\<lparr>kv := (kv w)(jobId \<mapsto> Encoded (j\<lparr>status := ''in-progress'',
              lockedAt := Some (lock_time e jobId)\<rparr>)),
         trace := trace w @ [KvPut jobId (j\<lparr>status := ''in-progress'',
              lockedAt := Some (lock_time e jobId)\<rparr>)]\<rparr>)"
    using assms(5) by (intro attempt_job_fails) simp
  then show ?thesis
    using assms(1-4) fail_job_throws[OF assms(6)]
    by (simp add: process_job_pending kv_put_def Let_def)
qed

text \<open>
  C3 (as amended). (1) Whatever generation, validation, the durable-store writes and the
  deletion of the queue record do or throw: when the listing succeeds, no read or write
  of the queue store throws and every stored text is empty or is JSON other than \<open>null\<close>
  (a job record, or a value whose status is neither \<open>pending\<close> nor \<open>in-progress\<close>),
  \<open>processPendingJobs\<close> returns normally, and every listed record that was pending, or
  locked with a stale lock, is afterwards deleted or marked \<open>failed\<close> with an error
  message. (2) What the calls outside the \<open>try\<close> block throw is thrown out of the loop
  body: the read of the record, \<open>JSON.parse\<close> of a stored text that is not JSON, the read
  of the status of a stored \<open>null\<close>, the reset write, the lock write, and the write of the
  failure record in the \<open>catch\<close> block. (3) A value thrown out of the loop body for a key,
  and a value thrown by the listing, is thrown out of \<open>processPendingJobs\<close>, and the keys
  listed after that key are not processed: the sweep ends in the world the body left.
\<close>

theorem sweep_settles_every_eligible_record:
  "(kv_list e = Inr keys \<and> (\<forall>k site. site \<noteq> Delete \<longrightarrow> kv_fault e k site = None) \<and>
    (\<forall>k. kv w k \<noteq> Some JsonNull \<and> (\<forall>s. kv w k = Some (Text s) \<longrightarrow> s = [])) \<longrightarrow>
      fst (processPendingJobs e w) = None \<and>
      (\<forall>k\<in>set keys. \<forall>j.
         kv w k = Some (Encoded j) \<and>
         (status j = ''pending'' \<or> (status j = ''in-progress'' \<and> stale e j)) \<longrightarrow>
         kv (snd (processPendingJobs e w)) k = None \<or>
         (\<exists>j'. kv (snd (processPendingJobs e w)) k = Some (Encoded j') \<and>
               status j' = ''failed'' \<and> error j' \<noteq> None)))
   \<and> (kv_fault e jobId Get = Some x \<longrightarrow> process_job e jobId w = (Some x, w))
   \<and> (kv_fault e jobId Get = None \<and> kv w jobId = Some (Text s) \<and> s \<noteq> [] \<longrightarrow>
        process_job e jobId w =
          (Some (Exn ''SyntaxError'' (''Unexpected token in JSON: '' @ s)), w))
   \<and> (kv_fault e jobId Get = None \<and> kv w jobId = Some JsonNull \<longrightarrow>
        process_job e jobId w =
          (Some (Exn ''TypeError'' ''Cannot read properties of null (reading status)''), w))
   \<and> (kv_fault e jobId Get = None \<and> kv w jobId = Some (Encoded j) \<and>
       status j = ''in-progress'' \<and> stale e j \<and> kv_fault e jobId PutReset = Some x \<longrightarrow>
        process_job e jobId w = (Some x, w))
   \<and> (kv_fault e jobId Get = None \<and> kv w jobId = Some (Encoded j) \<and>
       (status j = ''pending'' \<or>
        (status j = ''in-progress'' \<and> stale e j \<and> kv_fault e jobId PutReset = None)) \<and>
       kv_fault e jobId PutLock = Some x \<longrightarrow>
        fst (process_job e jobId w) = Some x)
   \<and> (kv_fault e jobId Get = None \<and> kv w jobId = Some (Encoded j) \<and> status j = ''pending'' \<and>
       kv_fault e jobId PutLock = None \<and>
       generate e jobId (destination j) (durationDays j) = Inl err \<and>
       kv_fault e jobId PutFailed = Some x \<longrightarrow>
        fst (process_job e jobId w) = Some x)
   \<and> (kv_list e = Inr (before @ jobId # rest) \<and> sweep e before w = (None, w1) \<and>
       process_job e jobId w1 = (Some x, w2) \<longrightarrow>
        processPendingJobs e w = (Some x, w2))
   \<and> (kv_list e = Inl x \<longrightarrow> processPendingJobs e w = (Some x, w))"
proof (intro conjI impI)
  assume a: "kv_list e = Inr keys \<and> (\<forall>k site. site \<noteq> Delete \<longrightarrow> kv_fault e k site = None) \<and>
    (\<forall>k. kv w k \<noteq> Some JsonNull \<and> (\<forall>s. kv w k = Some (Text s) \<longrightarrow> s = []))"
  then have "queue_calls_succeed e" "parseable w"
    by (simp_all add: queue_calls_succeed_def parseable_def)
  from sweep_without_queue_faults[OF this, of keys]
  have "fst (sweep e keys w) = None"
    and "\<forall>k\<in>set keys. eligible e w k \<longrightarrow> settled (snd (sweep e keys w)) k"
    by blast+
  then show "fst (processPendingJobs e w) = None"
    and "\<forall>k\<in>set keys. \<forall>j.
         kv w k = Some (Encoded j) \<and>
         (status j = ''pending'' \<or> (status j = ''in-progress'' \<and> stale e j)) \<longrightarrow>
         kv (snd (processPendingJobs e w)) k = None \<or>
         (\<exists>j'. kv (snd (processPendingJobs e w)) k = Some (Encoded j') \<and>
               status j' = ''failed'' \<and> error j' \<noteq> None)"
    using a by (simp_all add: processPendingJobs_def eligible_def settled_def)
next
  assume "kv_fault e jobId Get = Some x"
  then show "process_job e jobId w = (Some x, w)" by (rule body_throws_read)
next
  assume "kv_fault e jobId Get = None \<and> kv w jobId = Some (Text s) \<and> s \<noteq> []"
  then show "process_job e jobId w =
          (Some (Exn ''SyntaxError'' (''Unexpected token in JSON: '' @ s)), w)"
    using body_throws_parse by blast
next
  assume "kv_fault e jobId Get = None \<and> kv w jobId = Some JsonNull"
  then show "process_job e jobId w =
          (Some (Exn ''TypeError'' ''Cannot read properties of null (reading status)''), w)"
    using body_throws_null by blast
next
  assume "kv_fault e jobId Get = None \<and> kv w jobId = Some (Encoded j) \<and>
       status j = ''in-progress'' \<and> stale e j \<and> kv_fault e jobId PutReset = Some x"
  then show "process_job e jobId w = (Some x, w)"
    using body_throws_reset by blast
next
  assume "kv_fault e jobId Get = None \<and> kv w jobId = Some (Encoded j) \<and>
       (status j = ''pending'' \<or>
        (status j = ''in-progress'' \<and> stale e j \<and> kv_fault e jobId PutReset = None)) \<and>
       kv_fault e jobId PutLock = Some x"
  then show "fst (process_job e jobId w) = Some x"
    using body_throws_lock[of e jobId w j x] by blast
next
  assume "kv_fault e jobId Get = None \<and> kv w jobId = Some (Encoded j) \<and> status j = ''pending'' \<and>
       kv_fault e jobId PutLock = None \<and>
       generate e jobId (destination j) (durationDays j) = Inl err \<and>
       kv_fault e jobId PutFailed = Some x"
  then show "fst (process_job e jobId w) = Some x"
    using body_throws_failure_record[of e jobId w j err x] by blast
next
  assume "kv_list e = Inr (before @ jobId # rest) \<and> sweep e before w = (None, w1) \<and>
       process_job e jobId w1 = (Some x, w2)"
  then show "processPendingJobs e w = (Some x, w2)"
    using sweep_reaches[of e before w w1 jobId rest] by (simp add: processPendingJobs_def)
next
  assume "kv_list e = Inl x"
  then show "processPendingJobs e w = (Some x, w)" by (simp add: processPendingJobs_def)
qed

text \<open>
  C3, as stated, fails on the example queue when the lock write for \<open>''a''\<close> throws: the
  error leaves \<open>processPendingJobs\<close>, nothing is written to either store, and the pending
  record \<open>''b''\<close> is not processed.
\<close>

theorem sweep_settles_every_eligible_record_counterexample:
  "processPendingJobs (fault_env PutLock) example_world =
     (Some (Exn ''Error'' ''KV failed''), example_world)
   \<and> trace example_world = []
   \<and> kv example_world ''b'' = Some (Encoded example_job)
   \<and> status example_job = ''pending''"
  by (simp add: processPendingJobs_def process_job_def kv_get_def falsy_def JSON_parse_job_def
      reclaim_def kv_put_def fault_env_def example_env_def example_world_def example_job_def)

theorem sweep_settles_every_eligible_record_witness:
  "fst (processPendingJobs example_env example_world) = None
   \<and> (kv (snd (processPendingJobs example_env example_world)) ''a'' = None \<or>
      (\<exists>j'. kv (snd (processPendingJobs example_env example_world)) ''a'' = Some (Encoded j') \<and>
            status j' = ''failed'' \<and> error j' \<noteq> None))
   \<and> (kv (snd (processPendingJobs example_env example_world)) ''b'' = None \<or>
      (\<exists>j'. kv (snd (processPendingJobs example_env example_world)) ''b'' = Some (Encoded j') \<and>
            status j' = ''failed'' \<and> error j' \<noteq> None))
   \<and> process_job (fault_env Get) ''a'' example_world =
       (Some (Exn ''Error'' ''KV failed''), example_world)
   \<and> process_job example_env ''a'' \<lparr>kv = [''a'' \<mapsto> Text ''oops''], trace = []\<rparr> =
       (Some (Exn ''SyntaxError'' ''Unexpected token in JSON: oops''),
        \<lparr>kv = [''a'' \<mapsto> Text ''oops''], trace = []\<rparr>)
   \<and> process_job example_env ''a'' \<lparr>kv = [''a'' \<mapsto> JsonNull], trace = []\<rparr> =
       (Some (Exn ''TypeError'' ''Cannot read properties of null (reading status)''),
        \<lparr>kv = [''a'' \<mapsto> JsonNull], trace = []\<rparr>)
   \<and> process_job (fault_env PutReset) ''a'' \<lparr>kv = [''a'' \<mapsto> Encoded stale_job], trace = []\<rparr> =
       (Some (Exn ''Error'' ''KV failed''), \<lparr>kv = [''a'' \<mapsto> Encoded stale_job], trace = []\<rparr>)
   \<and> fst (process_job (fault_env PutLock) ''a'' example_world) = Some (Exn ''Error'' ''KV failed'')
   \<and> fst (process_job (fault_env PutFailed) ''a'' example_world) = Some (Exn ''Error'' ''KV failed'')
   \<and> processPendingJobs (fault_env PutLock) example_world =
       (Some (Exn ''Error'' ''KV failed''), example_world)
   \<and> processPendingJobs (example_env\<lparr>kv_list := Inl (Exn ''Error'' ''KV failed'')\<rparr>) example_world =
       (Some (Exn ''Error'' ''KV failed''), example_world)"
proof -
  note T = sweep_settles_every_eligible_record
  have h1: "kv_list example_env = Inr [''a'', ''b''] \<and>
      (\<forall>k site. site \<noteq> Delete \<longrightarrow> kv_fault example_env k site = None) \<and>
      (\<forall>k. kv example_world k \<noteq> Some JsonNull \<and>
           (\<forall>s. kv example_world k = Some (Text s) \<longrightarrow> s = []))"
    by (simp add: example_env_def example_world_def)
  from T[where e = example_env and w = example_world and keys = "[''a'', ''b'']",
      THEN conjunct1, THEN mp] h1
  have settled: "fst (processPendingJobs example_env example_world) = None \<and>
      (\<forall>k\<in>set [''a'', ''b'']. \<forall>j.
         kv example_world k = Some (Encoded j) \<and>
         (status j = ''pending'' \<or> (status j = ''in-progress'' \<and> stale example_env j)) \<longrightarrow>
         kv (snd (processPendingJobs example_env example_world)) k = None \<or>
         (\<exists>j'. kv (snd (processPendingJobs example_env example_world)) k = Some (Encoded j') \<and>
               status j' = ''failed'' \<and> error j' \<noteq> None))"
    by blast
  have w1: "fst (processPendingJobs example_env example_world) = None
   \<and> (kv (snd (processPendingJobs example_env example_world)) ''a'' = None \<or>
      (\<exists>j'. kv (snd (processPendingJobs example_env example_world)) ''a'' = Some (Encoded j') \<and>
            status j' = ''failed'' \<and> error j' \<noteq> None))
   \<and> (kv (snd (processPendingJobs example_env example_world)) ''b'' = None \<or>
      (\<exists>j'. kv (snd (processPendingJobs example_env example_world)) ''b'' = Some (Encoded j') \<and>
            status j' = ''failed'' \<and> error j' \<noteq> None))"
    using settled by (simp add: example_world_def example_job_def)
  have h2: "kv_fault (fault_env Get) ''a'' Get = Some (Exn ''Error'' ''KV failed'')"
    by (simp add: fault_env_def)
  from T[where e = "fault_env Get" and jobId = "''a''" and w = example_world
      and x = "Exn ''Error'' ''KV failed''",
      THEN conjunct2, THEN conjunct1, THEN mp] h2
  have w2: "process_job (fault_env Get) ''a'' example_world =
       (Some (Exn ''Error'' ''KV failed''), example_world)"
    by blast
  have h3: "kv_fault example_env ''a'' Get = None \<and>
      kv \<lparr>kv = [''a'' \<mapsto> Text ''oops''], trace = []\<rparr> ''a'' = Some (Text ''oops'') \<and> ''oops'' \<noteq> []"
    by (simp add: example_env_def)
  from T[where e = example_env and jobId = "''a''"
      and w = "\<lparr>kv = [''a'' \<mapsto> Text ''oops''], trace = []\<rparr>" and s = "''oops''",
      THEN conjunct2, THEN conjunct2, THEN conjunct1, THEN mp] h3
  have w3: "process_job example_env ''a'' \<lparr>kv = [''a'' \<mapsto> Text ''oops''], trace = []\<rparr> =
       (Some (Exn ''SyntaxError'' (''Unexpected token in JSON: '' @ ''oops'')),
        \<lparr>kv = [''a'' \<mapsto> Text ''oops''], trace = []\<rparr>)"
    by blast
  have h4: "kv_fault example_env ''a'' Get = None \<and>
      kv \<lparr>kv = [''a'' \<mapsto> JsonNull], trace = []\<rparr> ''a'' = Some JsonNull"
    by (simp add: example_env_def)
  from T[where e = example_env and jobId = "''a''"
      and w = "\<lparr>kv = [''a'' \<mapsto> JsonNull], trace = []\<rparr>",
      THEN conjunct2, THEN conjunct2, THEN conjunct2, THEN conjunct1, THEN mp] h4
  have w4: "process_job example_env ''a'' \<lparr>kv = [''a'' \<mapsto> JsonNull], trace = []\<rparr> =
       (Some (Exn ''TypeError'' ''Cannot read properties of null (reading status)''),
        \<lparr>kv = [''a'' \<mapsto> JsonNull], trace = []\<rparr>)"
    by blast
  have h5: "kv_fault (fault_env PutReset) ''a'' Get = None \<and>
      kv \<lparr>kv = [''a'' \<mapsto> Encoded stale_job], trace = []\<rparr> ''a'' = Some (Encoded stale_job) \<and>
      status stale_job = ''in-progress'' \<and> stale (fault_env PutReset) stale_job \<and>
      kv_fault (fault_env PutReset) ''a'' PutReset = Some (Exn ''Error'' ''KV failed'')"
    by (simp add: fault_env_def example_env_def stale_job_def stale_def)
  from T[where e = "fault_env PutReset" and jobId = "''a''"
      and w = "\<lparr>kv = [''a'' \<mapsto> Encoded stale_job], trace = []\<rparr>" and j = stale_job
      and x = "Exn ''Error'' ''KV failed''",
      THEN conjunct2, THEN conjunct2, THEN conjunct2, THEN conjunct2, THEN conjunct1, THEN mp] h5
  have w5: "process_job (fault_env PutReset) ''a'' \<lparr>kv = [''a'' \<mapsto> Encoded stale_job], trace = []\<rparr> =
       (Some (Exn ''Error'' ''KV failed''), \<lparr>kv = [''a'' \<mapsto> Encoded stale_job], trace = []\<rparr>)"
    by blast
  have h6: "kv_fault (fault_env PutLock) ''a'' Get = None \<and>
      kv example_world ''a'' = Some (Encoded example_job) \<and> status example_job = ''pending'' \<and>
      kv_fault (fault_env PutLock) ''a'' PutLock = Some (Exn ''Error'' ''KV failed'')"
    by (simp add: fault_env_def example_world_def example_job_def)
  from T[where e = "fault_env PutLock" and jobId = "''a''" and w = example_world
      and j = example_job and x = "Exn ''Error'' ''KV failed''",
      THEN conjunct2, THEN conjunct2, THEN conjunct2, THEN conjunct2, THEN conjunct2, THEN conjunct1, THEN mp] h6
  have w6: "fst (process_job (fault_env PutLock) ''a'' example_world) =
      Some (Exn ''Error'' ''KV failed'')"
    by blast
  have h7: "kv_fault (fault_env PutFailed) ''a'' Get = None \<and>
      kv example_world ''a'' = Some (Encoded example_job) \<and> status example_job = ''pending'' \<and>
      kv_fault (fault_env PutFailed) ''a'' PutLock = None \<and>
      generate (fault_env PutFailed) ''a'' (destination example_job) (durationDays example_job) =
        Inl (Exn ''Error'' ''LLM request aborted by timeout'') \<and>
      kv_fault (fault_env PutFailed) ''a'' PutFailed = Some (Exn ''Error'' ''KV failed'')"
    by (simp add: fault_env_def example_env_def example_world_def example_job_def)
  from T[where e = "fault_env PutFailed" and jobId = "''a''" and w = example_world
      and j = example_job and x = "Exn ''Error'' ''KV failed''"
      and err = "Exn ''Error'' ''LLM request aborted by timeout''",
      THEN conjunct2, THEN conjunct2, THEN conjunct2, THEN conjunct2, THEN conjunct2, THEN conjunct2, THEN conjunct1, THEN mp] h7
  have w7: "fst (process_job (fault_env PutFailed) ''a'' example_world) =
      Some (Exn ''Error'' ''KV failed'')"
    by blast
  have body: "process_job (fault_env PutLock) ''a'' example_world =
      (Some (Exn ''Error'' ''KV failed''), example_world)"
    by (simp add: process_job_def kv_get_def falsy_def JSON_parse_job_def reclaim_def kv_put_def
        fault_env_def example_env_def example_world_def example_job_def)
  have h8: "kv_list (fault_env PutLock) = Inr ([] @ ''a'' # [''b'']) \<and>
      sweep (fault_env PutLock) [] example_world = (None, example_world)"
    by (simp add: fault_env_def example_env_def)
  from T[where e = "fault_env PutLock" and jobId = "''a''" and w = example_world
      and before = "[]" and rest = "[''b'']" and ?w1.0 = example_world and ?w2.0 = example_world
      and x = "Exn ''Error'' ''KV failed''",
      THEN conjunct2, THEN conjunct2, THEN conjunct2, THEN conjunct2, THEN conjunct2, THEN conjunct2, THEN conjunct2, THEN conjunct1, THEN mp] h8 body
  have w8: "processPendingJobs (fault_env PutLock) example_world =
       (Some (Exn ''Error'' ''KV failed''), example_world)"
    by blast
  have h9: "kv_list (example_env\<lparr>kv_list := Inl (Exn ''Error'' ''KV failed'')\<rparr>) =
      Inl (Exn ''Error'' ''KV failed'')"
    by simp
  from T[where e = "example_env\<lparr>kv_list := Inl (Exn ''Error'' ''KV failed'')\<rparr>"
      and w = example_world and x = "Exn ''Error'' ''KV failed''",
      THEN conjunct2, THEN conjunct2, THEN conjunct2, THEN conjunct2, THEN conjunct2, THEN conjunct2, THEN conjunct2, THEN conjunct2, THEN mp] h9
  have w9: "processPendingJobs (example_env\<lparr>kv_list := Inl (Exn ''Error'' ''KV failed'')\<rparr>)
      example_world = (Some (Exn ''Error'' ''KV failed''), example_world)"
    by blast
  from w1 w2 w3 w4 w5 w6 w7 w8 w9 show ?thesis by simp
qed

subsection \<open>Stale locks\<close>

lemma process_job_stale_lock:
  assumes "kv_fault e jobId Get = None" and "kv w jobId = Some (Encoded j)"
    and "status j = ''in-progress''" and "lockedAt j = Some t"
  shows "(now e - t > 600000 \<and> kv_fault e jobId PutReset = None \<longrightarrow>
            (\<exists>post. trace (snd (process_job e jobId w)) =
               trace w @ KvPut jobId (j\<lparr>status := ''pending'', error := None\<rparr>) # post))
       \<and> (now e - t \<le> 600000 \<longrightarrow> process_job e jobId w = (None, w))"
proof (intro conjI impI)
  assume a: "now e - t > 600000 \<and> kv_fault e jobId PutReset = None"
  define j1 where "j1 = j\<lparr>status := ''pending'', error := None\<rparr>"
  define w1 where "w1 = w\<lparr>kv := (kv w)(jobId \<mapsto> Encoded j1), trace := trace w @ [KvPut jobId j1]\<rparr>"
  have rec: "reclaim e jobId j w = Inr (j1, w1)"
    using assms a by (simp add: reclaim_def stale_def kv_put_def j1_def w1_def Let_def)
  have "status j1 = ''pending''" by (simp add: j1_def)
  from process_job_reclaimed[OF assms(1,2) rec this]
  have "\<exists>post. trace (snd (process_job e jobId w)) = trace w1 @ post"
    by (simp only: locked_run_extends)
  then show "\<exists>post. trace (snd (process_job e jobId w)) =
               trace w @ KvPut jobId (j\<lparr>status := ''pending'', error := None\<rparr>) # post"
    by (auto simp: w1_def j1_def)
next
  assume "now e - t \<le> 600000"
  then show "process_job e jobId w = (None, w)"
    using assms
    by (simp add: process_job_def kv_get_def falsy_def JSON_parse_job_def reclaim_def stale_def)
qed

lemma sweep_reaches_trace:
  assumes "sweep e before w = (None, w1)"
    and "trace (snd (process_job e jobId w1)) = trace w1 @ ev # evs"
  shows "\<exists>evs'. trace (snd (sweep e (before @ jobId # rest) w)) = trace w1 @ ev # evs'"
proof -
  obtain r w2 where step: "process_job e jobId w1 = (r, w2)" by (cases "process_job e jobId w1")
  then have t2: "trace w2 = trace w1 @ ev # evs" using assms(2) by simp
  show ?thesis
  proof (cases r)
    case None
    obtain p2 where "trace (snd (sweep e rest w2)) = trace w2 @ p2"
      using sweep_extends[of e rest w2] by blast
    then show ?thesis using None step t2 sweep_reaches[OF assms(1), of jobId rest] by simp
  next
    case (Some x)
    then show ?thesis using step t2 sweep_reaches[OF assms(1), of jobId rest] by simp
  qed
qed

text \<open>
  C4 (as amended). For a key of the listing that the sweep reaches (the loop bodies of the
  keys listed before it have ended without throwing, which leaves the world \<open>w1\<close>) and whose
  record is read there as \<open>in-progress\<close> with the lock time \<open>t\<close>: when \<open>now - t\<close> exceeds
  600000 ms and the reset write is not refused, the first effect of the sweep after those
  for the earlier keys is the rewrite of the record with status \<open>pending\<close> and without its
  error, before the status is tested; when the reset write throws, the value is thrown
  out of the sweep and nothing is rewritten; when \<open>now - t\<close> is at most 600000 ms the loop
  body ends without any effect, so the record stays \<open>in-progress\<close>, and the sweep goes on
  with the keys listed after it.
\<close>

theorem stale_lock_reclaimed:
  assumes "kv_list e = Inr (before @ jobId # rest)" and "sweep e before w = (None, w1)"
    and "kv_fault e jobId Get = None" and "kv w1 jobId = Some (Encoded j)"
    and "status j = ''in-progress''" and "lockedAt j = Some t"
  shows "(now e - t > 600000 \<and> kv_fault e jobId PutReset = None \<longrightarrow>
            (\<exists>post. trace (snd (processPendingJobs e w)) =
               trace w1 @ KvPut jobId (j\<lparr>status := ''pending'', error := None\<rparr>) # post))
       \<and> (now e - t > 600000 \<and> kv_fault e jobId PutReset = Some x \<longrightarrow>
            processPendingJobs e w = (Some x, w1))
       \<and> (now e - t \<le> 600000 \<longrightarrow>
            process_job e jobId w1 = (None, w1) \<and> processPendingJobs e w = sweep e rest w1)"
proof (intro conjI impI)
  assume a: "now e - t > 600000 \<and> kv_fault e jobId PutReset = None"
  with process_job_stale_lock[OF assms(3-6)]
  obtain evs where "trace (snd (process_job e jobId w1)) =
      trace w1 @ KvPut jobId (j\<lparr>status := ''pending'', error := None\<rparr>) # evs"
    by blast
  from sweep_reaches_trace[OF assms(2) this, of rest]
  show "\<exists>post. trace (snd (processPendingJobs e w)) =
               trace w1 @ KvPut jobId (j\<lparr>status := ''pending'', error := None\<rparr>) # post"
    using assms(1) by (simp add: processPendingJobs_def)
next
  assume a: "now e - t > 600000 \<and> kv_fault e jobId PutReset = Some x"
  then have "stale e j" using assms(6) by (simp add: stale_def)
  then have "process_job e jobId w1 = (Some x, w1)"
    using body_throws_reset[of e jobId w1 j x] assms(3-5) a by blast
  then show "processPendingJobs e w = (Some x, w1)"
    using assms(1) sweep_reaches[OF assms(2), of jobId rest] by (simp add: processPendingJobs_def)
next
  assume "now e - t \<le> 600000"
  with process_job_stale_lock[OF assms(3-6)]
  show "process_job e jobId w1 = (None, w1)" by blast
next
  assume "now e - t \<le> 600000"
  with process_job_stale_lock[OF assms(3-6)]
  have "process_job e jobId w1 = (None, w1)" by blast
  then show "processPendingJobs e w = sweep e rest w1"
    using assms(1) sweep_reaches[OF assms(2), of jobId rest] by (simp add: processPendingJobs_def)
qed

text \<open>
  C4, as stated, fails for a stale record listed after a record whose lock write throws:
  the sweep ends there, and the stale record \<open>''s''\<close> is never rewritten.
\<close>

theorem stale_lock_reclaimed_counterexample:
  "processPendingJobs stale_env stale_world = (Some (Exn ''Error'' ''KV failed''), stale_world)
   \<and> kv_list stale_env = Inr [''a'', ''s'']
   \<and> kv stale_world ''s'' = Some (Encoded stale_job)
   \<and> status stale_job = ''in-progress''
   \<and> lockedAt stale_job = Some 1399999
   \<and> now stale_env - 1399999 > 600000
   \<and> trace stale_world = []"
  by (simp add: processPendingJobs_def process_job_def kv_get_def falsy_def JSON_parse_job_def
      reclaim_def kv_put_def stale_env_def stale_world_def fault_env_def example_env_def
      example_job_def stale_job_def)

theorem stale_lock_reclaimed_witness:
  "(\<exists>post. trace (snd (processPendingJobs (example_env\<lparr>kv_list := Inr [''a'', ''s'']\<rparr>) stale_world)) =
       [KvPut ''a'' (example_job\<lparr>status := ''in-progress'', lockedAt := Some 2000001\<rparr>),
        DocPatch ''a'' [''status'', ''updatedAt'', ''completedAt'', ''error'']
          [(''status'', StringValue ''failed''), (''updatedAt'', TimestampValue 2000003),
           (''completedAt'', NullValue),
           (''error'', StringValue ''LLM request aborted by timeout'')],
        KvPut ''a'' (example_job\<lparr>status := ''failed'', lockedAt := Some 2000001,
          error := Some ''LLM request aborted by timeout''\<rparr>)] @
       KvPut ''s'' (example_job\<lparr>status := ''pending'', lockedAt := Some 1399999, error := None\<rparr>) # post)
   \<and> processPendingJobs (fault_env PutReset) \<lparr>kv = [''a'' \<mapsto> Encoded stale_job], trace = []\<rparr> =
       (Some (Exn ''Error'' ''KV failed''), \<lparr>kv = [''a'' \<mapsto> Encoded stale_job], trace = []\<rparr>)
   \<and> process_job (example_env\<lparr>kv_list := Inr [''s'']\<rparr>) ''s''
        \<lparr>kv = [''s'' \<mapsto> Encoded (stale_job\<lparr>lockedAt := Some 1400000\<rparr>)], trace = []\<rparr> =
      (None, \<lparr>kv = [''s'' \<mapsto> Encoded (stale_job\<lparr>lockedAt := Some 1400000\<rparr>)], trace = []\<rparr>)
   \<and> processPendingJobs (example_env\<lparr>kv_list := Inr [''s'']\<rparr>)
        \<lparr>kv = [''s'' \<mapsto> Encoded (stale_job\<lparr>lockedAt := Some 1400000\<rparr>)], trace = []\<rparr> =
      (None, \<lparr>kv = [''s'' \<mapsto> Encoded (stale_job\<lparr>lockedAt := Some 1400000\<rparr>)], trace = []\<rparr>)"
proof -
  define e where "e = example_env\<lparr>kv_list := Inr [''a'', ''s'']\<rparr>"
  define w1 where "w1 = snd (sweep e [''a''] stale_world)"
  have first: "process_job e ''a'' stale_world =
      fail_job e ''a'' (example_job\<lparr>status := ''in-progress'', lockedAt := Some 2000001\<rparr>)
        (Exn ''Error'' ''LLM request aborted by timeout'')
        (stale_world\<lparr>kv := (kv stale_world)(''a'' \<mapsto>
             Encoded (example_job\<lparr>status := ''in-progress'', lockedAt := Some 2000001\<rparr>)),
           trace := trace stale_world @
             [KvPut ''a'' (example_job\<lparr>status := ''in-progress'', lockedAt := Some 2000001\<rparr>)]\<rparr>)"
    by (simp add: process_job_def kv_get_def falsy_def JSON_parse_job_def reclaim_def kv_put_def
        attempt_job_def e_def stale_world_def example_env_def example_job_def Let_def)
  have a1: "sweep e [''a''] stale_world = (None, w1)"
    unfolding w1_def
    by (simp add: first)
       (simp add: fail_job_def saveItinerary_def kv_put_def e_def example_env_def Let_def)
  have a2: "kv w1 ''s'' = Some (Encoded stale_job)"
    unfolding w1_def
    by (simp add: first)
       (simp add: fail_job_def saveItinerary_def kv_put_def e_def example_env_def stale_world_def
         Let_def)
  have a3: "trace w1 =
       [KvPut ''a'' (example_job\<lparr>status := ''in-progress'', lockedAt := Some 2000001\<rparr>),
        DocPatch ''a'' [''status'', ''updatedAt'', ''completedAt'', ''error'']
          [(''status'', StringValue ''failed''), (''updatedAt'', TimestampValue 2000003),
           (''completedAt'', NullValue),
           (''error'', StringValue ''LLM request aborted by timeout'')],
        KvPut ''a'' (example_job\<lparr>status := ''failed'', lockedAt := Some 2000001,
          error := Some ''LLM request aborted by timeout''\<rparr>)]"
    unfolding w1_def
    by (simp add: first)
       (simp add: fail_job_def saveItinerary_def kv_put_def error_message_def e_def example_env_def
         stale_world_def example_job_def Let_def)
  have h: "kv_list e = Inr ([''a''] @ ''s'' # []) \<and> kv_fault e ''s'' Get = None \<and>
      status stale_job = ''in-progress'' \<and> lockedAt stale_job = Some 1399999 \<and>
      now e - 1399999 > 600000 \<and> kv_fault e ''s'' PutReset = None"
    by (simp add: e_def example_env_def stale_job_def)
  have r: "stale_job\<lparr>status := ''pending'', error := None\<rparr> =
      example_job\<lparr>status := ''pending'', lockedAt := Some 1399999, error := None\<rparr>"
    by (simp add: stale_job_def)
  from stale_lock_reclaimed[of e "[''a'']" "''s''" "[]" stale_world w1 stale_job 1399999] a1 a2 h
  have "\<exists>post. trace (snd (processPendingJobs e stale_world)) =
       trace w1 @ KvPut ''s'' (stale_job\<lparr>status := ''pending'', error := None\<rparr>) # post"
    by blast
  then have p1: "\<exists>post. trace (snd (processPendingJobs (example_env\<lparr>kv_list := Inr [''a'', ''s'']\<rparr>) stale_world)) =
       [KvPut ''a'' (example_job\<lparr>status := ''in-progress'', lockedAt := Some 2000001\<rparr>),
        DocPatch ''a'' [''status'', ''updatedAt'', ''completedAt'', ''error'']
          [(''status'', StringValue ''failed''), (''updatedAt'', TimestampValue 2000003),
           (''completedAt'', NullValue),
           (''error'', StringValue ''LLM request aborted by timeout'')],
        KvPut ''a'' (example_job\<lparr>status := ''failed'', lockedAt := Some 2000001,
          error := Some ''LLM request aborted by timeout''\<rparr>)] @
       KvPut ''s'' (example_job\<lparr>status := ''pending'', lockedAt := Some 1399999, error := None\<rparr>) # post"
    unfolding r a3 e_def .
  define v where "v = \<lparr>kv = [''a'' \<mapsto> Encoded stale_job], trace = []\<rparr>"
  have h2: "kv_list (fault_env PutReset) = Inr ([] @ ''a'' # [''b''])"
    "sweep (fault_env PutReset) [] v = (None, v)"
    "kv_fault (fault_env PutReset) ''a'' Get = None" "kv v ''a'' = Some (Encoded stale_job)"
    "status stale_job = ''in-progress''" "lockedAt stale_job = Some 1399999"
    by (simp_all add: fault_env_def example_env_def stale_job_def v_def)
  have h2': "now (fault_env PutReset) - 1399999 > 600000 \<and>
      kv_fault (fault_env PutReset) ''a'' PutReset = Some (Exn ''Error'' ''KV failed'')"
    by (simp add: fault_env_def example_env_def)
  from stale_lock_reclaimed[OF h2, THEN conjunct2, THEN conjunct1, THEN mp, OF h2']
  have "processPendingJobs (fault_env PutReset) v = (Some (Exn ''Error'' ''KV failed''), v)" .
  then have p2: "processPendingJobs (fault_env PutReset) \<lparr>kv = [''a'' \<mapsto> Encoded stale_job], trace = []\<rparr> =
       (Some (Exn ''Error'' ''KV failed''), \<lparr>kv = [''a'' \<mapsto> Encoded stale_job], trace = []\<rparr>)"
    unfolding v_def .
  define f where "f = example_env\<lparr>kv_list := Inr [''s'']\<rparr>"
  define u where "u = \<lparr>kv = [''s'' \<mapsto> Encoded (stale_job\<lparr>lockedAt := Some 1400000\<rparr>)], trace = []\<rparr>"
  have h3: "kv_list f = Inr ([] @ ''s'' # [])" "sweep f [] u = (None, u)"
      "kv_fault f ''s'' Get = None"
      "kv u ''s'' = Some (Encoded (stale_job\<lparr>lockedAt := Some 1400000\<rparr>))"
      "status (stale_job\<lparr>lockedAt := Some 1400000\<rparr>) = ''in-progress''"
      "lockedAt (stale_job\<lparr>lockedAt := Some 1400000\<rparr>) = Some 1400000"
    by (simp_all add: f_def u_def example_env_def stale_job_def)
  have h3': "now f - 1400000 \<le> 600000"
    by (simp add: f_def example_env_def)
  from stale_lock_reclaimed[OF h3, THEN conjunct2, THEN conjunct2, THEN mp, OF h3']
  have "process_job f ''s'' u = (None, u) \<and> processPendingJobs f u = sweep f [] u" .
  then have "process_job f ''s'' u = (None, u) \<and> processPendingJobs f u = (None, u)"
    by simp
  then have p3: "process_job (example_env\<lparr>kv_list := Inr [''s'']\<rparr>) ''s''
        \<lparr>kv = [''s'' \<mapsto> Encoded (stale_job\<lparr>lockedAt := Some 1400000\<rparr>)], trace = []\<rparr> =
      (None, \<lparr>kv = [''s'' \<mapsto> Encoded (stale_job\<lparr>lockedAt := Some 1400000\<rparr>)], trace = []\<rparr>)
   \<and> processPendingJobs (example_env\<lparr>kv_list := Inr [''s'']\<rparr>)
        \<lparr>kv = [''s'' \<mapsto> Encoded (stale_job\<lparr>lockedAt := Some 1400000\<rparr>)], trace = []\<rparr> =
      (None, \<lparr>kv = [''s'' \<mapsto> Encoded (stale_job\<lparr>lockedAt := Some 1400000\<rparr>)], trace = []\<rparr>)"
    unfolding f_def u_def .
  from p1 p2 p3 show ?thesis by blast
qed

subsection \<open>What is persisted is the validated value\<close>

lemma z_array_min_accepts:
  assumes "fst (z_array_min el m p v) = []"
  shows "\<exists>xs. v = Some (JArr xs) \<and>
     snd (z_array_min el m p v) = JArr (map (\<lambda>(i, x). snd (el (p @ [Idx i]) (Some x))) (enumerate 0 xs)) \<and>
     (\<forall>(i, x)\<in>set (enumerate 0 xs). fst (el (p @ [Idx i]) (Some x)) = [])"
  using assms
  by (auto simp: z_array_min_def Let_def invalid_type_def split: option.splits json.splits if_splits)

lemma Activity_accepts:
  assumes "fst (Activity p v) = []"
  shows "own_keys (snd (Activity p v)) = [''time'', ''description'', ''location'']"
  using assms
  by (auto simp: Activity_def z_object_def own_keys_def split: option.splits json.splits)

lemma DayItinerary_accepts:
  assumes "fst (DayItinerary p v) = []"
  shows "own_keys (snd (DayItinerary p v)) = [''day'', ''theme'', ''activities''] \<and>
     (\<exists>acts. property (snd (DayItinerary p v)) ''activities'' = Some (JArr acts) \<and>
        list_all (\<lambda>a. own_keys a = [''time'', ''description'', ''location'']) acts)"
proof -
  from assms obtain props where v: "v = Some (JObj props)"
    by (auto simp: DayItinerary_def z_object_def split: option.splits json.splits)
  have acts: "fst (z_array_min Activity 1 (p @ [Key ''activities'']) (map_of props ''activities'')) = []"
    using assms by (simp add: v DayItinerary_def z_object_def)
  obtain xs where xs: "map_of props ''activities'' = Some (JArr xs)"
      "snd (z_array_min Activity 1 (p @ [Key ''activities'']) (map_of props ''activities'')) =
         JArr (map (\<lambda>(i, x). snd (Activity (p @ [Key ''activities''] @ [Idx i]) (Some x))) (enumerate 0 xs))"
      "\<forall>(i, x)\<in>set (enumerate 0 xs). fst (Activity (p @ [Key ''activities''] @ [Idx i]) (Some x)) = []"
    using z_array_min_accepts[OF acts] by auto
  have "list_all (\<lambda>a. own_keys a = [''time'', ''description'', ''location''])
      (map (\<lambda>(i, x). snd (Activity (p @ [Key ''activities''] @ [Idx i]) (Some x))) (enumerate 0 xs))"
    using xs(3) by (auto simp: list_all_iff intro!: Activity_accepts)
  then show ?thesis
    using xs(2) by (simp add: v DayItinerary_def z_object_def own_keys_def property_def)
qed

lemma parse_accepts_declared_fields:
  assumes "parse ItinerarySchema raw = Inr validated"
  shows "declared_fields_only validated"
proof -
  have fst: "fst (ItinerarySchema [] (Some raw)) = []"
    and out: "validated = snd (ItinerarySchema [] (Some raw))"
    using assms by (auto simp: parse_def split: prod.splits if_splits)
  obtain xs where xs:
      "validated = JArr (map (\<lambda>(i, x). snd (DayItinerary ([] @ [Idx i]) (Some x))) (enumerate 0 xs))"
      "\<forall>(i, x)\<in>set (enumerate 0 xs). fst (DayItinerary ([] @ [Idx i]) (Some x)) = []"
    using z_array_min_accepts[of DayItinerary 1 "[]" "Some raw"] fst out
    by (auto simp: ItinerarySchema_def)
  show ?thesis
    using xs(2) DayItinerary_accepts
    by (fastforce simp: declared_fields_only_def xs(1) list_all_iff)
qed

lemma z_string_accepts:
  assumes "fst (z_string p v) = []"
  shows "\<exists>s. v = Some (JStr s) \<and> snd (z_string p v) = JStr s"
  using assms by (auto simp: z_string_def split: option.splits json.splits)

lemma z_number_int_min_accepts:
  assumes "fst (z_number_int_min m p v) = []"
  shows "\<exists>q. v = Some (JNum q) \<and> snd (z_number_int_min m p v) = JNum q"
  using assms
  by (auto simp: z_number_int_min_def split: option.splits json.splits if_splits)

lemma map_enumerate_cong:
  assumes "\<forall>(i, x)\<in>set (enumerate n xs). f i x = g x"
  shows "map (\<lambda>(i, x). f i x) (enumerate n xs) = map g xs"
  using assms by (induction xs arbitrary: n) auto

lemma Activity_strips:
  assumes "fst (Activity p v) = []"
  shows "\<exists>a. v = Some a \<and> snd (Activity p v) = strip_undeclared_activity a"
proof -
  from assms obtain props where v: "v = Some (JObj props)"
    by (auto simp: Activity_def z_object_def split: option.splits json.splits)
  have t: "fst (z_string (p @ [Key ''time'']) (map_of props ''time'')) = []"
    "fst (z_string (p @ [Key ''description'']) (map_of props ''description'')) = []"
    "fst (z_string (p @ [Key ''location'']) (map_of props ''location'')) = []"
    using assms by (simp_all add: v Activity_def z_object_def)
  obtain s1 where s1: "map_of props ''time'' = Some (JStr s1)"
    "snd (z_string (p @ [Key ''time'']) (map_of props ''time'')) = JStr s1"
    using z_string_accepts[OF t(1)] by blast
  obtain s2 where s2: "map_of props ''description'' = Some (JStr s2)"
    "snd (z_string (p @ [Key ''description'']) (map_of props ''description'')) = JStr s2"
    using z_string_accepts[OF t(2)] by blast
  obtain s3 where s3: "map_of props ''location'' = Some (JStr s3)"
    "snd (z_string (p @ [Key ''location'']) (map_of props ''location'')) = JStr s3"
    using z_string_accepts[OF t(3)] by blast
  from s1 s2 s3
  have "snd (Activity p v) = strip_undeclared_activity (JObj props)"
    by (simp add: v Activity_def z_object_def strip_undeclared_activity_def keep_fields_def)
  then show ?thesis using v by simp
qed

lemma DayItinerary_strips:
  assumes "fst (DayItinerary p v) = []"
  shows "\<exists>d. v = Some d \<and> snd (DayItinerary p v) = strip_undeclared_day d"
proof -
  from assms obtain props where v: "v = Some (JObj props)"
    by (auto simp: DayItinerary_def z_object_def split: option.splits json.splits)
  have parts: "fst (z_number_int_min 1 (p @ [Key ''day'']) (map_of props ''day'')) = []"
    "fst (z_string (p @ [Key ''theme'']) (map_of props ''theme'')) = []"
    "fst (z_array_min Activity 1 (p @ [Key ''activities'']) (map_of props ''activities'')) = []"
    using assms by (simp_all add: v DayItinerary_def z_object_def)
  obtain q where q: "map_of props ''day'' = Some (JNum q)"
    "snd (z_number_int_min 1 (p @ [Key ''day'']) (map_of props ''day'')) = JNum q"
    using z_number_int_min_accepts[OF parts(1)] by blast
  obtain s where s: "map_of props ''theme'' = Some (JStr s)"
    "snd (z_string (p @ [Key ''theme'']) (map_of props ''theme'')) = JStr s"
    using z_string_accepts[OF parts(2)] by blast
  obtain xs where xs: "map_of props ''activities'' = Some (JArr xs)"
      "snd (z_array_min Activity 1 (p @ [Key ''activities'']) (map_of props ''activities'')) =
         JArr (map (\<lambda>(i, x). snd (Activity ((p @ [Key ''activities'']) @ [Idx i]) (Some x)))
                 (enumerate 0 xs))"
      "\<forall>(i, x)\<in>set (enumerate 0 xs).
         fst (Activity ((p @ [Key ''activities'']) @ [Idx i]) (Some x)) = []"
    using z_array_min_accepts[OF parts(3)] by blast
  have "\<forall>(i, x)\<in>set (enumerate 0 xs).
      snd (Activity ((p @ [Key ''activities'']) @ [Idx i]) (Some x)) = strip_undeclared_activity x"
  proof (clarify)
    fix i x assume "(i, x) \<in> set (enumerate 0 xs)"
    with xs(3) have "fst (Activity ((p @ [Key ''activities'']) @ [Idx i]) (Some x)) = []"
      by blast
    from Activity_strips[OF this]
    show "snd (Activity ((p @ [Key ''activities'']) @ [Idx i]) (Some x)) =
        strip_undeclared_activity x"
      by simp
  qed
  then have acts: "map (\<lambda>(i, x). snd (Activity ((p @ [Key ''activities'']) @ [Idx i]) (Some x)))
      (enumerate 0 xs) = map strip_undeclared_activity xs"
    by (rule map_enumerate_cong)
  have "snd (DayItinerary p v) = strip_undeclared_day (JObj props)"
    using q s xs(1,2) acts
    by (simp add: v DayItinerary_def z_object_def strip_undeclared_day_def keep_fields_def
        del: One_nat_def)
  then show ?thesis using v by simp
qed

lemma parse_strips:
  assumes "parse ItinerarySchema raw = Inr validated"
  shows "validated = strip_undeclared raw"
proof -
  have fst: "fst (ItinerarySchema [] (Some raw)) = []"
    and out: "validated = snd (ItinerarySchema [] (Some raw))"
    using assms by (auto simp: parse_def split: prod.splits if_splits)
  obtain xs where xs: "Some raw = Some (JArr xs)"
      "validated = JArr (map (\<lambda>(i, x). snd (DayItinerary ([] @ [Idx i]) (Some x))) (enumerate 0 xs))"
      "\<forall>(i, x)\<in>set (enumerate 0 xs). fst (DayItinerary ([] @ [Idx i]) (Some x)) = []"
    using z_array_min_accepts[of DayItinerary 1 "[]" "Some raw"] fst out
    by (auto simp: ItinerarySchema_def)
  have "\<forall>(i, x)\<in>set (enumerate 0 xs).
      snd (DayItinerary ([] @ [Idx i]) (Some x)) = strip_undeclared_day x"
  proof (clarify)
    fix i x assume "(i, x) \<in> set (enumerate 0 xs)"
    with xs(3) have "fst (DayItinerary ([] @ [Idx i]) (Some x)) = []"
      by blast
    from DayItinerary_strips[OF this]
    show "snd (DayItinerary ([] @ [Idx i]) (Some x)) = strip_undeclared_day x"
      by simp
  qed
  then have "map (\<lambda>(i, x). snd (DayItinerary ([] @ [Idx i]) (Some x))) (enumerate 0 xs) =
      map strip_undeclared_day xs"
    by (rule map_enumerate_cong)
  then show ?thesis using xs(1,2) by (simp add: strip_undeclared_def)
qed

text \<open>
  C9. A value that the schema accepts comes out of the validation as the value itself
  without the undeclared properties: each day-plan keeps \<open>day\<close>, \<open>theme\<close> and \<open>activities\<close>
  and nothing else, each activity keeps \<open>time\<close>, \<open>description\<close> and \<open>location\<close> and nothing
  else, with the values they had. Whenever the \<open>try\<close> block completes, the generator
  returned a value that the schema accepted, and the itinerary in the patch of the durable
  document is the serialisation of that stripped value, not of the generator's value.
\<close>

theorem persisted_itinerary_is_parsed_value:
  "(parse ItinerarySchema raw = Inr validated \<longrightarrow>
      validated = strip_undeclared raw \<and> declared_fields_only validated)
   \<and> (attempt_job e jobId j w = (None, w') \<longrightarrow>
      (\<exists>generated.
         generate e jobId (destination j) (durationDays j) = Inr generated \<and>
         parse ItinerarySchema generated = Inr (strip_undeclared generated) \<and>
         trace w' = trace w @
           [DocPatch jobId [''status'', ''updatedAt'', ''completedAt'', ''error'', ''itinerary'']
              [(''status'', StringValue ''completed''),
               (''updatedAt'', TimestampValue (completed_time e jobId)),
               (''completedAt'', TimestampValue (completed_time e jobId)),
               (''error'', NullValue),
               (''itinerary'', StringValue (stringify e (strip_undeclared generated)))],
            KvDelete jobId]))"
proof (intro conjI impI)
  assume "parse ItinerarySchema raw = Inr validated"
  then show "validated = strip_undeclared raw" by (rule parse_strips)
next
  assume "parse ItinerarySchema raw = Inr validated"
  then show "declared_fields_only validated" by (rule parse_accepts_declared_fields)
next
  assume "attempt_job e jobId j w = (None, w')"
  then obtain generated validated
    where g: "generate e jobId (destination j) (durationDays j) = Inr generated"
      and p: "parse ItinerarySchema generated = Inr validated"
      and w': "w' = w\<lparr>kv := (kv w)(jobId := None),
             trace := trace w @ [completed_patch e jobId validated, KvDelete jobId]\<rparr>"
    using attempt_job_success by blast
  have v: "validated = strip_undeclared generated" using p by (rule parse_strips)
  show "\<exists>generated.
         generate e jobId (destination j) (durationDays j) = Inr generated \<and>
         parse ItinerarySchema generated = Inr (strip_undeclared generated) \<and>
         trace w' = trace w @
           [DocPatch jobId [''status'', ''updatedAt'', ''completedAt'', ''error'', ''itinerary'']
              [(''status'', StringValue ''completed''),
               (''updatedAt'', TimestampValue (completed_time e jobId)),
               (''completedAt'', TimestampValue (completed_time e jobId)),
               (''error'', NullValue),
               (''itinerary'', StringValue (stringify e (strip_undeclared generated)))],
            KvDelete jobId]"
    using g p unfolding v w' by (intro exI[of _ generated]) (simp add: completed_patch_def)
qed

theorem persisted_itinerary_is_parsed_value_witness:
  "generate rendering_env ''b'' (destination example_job) (durationDays example_job) =
     Inr (JArr [example_day])
   \<and> render (JArr [example_day]) =
       ''[{\"note\":true,\"day\":1,\"theme\":\"Temples\",\"activities\":[{\"time\":\"09:00\",\"description\":\"Visit\",\"location\":\"Asakusa\",\"cost\":3}]}]''
   \<and> \<not> declared_fields_only (JArr [example_day])
   \<and> parse ItinerarySchema (JArr [example_day]) =
       Inr (JArr [JObj [(''day'', JNum 1), (''theme'', JStr ''Temples''),
         (''activities'', JArr [JObj [(''time'', JStr ''09:00''), (''description'', JStr ''Visit''),
            (''location'', JStr ''Asakusa'')]])]])
   \<and> strip_undeclared (JArr [example_day]) =
       JArr [JObj [(''day'', JNum 1), (''theme'', JStr ''Temples''),
         (''activities'', JArr [JObj [(''time'', JStr ''09:00''), (''description'', JStr ''Visit''),
            (''location'', JStr ''Asakusa'')]])]]
   \<and> trace (snd (attempt_job rendering_env ''b'' example_job example_world)) =
       [DocPatch ''b'' [''status'', ''updatedAt'', ''completedAt'', ''error'', ''itinerary'']
          [(''status'', StringValue ''completed''),
           (''updatedAt'', TimestampValue 2000002),
           (''completedAt'', TimestampValue 2000002),
           (''error'', NullValue),
           (''itinerary'', StringValue
              ''[{\"day\":1,\"theme\":\"Temples\",\"activities\":[{\"time\":\"09:00\",\"description\":\"Visit\",\"location\":\"Asakusa\"}]}]'')],
        KvDelete ''b'']"
proof -
  note T = persisted_itinerary_is_parsed_value
  have gen: "generate rendering_env ''b'' (destination example_job) (durationDays example_job) =
      Inr (JArr [example_day])"
    by (simp add: rendering_env_def example_env_def)
  have rr: "render (JArr [example_day]) =
       ''[{\"note\":true,\"day\":1,\"theme\":\"Temples\",\"activities\":[{\"time\":\"09:00\",\"description\":\"Visit\",\"location\":\"Asakusa\",\"cost\":3}]}]''"
    by code_simp
  have raw: "\<not> declared_fields_only (JArr [example_day])"
    by (simp add: declared_fields_only_def own_keys_def example_day_def)
  from T[where raw = "JArr [example_day]", THEN conjunct1, THEN mp, OF example_parse]
  have "JArr [JObj [(''day'', JNum 1), (''theme'', JStr ''Temples''),
         (''activities'', JArr [JObj [(''time'', JStr ''09:00''), (''description'', JStr ''Visit''),
            (''location'', JStr ''Asakusa'')]])]] = strip_undeclared (JArr [example_day])"
    by (rule conjunct1)
  then have st: "strip_undeclared (JArr [example_day]) =
       JArr [JObj [(''day'', JNum 1), (''theme'', JStr ''Temples''),
         (''activities'', JArr [JObj [(''time'', JStr ''09:00''), (''description'', JStr ''Visit''),
            (''location'', JStr ''Asakusa'')]])]]"
    by (rule sym)
  have rs: "render (JArr [JObj [(''day'', JNum 1), (''theme'', JStr ''Temples''),
         (''activities'', JArr [JObj [(''time'', JStr ''09:00''), (''description'', JStr ''Visit''),
            (''location'', JStr ''Asakusa'')]])]]) =
       ''[{\"day\":1,\"theme\":\"Temples\",\"activities\":[{\"time\":\"09:00\",\"description\":\"Visit\",\"location\":\"Asakusa\"}]}]''"
    by code_simp
  have rs2: "render (strip_undeclared (JArr [example_day])) =
       ''[{\"day\":1,\"theme\":\"Temples\",\"activities\":[{\"time\":\"09:00\",\"description\":\"Visit\",\"location\":\"Asakusa\"}]}]''"
    unfolding st by (rule rs)
  have "fst (attempt_job rendering_env ''b'' example_job example_world) = None"
    using example_parse
    by (simp add: attempt_job_def saveItinerary_def kv_delete_def rendering_env_def example_env_def
        example_job_def Let_def)
  then have run: "attempt_job rendering_env ''b'' example_job example_world =
      (None, snd (attempt_job rendering_env ''b'' example_job example_world))"
    by (metis prod.collapse)
  from T[where e = rendering_env and jobId = "''b''" and j = example_job and w = example_world,
      THEN conjunct2, THEN mp, OF run]
  obtain generated where
    g: "generate rendering_env ''b'' (destination example_job) (durationDays example_job) =
         Inr generated"
    and t: "trace (snd (attempt_job rendering_env ''b'' example_job example_world)) =
         trace example_world @
           [DocPatch ''b'' [''status'', ''updatedAt'', ''completedAt'', ''error'', ''itinerary'']
              [(''status'', StringValue ''completed''),
               (''updatedAt'', TimestampValue (completed_time rendering_env ''b'')),
               (''completedAt'', TimestampValue (completed_time rendering_env ''b'')),
               (''error'', NullValue),
               (''itinerary'', StringValue (stringify rendering_env (strip_undeclared generated)))],
            KvDelete ''b'']"
    by blast
  have c: "completed_time rendering_env ''b'' = 2000002" "stringify rendering_env = render"
    "trace example_world = []"
    by (simp_all add: rendering_env_def example_env_def example_world_def)
  have "generated = JArr [example_day]" using g gen by simp
  with t have tr: "trace (snd (attempt_job rendering_env ''b'' example_job example_world)) =
       [DocPatch ''b'' [''status'', ''updatedAt'', ''completedAt'', ''error'', ''itinerary'']
          [(''status'', StringValue ''completed''),
           (''updatedAt'', TimestampValue 2000002),
           (''completedAt'', TimestampValue 2000002),
           (''error'', NullValue),
           (''itinerary'', StringValue
              ''[{\"day\":1,\"theme\":\"Temples\",\"activities\":[{\"time\":\"09:00\",\"description\":\"Visit\",\"location\":\"Asakusa\"}]}]'')],
        KvDelete ''b'']"
    unfolding c by (simp add: rs2)
  from gen rr raw example_parse st tr show ?thesis by blast
qed

section \<open>Properties of the validation\<close>

lemma show_nat_1 [simp]: "show_nat 1 = ''1''" "show_nat (Suc 0) = ''1''"
  by code_simp+

lemma show_nat_0 [simp]: "show_nat 0 = ''0''"
  by code_simp

lemma parse_issues:
  "parse ItinerarySchema raw =
     (if issues raw = [] then Inr (snd (ItinerarySchema [] (Some raw)))
      else Inl (ZodError (issues raw)))"
  by (simp add: parse_def issues_def split: prod.splits)

lemma join_contains: "x \<in> set xs \<Longrightarrow> sublist x (join sep xs)"
proof (induction sep xs rule: join.induct)
  case (1 sep)
  then show ?case by simp
next
  case (2 sep y)
  then show ?case by simp
next
  case (3 sep y z zs)
  show ?case
  proof (cases "x = y")
    case True
    then show ?thesis by simp
  next
    case False
    with 3 have "sublist x (join sep (z # zs))" by simp
    then obtain ps ss where "join sep (z # zs) = ps @ x @ ss"
      by (auto simp: sublist_def)
    then have "join sep (y # z # zs) = (y @ sep @ ps) @ x @ ss" by simp
    then show ?thesis unfolding sublist_def by blast
  qed
qed

lemma error_message_names_issue:
  assumes "e \<in> set es"
  shows "sublist (path_join (path e) @ '': '' @ message e) (error_message (ZodError es))"
proof -
  have "sublist (path_join (path e) @ '': '' @ message e)
      (join ''; '' (map (\<lambda>e. path_join (path e) @ '': '' @ message e) es))"
    using assms by (intro join_contains) auto
  then obtain ps ss where "join ''; '' (map (\<lambda>e. path_join (path e) @ '': '' @ message e) es) =
      ps @ (path_join (path e) @ '': '' @ message e) @ ss"
    by (auto simp: sublist_def)
  then have "error_message (ZodError es) =
      (''Validation error: '' @ ps) @ (path_join (path e) @ '': '' @ message e) @ ss"
    by (simp add: error_message_def)
  then show ?thesis unfolding sublist_def by blast
qed

lemma z_array_min_element_issue:
  assumes "i < length xs" and "e \<in> set (fst (el (p @ [Idx i]) (Some (xs ! i))))"
  shows "e \<in> set (fst (z_array_min el m p (Some (JArr xs))))"
proof -
  have "(i, xs ! i) \<in> set (enumerate 0 xs)"
    using assms(1) by (simp add: in_set_enumerate_eq)
  then show ?thesis
    using assms(2) by (force simp: z_array_min_def Let_def)
qed

lemma z_array_min_too_small:
  "fst (z_array_min el 1 p (Some (JArr []))) =
     [ZodIssue p ''Array must contain at least 1 element(s)'']"
  "fst (z_array_min el (Suc 0) p (Some (JArr []))) =
     [ZodIssue p ''Array must contain at least 1 element(s)'']"
  by (simp_all add: z_array_min_def)

lemma DayItinerary_issues:
  "fst (DayItinerary p (Some (JObj dp))) =
     fst (z_number_int_min 1 (p @ [Key ''day'']) (map_of dp ''day'')) @
     fst (z_string (p @ [Key ''theme'']) (map_of dp ''theme'')) @
     fst (z_array_min Activity 1 (p @ [Key ''activities'']) (map_of dp ''activities''))"
  by (simp add: DayItinerary_def z_object_def)

lemma Activity_issues:
  "fst (Activity p (Some (JObj a))) =
     fst (z_string (p @ [Key ''time'']) (map_of a ''time'')) @
     fst (z_string (p @ [Key ''description'']) (map_of a ''description'')) @
     fst (z_string (p @ [Key ''location'']) (map_of a ''location''))"
  by (simp add: Activity_def z_object_def)

lemma day_issue_reported:
  assumes "i < length days" and "e \<in> set (fst (DayItinerary [Idx i] (Some (days ! i))))"
  shows "e \<in> set (issues (JArr days))"
  using z_array_min_element_issue[of i days e DayItinerary "[]" 1] assms
  by (simp add: issues_def ItinerarySchema_def)

lemma z_number_int_min_issues:
  "fst (z_number_int_min 1 p (Some (JNum q))) =
     (if \<not> is_integer q then [ZodIssue p ''Expected integer, received float''] else []) @
     (if q < 1 then [ZodIssue p ''Number must be greater than or equal to 1''] else [])"
  unfolding z_number_int_min_def by simp

lemma issue_reported:
  assumes "ZodIssue p m \<in> set (issues raw)"
  shows "reports raw p (path_join p) m"
proof -
  have "issues raw \<noteq> []" using assms by auto
  then have "parse ItinerarySchema raw = Inl (ZodError (issues raw))"
    by (simp add: parse_issues)
  then show ?thesis
    using assms error_message_names_issue[of "ZodIssue p m" "issues raw"]
    by (simp add: reports_def)
qed

lemma day_field_issue:
  assumes "i < length days" and "days ! i = JObj dp"
    and "e \<in> set (fst (z_number_int_min 1 [Idx i, Key ''day''] (map_of dp ''day''))) \<or>
         e \<in> set (fst (z_string [Idx i, Key ''theme''] (map_of dp ''theme''))) \<or>
         e \<in> set (fst (z_array_min Activity 1 [Idx i, Key ''activities''] (map_of dp ''activities'')))"
  shows "e \<in> set (issues (JArr days))"
proof -
  have "e \<in> set (fst (DayItinerary [Idx i] (Some (days ! i))))"
    using assms(3) by (auto simp: assms(2) DayItinerary_issues)
  then show ?thesis using assms(1) by (rule day_issue_reported[rotated])
qed


lemma z_number_int_min_infinite:
  "ZodIssue p ''Expected integer, received float''
     \<in> set (fst (z_number_int_min m p (Some (JInf b))))"
  by (simp add: z_number_int_min_def)

text \<open>The paths of the offending fields, as \<open>path.join('.')\<close> renders them.\<close>

lemma path_join_rendered:
  "path_join [] = []"
  "path_join [Idx i, Key k] = show_nat i @ ''.'' @ k"
  "path_join [Idx i, Key k, Idx j, Key l] = show_nat i @ ''.'' @ k @ ''.'' @ show_nat j @ ''.'' @ l"
  by (simp_all add: path_join_def)

lemma issue_reported_as:
  assumes "ZodIssue p m \<in> set (issues raw)" and "path_join p = shown"
  shows "reports raw p shown m"
  using issue_reported[OF assms(1)] assms(2) by simp

text \<open>
  C6. Validation rejects the empty list of days, and, whatever else the value contains,
  a day-plan whose \<open>day\<close> is below 1, a day-plan whose \<open>day\<close> is not an integer (a fraction,
  or an infinite number), a day-plan whose list of activities is empty and an activity
  whose \<open>location\<close> is missing: each is reported as an issue at the path of the offending
  field, and the failure message contains that path, written with dots as in
  \<open>1.activities.0.location\<close>, followed by a colon and the reason (for the empty list of
  days the path is the empty one, and the message contains a colon and the reason). No
  violation hides another: every issue of every day-plan is among the issues of the whole
  value, the error thrown holds all of them, and the message names each one.
\<close>

theorem validation_rejects_and_reports:
  "reports (JArr []) [] [] ''Array must contain at least 1 element(s)''
   \<and> (i < length days \<and> days ! i = JObj dp \<and> map_of dp ''day'' = Some (JNum q) \<and> q < 1 \<longrightarrow>
        reports (JArr days) [Idx i, Key ''day''] (show_nat i @ ''.day'')
          ''Number must be greater than or equal to 1'')
   \<and> (i < length days \<and> days ! i = JObj dp \<and> map_of dp ''day'' = Some (JNum q) \<and>
        \<not> is_integer q \<longrightarrow>
        reports (JArr days) [Idx i, Key ''day''] (show_nat i @ ''.day'')
          ''Expected integer, received float'')
   \<and> (i < length days \<and> days ! i = JObj dp \<and> map_of dp ''day'' = Some (JInf b) \<longrightarrow>
        reports (JArr days) [Idx i, Key ''day''] (show_nat i @ ''.day'')
          ''Expected integer, received float'')
   \<and> (i < length days \<and> days ! i = JObj dp \<and> map_of dp ''activities'' = Some (JArr []) \<longrightarrow>
        reports (JArr days) [Idx i, Key ''activities''] (show_nat i @ ''.activities'')
          ''Array must contain at least 1 element(s)'')
   \<and> (i < length days \<and> days ! i = JObj dp \<and> map_of dp ''activities'' = Some (JArr acts) \<and>
        j < length acts \<and> acts ! j = JObj a \<and> map_of a ''location'' = None \<longrightarrow>
        reports (JArr days) [Idx i, Key ''activities'', Idx j, Key ''location'']
          (show_nat i @ ''.activities.'' @ show_nat j @ ''.location'') ''Required'')
   \<and> (i < length days \<longrightarrow>
        set (fst (DayItinerary [Idx i] (Some (days ! i)))) \<subseteq> set (issues (JArr days)))
   \<and> (parse ItinerarySchema raw = Inl err \<longrightarrow>
        err = ZodError (issues raw) \<and>
        (\<forall>e\<in>set (issues raw).
           sublist (path_join (path e) @ '': '' @ message e) (error_message err)))"
proof (intro conjI impI)
  show "reports (JArr []) [] [] ''Array must contain at least 1 element(s)''"
    by (rule issue_reported_as)
       (simp_all add: issues_def ItinerarySchema_def z_array_min_too_small path_join_rendered)
next
  assume a: "i < length days \<and> days ! i = JObj dp \<and> map_of dp ''day'' = Some (JNum q) \<and> q < 1"
  then have "ZodIssue [Idx i, Key ''day''] ''Number must be greater than or equal to 1''
      \<in> set (fst (z_number_int_min 1 [Idx i, Key ''day''] (map_of dp ''day'')))"
    by (simp add: z_number_int_min_issues del: One_nat_def)
  with a have "ZodIssue [Idx i, Key ''day''] ''Number must be greater than or equal to 1''
      \<in> set (issues (JArr days))"
    by (intro day_field_issue[of i days dp]) (simp_all del: One_nat_def)
  then show "reports (JArr days) [Idx i, Key ''day''] (show_nat i @ ''.day'')
      ''Number must be greater than or equal to 1''"
    by (rule issue_reported_as) (simp add: path_join_rendered)
next
  assume a: "i < length days \<and> days ! i = JObj dp \<and> map_of dp ''day'' = Some (JNum q) \<and>
        \<not> is_integer q"
  then have "ZodIssue [Idx i, Key ''day''] ''Expected integer, received float''
      \<in> set (fst (z_number_int_min 1 [Idx i, Key ''day''] (map_of dp ''day'')))"
    by (simp add: z_number_int_min_issues del: One_nat_def)
  with a have "ZodIssue [Idx i, Key ''day''] ''Expected integer, received float''
      \<in> set (issues (JArr days))"
    by (intro day_field_issue[of i days dp]) (simp_all del: One_nat_def)
  then show "reports (JArr days) [Idx i, Key ''day''] (show_nat i @ ''.day'')
      ''Expected integer, received float''"
    by (rule issue_reported_as) (simp add: path_join_rendered)
next
  assume a: "i < length days \<and> days ! i = JObj dp \<and> map_of dp ''day'' = Some (JInf b)"
  then have "ZodIssue [Idx i, Key ''day''] ''Expected integer, received float''
      \<in> set (fst (z_number_int_min 1 [Idx i, Key ''day''] (map_of dp ''day'')))"
    by (simp add: z_number_int_min_infinite del: One_nat_def)
  with a have "ZodIssue [Idx i, Key ''day''] ''Expected integer, received float''
      \<in> set (issues (JArr days))"
    by (intro day_field_issue[of i days dp]) (simp_all del: One_nat_def)
  then show "reports (JArr days) [Idx i, Key ''day''] (show_nat i @ ''.day'')
      ''Expected integer, received float''"
    by (rule issue_reported_as) (simp add: path_join_rendered)
next
  assume a: "i < length days \<and> days ! i = JObj dp \<and> map_of dp ''activities'' = Some (JArr [])"
  then have "ZodIssue [Idx i, Key ''activities''] ''Array must contain at least 1 element(s)''
      \<in> set (fst (z_array_min Activity 1 [Idx i, Key ''activities''] (map_of dp ''activities'')))"
    by (simp add: z_array_min_too_small del: One_nat_def)
  with a have "ZodIssue [Idx i, Key ''activities''] ''Array must contain at least 1 element(s)''
      \<in> set (issues (JArr days))"
    by (intro day_field_issue[of i days dp]) (simp_all del: One_nat_def)
  then show "reports (JArr days) [Idx i, Key ''activities''] (show_nat i @ ''.activities'')
      ''Array must contain at least 1 element(s)''"
    by (rule issue_reported_as) (simp add: path_join_rendered)
next
  assume a: "i < length days \<and> days ! i = JObj dp \<and> map_of dp ''activities'' = Some (JArr acts) \<and>
        j < length acts \<and> acts ! j = JObj a \<and> map_of a ''location'' = None"
  have "ZodIssue [Idx i, Key ''activities'', Idx j, Key ''location''] ''Required''
      \<in> set (fst (Activity ([Idx i, Key ''activities''] @ [Idx j]) (Some (acts ! j))))"
    using a by (simp add: Activity_issues z_string_def invalid_type_def)
  then have "ZodIssue [Idx i, Key ''activities'', Idx j, Key ''location''] ''Required''
      \<in> set (fst (z_array_min Activity 1 [Idx i, Key ''activities''] (map_of dp ''activities'')))"
    using a z_array_min_element_issue[of j acts _ Activity "[Idx i, Key ''activities'']" 1]
    by (simp del: One_nat_def)
  with a have "ZodIssue [Idx i, Key ''activities'', Idx j, Key ''location''] ''Required''
      \<in> set (issues (JArr days))"
    by (intro day_field_issue[of i days dp]) (simp_all del: One_nat_def)
  then show "reports (JArr days) [Idx i, Key ''activities'', Idx j, Key ''location'']
      (show_nat i @ ''.activities.'' @ show_nat j @ ''.location'') ''Required''"
    by (rule issue_reported_as) (simp add: path_join_rendered)
next
  assume "i < length days"
  then show "set (fst (DayItinerary [Idx i] (Some (days ! i)))) \<subseteq> set (issues (JArr days))"
    using day_issue_reported by blast
next
  assume "parse ItinerarySchema raw = Inl err"
  then show "err = ZodError (issues raw)"
    by (simp add: parse_issues split: if_splits)
next
  assume "parse ItinerarySchema raw = Inl err"
  then have "err = ZodError (issues raw)"
    by (simp add: parse_issues split: if_splits)
  then show "\<forall>e\<in>set (issues raw).
           sublist (path_join (path e) @ '': '' @ message e) (error_message err)"
    using error_message_names_issue by blast
qed

theorem validation_rejects_and_reports_witness:
  "reports (JArr example_bad_days) [Idx 0, Key ''day''] ''0.day''
        ''Number must be greater than or equal to 1''
   \<and> reports (JArr example_bad_days) [Idx 1, Key ''day''] ''1.day''
        ''Expected integer, received float''
   \<and> reports (JArr example_bad_days) [Idx 2, Key ''day''] ''2.day''
        ''Expected integer, received float''
   \<and> reports (JArr example_bad_days) [Idx 0, Key ''activities''] ''0.activities''
        ''Array must contain at least 1 element(s)''
   \<and> reports (JArr example_bad_days) [Idx 1, Key ''activities'', Idx 0, Key ''location'']
        ''1.activities.0.location'' ''Required''
   \<and> set (fst (DayItinerary [Idx 1] (Some (example_bad_days ! 1))))
        \<subseteq> set (issues (JArr example_bad_days))
   \<and> parse ItinerarySchema (JArr example_bad_days) =
        Inl (ZodError
          [ZodIssue [Idx 0, Key ''day''] ''Number must be greater than or equal to 1'',
           ZodIssue [Idx 0, Key ''activities''] ''Array must contain at least 1 element(s)'',
           ZodIssue [Idx 1, Key ''day''] ''Expected integer, received float'',
           ZodIssue [Idx 1, Key ''day''] ''Number must be greater than or equal to 1'',
           ZodIssue [Idx 1, Key ''activities'', Idx 0, Key ''location''] ''Required'',
           ZodIssue [Idx 2, Key ''day''] ''Expected integer, received float''])
   \<and> error_message (ZodError (issues (JArr example_bad_days))) =
        ''Validation error: 0.day: Number must be greater than or equal to 1; 0.activities: Array must contain at least 1 element(s); 1.day: Expected integer, received float; 1.day: Number must be greater than or equal to 1; 1.activities.0.location: Required; 2.day: Expected integer, received float''"
proof -
  define dp0 where "dp0 = [(''day'', JNum 0), (''theme'', JStr ''t''), (''activities'', JArr [])]"
  define a1 where "a1 = [(''time'', JStr ''9''), (''description'', JStr ''d'')]"
  define dp1 where "dp1 = [(''day'', JNum (1 / 2)), (''theme'', JStr ''u''),
            (''activities'', JArr [JObj a1])]"
  define dp2 where "dp2 = [(''day'', JInf True), (''theme'', JStr ''v''),
            (''activities'', JArr [JObj [(''time'', JStr ''9''), (''description'', JStr ''d''),
                                         (''location'', JStr ''l'')]])]"
  have days: "example_bad_days = [JObj dp0, JObj dp1, JObj dp2]"
    by (simp add: example_bad_days_def dp0_def dp1_def dp2_def a1_def)
  note first = validation_rejects_and_reports[where i = 0 and days = example_bad_days
      and dp = dp0 and q = 0]
  note second = validation_rejects_and_reports[where i = 1 and days = example_bad_days
      and dp = dp1 and q = "1 / 2" and j = 0 and acts = "[JObj a1]" and a = a1
      and raw = "JArr example_bad_days" and err = "ZodError (issues (JArr example_bad_days))"]
  note third = validation_rejects_and_reports[where i = 2 and days = example_bad_days
      and dp = dp2 and b = True]
  have h1: "0 < length example_bad_days \<and> example_bad_days ! 0 = JObj dp0 \<and>
      map_of dp0 ''day'' = Some (JNum 0) \<and> (0::rat) < 1"
    by (simp add: days) (simp add: dp0_def)
  have h2: "1 < length example_bad_days \<and> example_bad_days ! 1 = JObj dp1 \<and>
      map_of dp1 ''day'' = Some (JNum (1 / 2)) \<and> \<not> is_integer (1 / 2)"
  proof -
    have "\<not> is_integer (1 / 2)" by code_simp
    then show ?thesis by (simp add: days) (simp add: dp1_def)
  qed
  have h3: "0 < length example_bad_days \<and> example_bad_days ! 0 = JObj dp0 \<and>
      map_of dp0 ''activities'' = Some (JArr [])"
    by (simp add: days) (simp add: dp0_def)
  have h4: "1 < length example_bad_days \<and> example_bad_days ! 1 = JObj dp1 \<and>
      map_of dp1 ''activities'' = Some (JArr [JObj a1]) \<and> 0 < length [JObj a1] \<and>
      [JObj a1] ! 0 = JObj a1 \<and> map_of a1 ''location'' = None"
    by (simp add: days) (simp add: dp1_def a1_def)
  have h5: "1 < length example_bad_days" by (simp add: days)
  have h6: "2 < length example_bad_days \<and> example_bad_days ! 2 = JObj dp2 \<and>
      map_of dp2 ''day'' = Some (JInf True)"
    by (simp add: days) (simp add: dp2_def)
  have s0: "show_nat 0 @ ''.day'' = ''0.day''" "show_nat 0 @ ''.activities'' = ''0.activities''"
    by simp_all
  have s1: "show_nat 1 @ ''.day'' = ''1.day''"
    "show_nat 1 @ ''.activities.'' @ show_nat 0 @ ''.location'' = ''1.activities.0.location''"
    by simp_all
  have s2: "show_nat 2 @ ''.day'' = ''2.day''"
    by code_simp
  have r1: "reports (JArr example_bad_days) [Idx 0, Key ''day''] (show_nat 0 @ ''.day'')
      ''Number must be greater than or equal to 1''"
    using first h1 by blast
  have r2: "reports (JArr example_bad_days) [Idx 1, Key ''day''] (show_nat 1 @ ''.day'')
      ''Expected integer, received float''"
    using second h2 by blast
  have r3: "reports (JArr example_bad_days) [Idx 0, Key ''activities''] (show_nat 0 @ ''.activities'')
      ''Array must contain at least 1 element(s)''"
    using first h3 by blast
  have r4: "reports (JArr example_bad_days) [Idx 1, Key ''activities'', Idx 0, Key ''location'']
      (show_nat 1 @ ''.activities.'' @ show_nat 0 @ ''.location'') ''Required''"
    using second h4 by blast
  have r5: "set (fst (DayItinerary [Idx 1] (Some (example_bad_days ! 1))))
        \<subseteq> set (issues (JArr example_bad_days))"
    using second h5 by blast
  have r7: "reports (JArr example_bad_days) [Idx 2, Key ''day''] (show_nat 2 @ ''.day'')
      ''Expected integer, received float''"
    using third h6 by blast
  have "\<exists>es. parse ItinerarySchema (JArr example_bad_days) = Inl (ZodError es)"
    using r1 by (auto simp: reports_def split: sum.splits exn.splits)
  then have r6: "parse ItinerarySchema (JArr example_bad_days) =
      Inl (ZodError (issues (JArr example_bad_days)))"
    by (auto simp: parse_issues split: if_splits)
  have iss: "issues (JArr example_bad_days) =
          [ZodIssue [Idx 0, Key ''day''] ''Number must be greater than or equal to 1'',
           ZodIssue [Idx 0, Key ''activities''] ''Array must contain at least 1 element(s)'',
           ZodIssue [Idx 1, Key ''day''] ''Expected integer, received float'',
           ZodIssue [Idx 1, Key ''day''] ''Number must be greater than or equal to 1'',
           ZodIssue [Idx 1, Key ''activities'', Idx 0, Key ''location''] ''Required'',
           ZodIssue [Idx 2, Key ''day''] ''Expected integer, received float'']"
    by code_simp
  have msg: "error_message (ZodError (issues (JArr example_bad_days))) =
        ''Validation error: 0.day: Number must be greater than or equal to 1; 0.activities: Array must contain at least 1 element(s); 1.day: Expected integer, received float; 1.day: Number must be greater than or equal to 1; 1.activities.0.location: Required; 2.day: Expected integer, received float''"
    by code_simp
  from r1 r2 r3 r4 r5 r6 r7 msg show ?thesis
    unfolding s0 s1 s2 iss by blast
qed

section \<open>Properties of the submission handler\<close>

lemma typeof_string: "typeof v = ''string'' \<longleftrightarrow> (\<exists>s. v = Some (JStr s))"
  by (simp add: typeof_def split: option.splits json.splits)

lemma typeof_number:
  "typeof v = ''number'' \<longleftrightarrow> (\<exists>q. v = Some (JNum q)) \<or> (\<exists>b. v = Some (JInf b))"
  by (simp add: typeof_def split: option.splits json.splits)

lemma post_malformed: "post None jobId created put_fault w = Inr (Response 400 ''Invalid JSON'', w)"
  by (simp add: post_def)

lemma post_null:
  "post (Some JNull) jobId created put_fault w =
     Inl (Exn ''TypeError'' ''Cannot destructure property of null'')"
  by (simp add: post_def)

lemma post_checked:
  assumes "p \<noteq> JNull"
  shows "post (Some p) jobId created put_fault w =
     (if typeof (property p ''destination'') \<noteq> ''string'' \<or>
         typeof (property p ''durationDays'') \<noteq> ''number''
      then Inr (Response 400 ''Bad Request'', w)
      else
        (case put_fault of
           Some x \<Rightarrow> Inl x
         | None \<Rightarrow>
             Inr (Response 202 (''{\"jobId\":\"'' @ jobId @ ''\"}''),
                  w\<lparr>kv := (kv w)(jobId \<mapsto> Encoded
                         (created_record (text_of (the (property p ''destination'')))
                            (stored_number (the (property p ''durationDays''))) created)),
                    trace := trace w @ [KvPut jobId
                         (created_record (text_of (the (property p ''destination'')))
                            (stored_number (the (property p ''durationDays''))) created)]\<rparr>)))"
  using assms unfolding post_def Let_def created_record_def
  by (cases p) (simp_all split: option.splits)

lemma post_typed:
  assumes "property p ''destination'' = Some (JStr dest)"
    and "property p ''durationDays'' = Some n"
    and "(\<exists>q. n = JNum q) \<or> (\<exists>b. n = JInf b)"
  shows "post (Some p) jobId created put_fault w =
     (case put_fault of
        Some x \<Rightarrow> Inl x
      | None \<Rightarrow>
          Inr (Response 202 (''{\"jobId\":\"'' @ jobId @ ''\"}''),
               w\<lparr>kv := (kv w)(jobId \<mapsto> Encoded (created_record dest (stored_number n) created)),
                 trace := trace w @ [KvPut jobId (created_record dest (stored_number n) created)]\<rparr>))"
proof -
  have "p \<noteq> JNull" using assms(1) by (auto simp: property_def)
  moreover have "typeof (property p ''destination'') = ''string''"
    using assms(1) by (simp add: typeof_string)
  moreover have "typeof (property p ''durationDays'') = ''number''"
    using assms(2,3) by (simp add: typeof_number)
  ultimately show ?thesis
    by (simp add: post_checked assms(1,2) text_of_def split: option.splits)
qed

lemma post_untyped:
  assumes "p \<noteq> JNull"
    and "(\<forall>dest. property p ''destination'' \<noteq> Some (JStr dest)) \<or>
         ((\<forall>q. property p ''durationDays'' \<noteq> Some (JNum q)) \<and>
          (\<forall>b. property p ''durationDays'' \<noteq> Some (JInf b)))"
  shows "post (Some p) jobId created put_fault w = Inr (Response 400 ''Bad Request'', w)"
proof -
  have "typeof (property p ''destination'') \<noteq> ''string'' \<or>
      typeof (property p ''durationDays'') \<noteq> ''number''"
    using assms(2) unfolding typeof_string typeof_number by blast
  then show ?thesis using assms(1) by (simp add: post_checked)
qed

text \<open>
  C8 (as amended). A run of the handler that returns a response either answers 400 and
  leaves the queue store as it was, or answers 202 and has written exactly one record,
  with status \<open>pending\<close>, whose \<open>destination\<close> is the string of the request, whatever it
  is, and whose \<open>durationDays\<close> is the number of the request, whatever it is, when that
  number is finite, and \<open>null\<close> when it is not: the two are checked for their types only.
  A body that is not JSON, and a body in which \<open>destination\<close> is not a string or
  \<open>durationDays\<close> is not a number, are answered 400 and create no record; on the body
  \<open>null\<close> the handler throws, and when the write to the queue store throws, so does the
  handler.
\<close>

theorem post_creates_typed_record:
  "(post payload jobId created put_fault w = Inr (res, w') \<longrightarrow>
      (http_status res = 400 \<and> w' = w) \<or>
      (\<exists>p dest days.
         payload = Some p \<and> property p ''destination'' = Some (JStr dest) \<and>
         ((\<exists>q. property p ''durationDays'' = Some (JNum q) \<and> days = Some q) \<or>
          (\<exists>b. property p ''durationDays'' = Some (JInf b) \<and> days = None)) \<and>
         res = Response 202 (''{\"jobId\":\"'' @ jobId @ ''\"}'') \<and>
         w' = w\<lparr>kv := (kv w)(jobId \<mapsto> Encoded \<lparr>destination = dest, durationDays = days,
                      status = ''pending'', createdAt = created, lockedAt = None, error = None\<rparr>),
                trace := trace w @ [KvPut jobId \<lparr>destination = dest, durationDays = days,
                      status = ''pending'', createdAt = created, lockedAt = None, error = None\<rparr>]\<rparr>))
   \<and> (payload = Some p \<and> property p ''destination'' = Some (JStr dest) \<and>
       property p ''durationDays'' = Some (JNum q) \<and> put_fault = None \<longrightarrow>
        post payload jobId created put_fault w =
          Inr (Response 202 (''{\"jobId\":\"'' @ jobId @ ''\"}''),
               w\<lparr>kv := (kv w)(jobId \<mapsto> Encoded \<lparr>destination = dest, durationDays = Some q,
                      status = ''pending'', createdAt = created, lockedAt = None, error = None\<rparr>),
                 trace := trace w @ [KvPut jobId \<lparr>destination = dest, durationDays = Some q,
                      status = ''pending'', createdAt = created, lockedAt = None, error = None\<rparr>]\<rparr>))
   \<and> (payload = Some p \<and> property p ''destination'' = Some (JStr dest) \<and>
       property p ''durationDays'' = Some (JInf b) \<and> put_fault = None \<longrightarrow>
        post payload jobId created put_fault w =
          Inr (Response 202 (''{\"jobId\":\"'' @ jobId @ ''\"}''),
               w\<lparr>kv := (kv w)(jobId \<mapsto> Encoded \<lparr>destination = dest, durationDays = None,
                      status = ''pending'', createdAt = created, lockedAt = None, error = None\<rparr>),
                 trace := trace w @ [KvPut jobId \<lparr>destination = dest, durationDays = None,
                      status = ''pending'', createdAt = created, lockedAt = None, error = None\<rparr>]\<rparr>))
   \<and> (payload = None \<longrightarrow>
        post payload jobId created put_fault w = Inr (Response 400 ''Invalid JSON'', w))
   \<and> (payload = Some p \<and> p \<noteq> JNull \<and>
        ((\<forall>dest. property p ''destination'' \<noteq> Some (JStr dest)) \<or>
         ((\<forall>q. property p ''durationDays'' \<noteq> Some (JNum q)) \<and>
          (\<forall>b. property p ''durationDays'' \<noteq> Some (JInf b)))) \<longrightarrow>
        post payload jobId created put_fault w = Inr (Response 400 ''Bad Request'', w))
   \<and> (payload = Some JNull \<longrightarrow>
        post payload jobId created put_fault w =
          Inl (Exn ''TypeError'' ''Cannot destructure property of null''))
   \<and> (payload = Some p \<and> property p ''destination'' = Some (JStr dest) \<and>
       (property p ''durationDays'' = Some (JNum q) \<or> property p ''durationDays'' = Some (JInf b)) \<and>
       put_fault = Some x \<longrightarrow>
        post payload jobId created put_fault w = Inl x)"
proof (intro conjI impI)
  assume run: "post payload jobId created put_fault w = Inr (res, w')"
  show "(http_status res = 400 \<and> w' = w) \<or>
      (\<exists>p dest days.
         payload = Some p \<and> property p ''destination'' = Some (JStr dest) \<and>
         ((\<exists>q. property p ''durationDays'' = Some (JNum q) \<and> days = Some q) \<or>
          (\<exists>b. property p ''durationDays'' = Some (JInf b) \<and> days = None)) \<and>
         res = Response 202 (''{\"jobId\":\"'' @ jobId @ ''\"}'') \<and>
         w' = w\<lparr>kv := (kv w)(jobId \<mapsto> Encoded \<lparr>destination = dest, durationDays = days,
                      status = ''pending'', createdAt = created, lockedAt = None, error = None\<rparr>),
                trace := trace w @ [KvPut jobId \<lparr>destination = dest, durationDays = days,
                      status = ''pending'', createdAt = created, lockedAt = None, error = None\<rparr>]\<rparr>)"
  proof (cases payload)
    case None
    with run show ?thesis by (auto simp: post_malformed)
  next
    case (Some p)
    show ?thesis
    proof (cases "\<exists>dest n. property p ''destination'' = Some (JStr dest) \<and>
        property p ''durationDays'' = Some n \<and> ((\<exists>q. n = JNum q) \<or> (\<exists>b. n = JInf b))")
      case True
      then obtain dest n where typed: "property p ''destination'' = Some (JStr dest)"
          "property p ''durationDays'' = Some n" "(\<exists>q. n = JNum q) \<or> (\<exists>b. n = JInf b)"
        by blast
      from run Some post_typed[OF typed, of jobId created put_fault w]
      have out: "res = Response 202 (''{\"jobId\":\"'' @ jobId @ ''\"}'') \<and>
          w' = w\<lparr>kv := (kv w)(jobId \<mapsto> Encoded (created_record dest (stored_number n) created)),
                 trace := trace w @ [KvPut jobId (created_record dest (stored_number n) created)]\<rparr>"
        by (cases put_fault) simp_all
      have days: "(\<exists>q. property p ''durationDays'' = Some (JNum q) \<and> stored_number n = Some q) \<or>
          (\<exists>b. property p ''durationDays'' = Some (JInf b) \<and> stored_number n = None)"
        using typed(2,3) by (auto simp: stored_number_def)
      from Some typed(1) days out show ?thesis
        unfolding created_record_def by blast
    next
      case False
      have "p \<noteq> JNull" using run Some by (auto simp: post_null)
      moreover from False have "(\<forall>dest. property p ''destination'' \<noteq> Some (JStr dest)) \<or>
          ((\<forall>q. property p ''durationDays'' \<noteq> Some (JNum q)) \<and>
           (\<forall>b. property p ''durationDays'' \<noteq> Some (JInf b)))"
        by blast
      ultimately have "post (Some p) jobId created put_fault w = Inr (Response 400 ''Bad Request'', w)"
        by (rule post_untyped)
      with run Some show ?thesis by auto
    qed
  qed
next
  assume "payload = Some p \<and> property p ''destination'' = Some (JStr dest) \<and>
       property p ''durationDays'' = Some (JNum q) \<and> put_fault = None"
  then show "post payload jobId created put_fault w =
          Inr (Response 202 (''{\"jobId\":\"'' @ jobId @ ''\"}''),
               w\<lparr>kv := (kv w)(jobId \<mapsto> Encoded \<lparr>destination = dest, durationDays = Some q,
                      status = ''pending'', createdAt = created, lockedAt = None, error = None\<rparr>),
                 trace := trace w @ [KvPut jobId \<lparr>destination = dest, durationDays = Some q,
                      status = ''pending'', createdAt = created, lockedAt = None, error = None\<rparr>]\<rparr>)"
    using post_typed[of p dest "JNum q" jobId created put_fault w]
    by (simp add: stored_number_def created_record_def)
next
  assume "payload = Some p \<and> property p ''destination'' = Some (JStr dest) \<and>
       property p ''durationDays'' = Some (JInf b) \<and> put_fault = None"
  then show "post payload jobId created put_fault w =
          Inr (Response 202 (''{\"jobId\":\"'' @ jobId @ ''\"}''),
               w\<lparr>kv := (kv w)(jobId \<mapsto> Encoded \<lparr>destination = dest, durationDays = None,
                      status = ''pending'', createdAt = created, lockedAt = None, error = None\<rparr>),
                 trace := trace w @ [KvPut jobId \<lparr>destination = dest, durationDays = None,
                      status = ''pending'', createdAt = created, lockedAt = None, error = None\<rparr>]\<rparr>)"
    using post_typed[of p dest "JInf b" jobId created put_fault w]
    by (simp add: stored_number_def created_record_def)
next
  assume "payload = None"
  then show "post payload jobId created put_fault w = Inr (Response 400 ''Invalid JSON'', w)"
    by (simp add: post_malformed)
next
  assume "payload = Some p \<and> p \<noteq> JNull \<and>
        ((\<forall>dest. property p ''destination'' \<noteq> Some (JStr dest)) \<or>
         ((\<forall>q. property p ''durationDays'' \<noteq> Some (JNum q)) \<and>
          (\<forall>b. property p ''durationDays'' \<noteq> Some (JInf b))))"
  then show "post payload jobId created put_fault w = Inr (Response 400 ''Bad Request'', w)"
    using post_untyped[of p jobId created put_fault w] by blast
next
  assume "payload = Some JNull"
  then show "post payload jobId created put_fault w =
          Inl (Exn ''TypeError'' ''Cannot destructure property of null'')"
    by (simp add: post_null)
next
  assume a: "payload = Some p \<and> property p ''destination'' = Some (JStr dest) \<and>
       (property p ''durationDays'' = Some (JNum q) \<or> property p ''durationDays'' = Some (JInf b)) \<and>
       put_fault = Some x"
  then consider "property p ''durationDays'' = Some (JNum q)"
    | "property p ''durationDays'' = Some (JInf b)"
    by blast
  then show "post payload jobId created put_fault w = Inl x"
  proof cases
    case 1
    then show ?thesis using a post_typed[of p dest "JNum q" jobId created put_fault w] by simp
  next
    case 2
    then show ?thesis using a post_typed[of p dest "JInf b" jobId created put_fault w] by simp
  qed
qed

text \<open>
  C8, as stated, fails: the request with the empty destination and 0 days is answered 202
  and its record is created; so is the request whose \<open>durationDays\<close> is \<open>1e400\<close>, which
  \<open>request.json()\<close> reads as \<open>Infinity\<close>, and its record has \<open>durationDays\<close> \<open>null\<close>.
\<close>

theorem post_creates_typed_record_counterexample:
  "post (Some (JObj [(''destination'', JStr []), (''durationDays'', JNum 0)])) ''id-1'' 1000 None
      \<lparr>kv = Map.empty, trace = []\<rparr> =
   Inr (Response 202 ''{\"jobId\":\"id-1\"}'',
        \<lparr>kv = [''id-1'' \<mapsto> Encoded \<lparr>destination = [], durationDays = Some 0, status = ''pending'',
                  createdAt = 1000, lockedAt = None, error = None\<rparr>],
           trace = [KvPut ''id-1'' \<lparr>destination = [], durationDays = Some 0, status = ''pending'',
                  createdAt = 1000, lockedAt = None, error = None\<rparr>]\<rparr>)
   \<and> post (Some (JObj [(''destination'', JStr ''Tokyo, Japan''), (''durationDays'', JInf True)]))
        ''id-6'' 1000 None \<lparr>kv = Map.empty, trace = []\<rparr> =
     Inr (Response 202 ''{\"jobId\":\"id-6\"}'',
        \<lparr>kv = [''id-6'' \<mapsto> Encoded \<lparr>destination = ''Tokyo, Japan'', durationDays = None,
                  status = ''pending'', createdAt = 1000, lockedAt = None, error = None\<rparr>],
           trace = [KvPut ''id-6'' \<lparr>destination = ''Tokyo, Japan'', durationDays = None,
                  status = ''pending'', createdAt = 1000, lockedAt = None, error = None\<rparr>]\<rparr>)"
  by (simp add: post_def property_def typeof_def text_of_def stored_number_def Let_def)

theorem post_creates_typed_record_witness:
  "post (Some (JObj [(''destination'', JStr ''Tokyo, Japan''), (''durationDays'', JNum 5)]))
      ''id-2'' 1000 None \<lparr>kv = Map.empty, trace = []\<rparr> =
     Inr (Response 202 ''{\"jobId\":\"id-2\"}'',
          \<lparr>kv = [''id-2'' \<mapsto> Encoded example_job], trace = [KvPut ''id-2'' example_job]\<rparr>)
   \<and> post (Some (JObj [(''destination'', JStr ''Tokyo, Japan''), (''durationDays'', JInf True)]))
      ''id-6'' 1000 None \<lparr>kv = Map.empty, trace = []\<rparr> =
     Inr (Response 202 ''{\"jobId\":\"id-6\"}'',
          \<lparr>kv = [''id-6'' \<mapsto> Encoded (example_job\<lparr>durationDays := None\<rparr>)],
             trace = [KvPut ''id-6'' (example_job\<lparr>durationDays := None\<rparr>)]\<rparr>)
   \<and> post None ''id-3'' 1000 None \<lparr>kv = Map.empty, trace = []\<rparr> =
     Inr (Response 400 ''Invalid JSON'', \<lparr>kv = Map.empty, trace = []\<rparr>)
   \<and> post (Some (JObj [(''destination'', JStr ''Tokyo, Japan''), (''durationDays'', JStr ''5'')]))
      ''id-4'' 1000 None \<lparr>kv = Map.empty, trace = []\<rparr> =
     Inr (Response 400 ''Bad Request'', \<lparr>kv = Map.empty, trace = []\<rparr>)
   \<and> post (Some JNull) ''id-5'' 1000 None \<lparr>kv = Map.empty, trace = []\<rparr> =
     Inl (Exn ''TypeError'' ''Cannot destructure property of null'')
   \<and> post (Some (JObj [(''destination'', JStr ''Tokyo, Japan''), (''durationDays'', JNum 5)]))
      ''id-7'' 1000 (Some (Exn ''Error'' ''KV failed'')) \<lparr>kv = Map.empty, trace = []\<rparr> =
     Inl (Exn ''Error'' ''KV failed'')
   \<and> (\<exists>dest days.
        property (JObj [(''destination'', JStr ''Tokyo, Japan''), (''durationDays'', JNum 5)])
          ''destination'' = Some (JStr dest) \<and>
        property (JObj [(''destination'', JStr ''Tokyo, Japan''), (''durationDays'', JNum 5)])
          ''durationDays'' = Some (JNum days) \<and>
        example_job = \<lparr>destination = dest, durationDays = Some days, status = ''pending'',
           createdAt = 1000, lockedAt = None, error = None\<rparr>)"
proof -
  define w0 where "w0 = \<lparr>kv = Map.empty, trace = []\<rparr>"
  define good where
    "good = JObj [(''destination'', JStr ''Tokyo, Japan''), (''durationDays'', JNum 5)]"
  define huge where
    "huge = JObj [(''destination'', JStr ''Tokyo, Japan''), (''durationDays'', JInf True)]"
  define bad where
    "bad = JObj [(''destination'', JStr ''Tokyo, Japan''), (''durationDays'', JStr ''5'')]"
  define failure where "failure = Exn ''Error'' ''KV failed''"
  note T = post_creates_typed_record
  have g: "Some good = Some good \<and> property good ''destination'' = Some (JStr ''Tokyo, Japan'') \<and>
      property good ''durationDays'' = Some (JNum 5) \<and> (None :: exn option) = None"
    by (simp add: good_def property_def)
  from T[where payload = "Some good" and p = good and dest = "''Tokyo, Japan''" and q = 5
      and put_fault = None and jobId = "''id-2''" and created = 1000 and w = w0,
      THEN conjunct2, THEN conjunct1, THEN mp, OF g]
  have accepted: "post (Some good) ''id-2'' 1000 None w0 =
      Inr (Response 202 ''{\"jobId\":\"id-2\"}'',
           \<lparr>kv = [''id-2'' \<mapsto> Encoded example_job], trace = [KvPut ''id-2'' example_job]\<rparr>)"
    by (simp add: example_job_def w0_def)
  have i: "Some huge = Some huge \<and> property huge ''destination'' = Some (JStr ''Tokyo, Japan'') \<and>
      property huge ''durationDays'' = Some (JInf True) \<and> (None :: exn option) = None"
    by (simp add: huge_def property_def)
  from T[where payload = "Some huge" and p = huge and dest = "''Tokyo, Japan''" and b = True
      and put_fault = None and jobId = "''id-6''" and created = 1000 and w = w0,
      THEN conjunct2, THEN conjunct2, THEN conjunct1, THEN mp, OF i]
  have infinite: "post (Some huge) ''id-6'' 1000 None w0 =
      Inr (Response 202 ''{\"jobId\":\"id-6\"}'',
           \<lparr>kv = [''id-6'' \<mapsto> Encoded (example_job\<lparr>durationDays := None\<rparr>)],
              trace = [KvPut ''id-6'' (example_job\<lparr>durationDays := None\<rparr>)]\<rparr>)"
    by (simp add: example_job_def w0_def)
  from T[where payload = None and put_fault = None and jobId = "''id-3''" and created = 1000
      and w = w0,
      THEN conjunct2, THEN conjunct2, THEN conjunct2, THEN conjunct1, THEN mp, OF refl]
  have malformed: "post None ''id-3'' 1000 None w0 = Inr (Response 400 ''Invalid JSON'', w0)" .
  have u: "Some bad = Some bad \<and> bad \<noteq> JNull \<and>
      ((\<forall>dest. property bad ''destination'' \<noteq> Some (JStr dest)) \<or>
       ((\<forall>q. property bad ''durationDays'' \<noteq> Some (JNum q)) \<and>
        (\<forall>b. property bad ''durationDays'' \<noteq> Some (JInf b))))"
    by (simp add: bad_def property_def)
  from T[where payload = "Some bad" and p = bad and put_fault = None and jobId = "''id-4''"
      and created = 1000 and w = w0,
      THEN conjunct2, THEN conjunct2, THEN conjunct2, THEN conjunct2, THEN conjunct1, THEN mp,
      OF u]
  have untyped: "post (Some bad) ''id-4'' 1000 None w0 = Inr (Response 400 ''Bad Request'', w0)" .
  from T[where payload = "Some JNull" and put_fault = None and jobId = "''id-5''"
      and created = 1000 and w = w0,
      THEN conjunct2, THEN conjunct2, THEN conjunct2, THEN conjunct2, THEN conjunct2,
      THEN conjunct1, THEN mp, OF refl]
  have null: "post (Some JNull) ''id-5'' 1000 None w0 =
      Inl (Exn ''TypeError'' ''Cannot destructure property of null'')" .
  have r: "Some good = Some good \<and> property good ''destination'' = Some (JStr ''Tokyo, Japan'') \<and>
      (property good ''durationDays'' = Some (JNum 5) \<or>
       property good ''durationDays'' = Some (JInf True)) \<and>
      Some failure = Some failure"
    by (simp add: good_def property_def)
  from T[where payload = "Some good" and p = good and dest = "''Tokyo, Japan''" and q = 5
      and b = True and put_fault = "Some failure" and x = failure and jobId = "''id-7''"
      and created = 1000 and w = w0,
      THEN conjunct2, THEN conjunct2, THEN conjunct2, THEN conjunct2, THEN conjunct2,
      THEN conjunct2, THEN mp, OF r]
  have refused: "post (Some good) ''id-7'' 1000 (Some failure) w0 = Inl failure" .
  from T[where payload = "Some good" and put_fault = None and jobId = "''id-2''"
      and created = 1000 and w = w0 and res = "Response 202 ''{\"jobId\":\"id-2\"}''"
      and w' = "\<lparr>kv = [''id-2'' \<mapsto> Encoded example_job], trace = [KvPut ''id-2'' example_job]\<rparr>",
      THEN conjunct1, THEN mp, OF accepted]
  have "\<exists>p dest days.
      Some good = Some p \<and> property p ''destination'' = Some (JStr dest) \<and>
      ((\<exists>q. property p ''durationDays'' = Some (JNum q) \<and> days = Some q) \<or>
       (\<exists>b. property p ''durationDays'' = Some (JInf b) \<and> days = None)) \<and>
      Response 202 ''{\"jobId\":\"id-2\"}'' = Response 202 (''{\"jobId\":\"'' @ ''id-2'' @ ''\"}'') \<and>
      \<lparr>kv = [''id-2'' \<mapsto> Encoded example_job], trace = [KvPut ''id-2'' example_job]\<rparr> =
        w0\<lparr>kv := (kv w0)(''id-2'' \<mapsto> Encoded \<lparr>destination = dest, durationDays = days,
                 status = ''pending'', createdAt = 1000, lockedAt = None, error = None\<rparr>),
           trace := trace w0 @ [KvPut ''id-2'' \<lparr>destination = dest, durationDays = days,
                 status = ''pending'', createdAt = 1000, lockedAt = None, error = None\<rparr>]\<rparr>"
    by simp
  then obtain dest days where d: "property good ''destination'' = Some (JStr dest)"
    and n: "(\<exists>q. property good ''durationDays'' = Some (JNum q) \<and> days = Some q) \<or>
       (\<exists>b. property good ''durationDays'' = Some (JInf b) \<and> days = None)"
    and k: "\<lparr>kv = [''id-2'' \<mapsto> Encoded example_job], trace = [KvPut ''id-2'' example_job]\<rparr> =
        w0\<lparr>kv := (kv w0)(''id-2'' \<mapsto> Encoded \<lparr>destination = dest, durationDays = days,
                 status = ''pending'', createdAt = 1000, lockedAt = None, error = None\<rparr>),
           trace := trace w0 @ [KvPut ''id-2'' \<lparr>destination = dest, durationDays = days,
                 status = ''pending'', createdAt = 1000, lockedAt = None, error = None\<rparr>]\<rparr>"
    by blast
  from k have rec: "example_job = \<lparr>destination = dest, durationDays = days, status = ''pending'',
      createdAt = 1000, lockedAt = None, error = None\<rparr>"
    by (simp add: w0_def)
  from n obtain q where q: "property good ''durationDays'' = Some (JNum q)" "days = Some q"
    by (auto simp: good_def property_def)
  from d q rec have shape: "\<exists>dest days.
      property good ''destination'' = Some (JStr dest) \<and>
      property good ''durationDays'' = Some (JNum days) \<and>
      example_job = \<lparr>destination = dest, durationDays = Some days, status = ''pending'',
         createdAt = 1000, lockedAt = None, error = None\<rparr>"
    by blast
  from accepted infinite malformed untyped null refused shape show ?thesis
    unfolding w0_def good_def huge_def bad_def failure_def by (intro conjI)
qed

end
